theory Spec2Isabelle
  imports Main "HOL-Library.Word"
begin

section \<open>Data model of the flow runner (main.go)\<close>

text \<open>
  The variable store is Go's \<^verbatim>\<open>map[string]string\<close>: a partial map from names to
  values. A \<^verbatim>\<open>save\<close> map is kept as an association list: Go iterates a map in an
  unspecified order, and the list fixes the order one run of the loop happens to take.
  Its keys are pairwise distinct, as the keys of a Go map are.
\<close>

type_synonym vars = "string \<rightharpoonup> string"

type_synonym strmap = "(string \<times> string) list"

record MongoStep =
  URI :: string
  Database :: string
  Collection :: string
  Operation :: string
  Filter :: string
  Document :: string
  Update :: string
  Pipeline :: string
  Command :: string
  Limit :: int

record GRPCStep =
  Target :: string
  grpc_Method :: string
  Request :: string
  Format :: string
  Metadata :: strmap
  ReflectionMetadata :: strmap
  UseTLS :: bool
  SkipTLSVerify :: bool
  CACert :: string
  ClientCert :: string
  ClientKey :: string
  ServerName :: string
  ProtoSets :: "string list"
  ProtoFiles :: "string list"
  ProtoPaths :: "string list"
  UseReflection :: "bool option"
  ExpectCode :: string

record Step =
  Wait :: string
  Skip :: bool
  Export :: bool
  Name :: string
  TimeoutSeconds :: int
  Method :: string
  URL :: string
  Headers :: strmap
  Body :: string
  ExpectStatus :: int
  Save :: strmap
  SQL :: string
  DatabaseURL :: string
  ExpectAffectedRows :: int
  Mongo :: "MongoStep option"
  GRPC :: "GRPCStep option"

text \<open>
  Every \<^verbatim>\<open>fmt.Errorf\<close> of the modelled functions is one constructor, carrying the
  arguments of its format string (the step name first, a wrapped cause last). The many
  errors of the document-store executor that share the formats
  \<^verbatim>\<open>step %q: <what>: %w\<close> and \<^verbatim>\<open>step %q: <what>\<close> are \<open>ErrStepWrap\<close> and
  \<open>ErrStepMsg\<close>, with the fixed text \<open><what>\<close> as second argument.
\<close>

datatype error =
    ErrParseWait string string
  | ErrRequiresFields string
  | ErrUnexpectedAffectedRows string int
  | ErrExecuteSQL string string
  | ErrGetAffectedRows string string
  | ErrQuerySQL string string
  | ErrFetchColumns string string
  | ErrScanRow string string
  | ErrIterateRows string string
  | ErrNoRowsToSave string
  | ErrColumnNotFound string string
  | ErrRequiresDatabaseURL string
  | ErrOpenDatabase string string
  | ErrPingDatabase string string
  | ErrCreateExportFile string
  | ErrWriteExportedVars string
  | PanicIndexOutOfRange nat nat
  | ErrMissingMongoConfig string
  | ErrRequiresMongoURI string
  | ErrRequiresMongoDatabase string
  | ErrRequiresMongoCollection string string
  | ErrConnectMongo string string
  | ErrPingMongo string string
  | ErrStepWrap string string string
  | ErrStepMsg string string
  | ErrUnsupportedMongoOperation string string
  | ErrBuildRequest string string
  | ErrSendRequest string string
  | ErrReadResponseBody string string
  | ErrUnexpectedStatus string int
  | ErrMissingGRPCConfig string
  | ErrRequiresGRPCTarget string
  | ErrRequiresGRPCMethod string
  | ErrStep string string
  | ErrDialGRPC string string
  | ErrPrepareDescriptorSource string string
  | ErrBuildGRPCParser string string
  | ErrGRPCCall string string
  | ErrProcessGRPCResponse string string
  | ErrGRPCExpected string string string string
  | ErrGRPCFailed string string


section \<open>The world outside the program\<close>

text \<open>
  What the SQL driver hands back. A column value (\<^verbatim>\<open>any\<close>) is \<^verbatim>\<open>nil\<close> for
  NULL (\<open>None\<close>), a \<^verbatim>\<open>[]byte\<close>, or some other Go value of type \<open>'a\<close>.
  \<open>fetched\<close> lists the rows for which \<^verbatim>\<open>rows.Next()\<close> answered true, each with
  what \<^verbatim>\<open>rows.Scan\<close> would deliver (its error, or the values of the row);
  \<open>Err\<close> is \<^verbatim>\<open>rows.Err()\<close> after the loop.
\<close>

datatype 'a anyval = ByteSlice string | OtherVal 'a

record 'a sqlRows =
  Columns :: "string + string list"
  fetched :: "(string + 'a anyval option list) list"
  Err :: "string option"

text \<open>
  A database handle: the outcome of \<^verbatim>\<open>PingContext\<close>, of \<^verbatim>\<open>ExecContext\<close>
  (its error, or the result whose \<^verbatim>\<open>RowsAffected()\<close> is an error or a count) and of
  \<^verbatim>\<open>QueryContext\<close>, per statement.
\<close>

record 'a sqlDB =
  PingContext :: "string option"
  ExecContext :: "string \<Rightarrow> string + (string + int)"
  QueryContext :: "string \<Rightarrow> string + 'a sqlRows"

record exportRecord =
  Step :: string
  Vars :: vars

text \<open>
  The library and operating-system functions the program calls are parameters of the
  model, collected in one record, so that every theorem holds for whatever they compute:
  \<^verbatim>\<open>strings.TrimSpace\<close>, \<^verbatim>\<open>strings.ToLower\<close>, the verbs \<^verbatim>\<open>%q\<close> and
  \<^verbatim>\<open>%d\<close> of \<^verbatim>\<open>fmt\<close>, \<^verbatim>\<open>fmt.Sprint\<close> on a driver value, the template engine
  (\<open>Parse\<close> is \<^verbatim>\<open>template.New("flow").Funcs(templateFuncs).Option("missingkey=zero").Parse\<close>,
  \<open>Execute\<close> is \<^verbatim>\<open>t.Execute\<close> into a buffer; \<open>None\<close> is an error),
  the error of \<^verbatim>\<open>time.ParseDuration\<close>, \<^verbatim>\<open>os.Getenv\<close>, \<^verbatim>\<open>json.Valid\<close>,
  \<^verbatim>\<open>gjson.GetBytes(doc, path).String()\<close>, the error of \<^verbatim>\<open>os.Create\<close>, the
  indented JSON object of one export record, \<^verbatim>\<open>sql.Open("postgres", url)\<close>, the error
  of \<^verbatim>\<open>http.NewRequestWithContext\<close> for a method and a URL, and the HTTP client:
  for a method, a URL, the headers and the body (\<open>None\<close> when there is none), the error
  of \<^verbatim>\<open>client.Do\<close> or the status code with what \<^verbatim>\<open>io.ReadAll\<close> gives on the
  response body. Each is a function, so a template that draws random values is taken to
  draw the same ones whenever it is executed on the same variables.
\<close>

record ('t, 'a) golib =
  TrimSpace :: "string \<Rightarrow> string"
  ToLower :: "string \<Rightarrow> string"
  Quote :: "string \<Rightarrow> string"
  Itoa :: "int \<Rightarrow> string"
  Sprint :: "'a \<Rightarrow> string"
  Parse :: "string \<Rightarrow> 't option"
  Execute :: "'t \<Rightarrow> vars \<Rightarrow> string option"
  ParseDuration :: "string \<Rightarrow> string option"
  Getenv :: "string \<Rightarrow> string"
  Valid :: "string \<Rightarrow> bool"
  GetBytes :: "string \<Rightarrow> string \<Rightarrow> string"
  Create :: "string \<Rightarrow> string option"
  MarshalRecord :: "exportRecord \<Rightarrow> string"
  Open :: "string \<Rightarrow> string + 'a sqlDB"
  NewRequest :: "string \<Rightarrow> string \<Rightarrow> string option"
  Do :: "string \<Rightarrow> string \<Rightarrow> strmap \<Rightarrow> string option \<Rightarrow> string + int \<times> (string + string)"

text \<open>Reading a Go map at a key it does not hold gives the zero value, the empty string.\<close>

definition index :: "vars \<Rightarrow> string \<Rightarrow> string" where
  "index vars k = (case vars k of None \<Rightarrow> [] | Some v \<Rightarrow> v)"

section \<open>Template rendering\<close>

definition render :: "('t, 'a) golib \<Rightarrow> string \<Rightarrow> vars \<Rightarrow> string" where
  "render L tmpl vars =
     (if tmpl = [] then []
      else case Parse L tmpl of
        None \<Rightarrow> tmpl
      | Some t \<Rightarrow>
          (case Execute L t vars of
             None \<Rightarrow> tmpl
           | Some buf \<Rightarrow> TrimSpace L buf))"

section \<open>Saving values\<close>

text \<open>
  \<^verbatim>\<open>saveValues\<close> walks the save map; \<^verbatim>\<open>saveCount\<close> only drives console output
  and is left out. The function has no error result in the source either.
\<close>

fun saveValues :: "('t, 'a) golib \<Rightarrow> string \<Rightarrow> strmap \<Rightarrow> vars \<Rightarrow> vars" where
  "saveValues L respBytes [] vars = vars"
| "saveValues L respBytes ((varName, jsonPath) # save) vars =
     (let val = GetBytes L respBytes jsonPath in
      if val = [] then saveValues L respBytes save vars
      else saveValues L respBytes save (vars(varName \<mapsto> val)))"

definition anyToString :: "('t, 'a) golib \<Rightarrow> 'a anyval \<Rightarrow> string" where
  "anyToString L val = (case val of ByteSlice v \<Rightarrow> v | OtherVal v \<Rightarrow> Sprint L v)"

text \<open>
  The loop of \<^verbatim>\<open>saveRowValues\<close> over \<^verbatim>\<open>step.Save\<close>. The store is a Go map
  mutated in place, so the store as it stands is returned beside the error as well.
  Indexing \<^verbatim>\<open>rowValues\<close> out of range panics in Go.
\<close>

fun saveRowValues_loop ::
  "('t, 'a) golib \<Rightarrow> string \<Rightarrow> strmap \<Rightarrow> vars \<Rightarrow> 'a anyval option list \<Rightarrow> (string \<rightharpoonup> nat)
     \<Rightarrow> error option \<times> vars" where
  "saveRowValues_loop L name [] vars rowValues columnIndex = (None, vars)"
| "saveRowValues_loop L name ((varName, column) # save) vars rowValues columnIndex =
     (let target = (if TrimSpace L column = [] then varName else TrimSpace L column) in
      case columnIndex (ToLower L target) of
        None \<Rightarrow> (Some (ErrColumnNotFound name target), vars)
      | Some idx \<Rightarrow>
          if length rowValues \<le> idx then (Some (PanicIndexOutOfRange idx (length rowValues)), vars)
          else (case rowValues ! idx of
                  None \<Rightarrow> saveRowValues_loop L name save vars rowValues columnIndex
                | Some val \<Rightarrow>
                    saveRowValues_loop L name save (vars(varName \<mapsto> anyToString L val))
                      rowValues columnIndex))"

definition saveRowValues ::
  "('t, 'a) golib \<Rightarrow> Step \<Rightarrow> vars \<Rightarrow> 'a anyval option list \<Rightarrow> (string \<rightharpoonup> nat)
     \<Rightarrow> error option \<times> vars" where
  "saveRowValues L step vars rowValues columnIndex =
     saveRowValues_loop L (Name step) (Save step) vars rowValues columnIndex"

section \<open>SQL executor\<close>

definition runSQLWithoutSave :: "'a sqlDB \<Rightarrow> Step \<Rightarrow> string \<Rightarrow> error + int" where
  "runSQLWithoutSave db step sqlStmt =
     (case ExecContext db sqlStmt of
        Inl e \<Rightarrow> Inl (ErrExecuteSQL (Name step) e)
      | Inr results \<Rightarrow>
          (case results of
             Inl e \<Rightarrow> Inl (ErrGetAffectedRows (Name step) e)
           | Inr rowsAffected \<Rightarrow> Inr rowsAffected))"

text \<open>\<^verbatim>\<open>for i, col := range columns { columnIndex[strings.ToLower(col)] = i }\<close>\<close>

fun columnIndex_loop ::
  "('t, 'a) golib \<Rightarrow> nat \<Rightarrow> string list \<Rightarrow> (string \<rightharpoonup> nat) \<Rightarrow> (string \<rightharpoonup> nat)" where
  "columnIndex_loop L i [] columnIndex = columnIndex"
| "columnIndex_loop L i (col # columns) columnIndex =
     columnIndex_loop L (Suc i) columns (columnIndex(ToLower L col \<mapsto> i))"

text \<open>
  \<^verbatim>\<open>rows.Scan(scanTargets...)\<close> into the \<^verbatim>\<open>len(columns)\<close> cells of
  \<^verbatim>\<open>values\<close>: the driver's error, or an error when the row does not have as many
  values as there are targets, or the values.
\<close>

definition Scan ::
  "('t, 'a) golib \<Rightarrow> string list \<Rightarrow> string + 'a anyval option list \<Rightarrow> string + 'a anyval option list" where
  "Scan L columns row =
     (case row of
        Inl e \<Rightarrow> Inl e
      | Inr vs \<Rightarrow>
          if length vs \<noteq> length columns
          then Inl (''sql: expected '' @ Itoa L (int (length vs)) @
                    '' destination arguments in Scan, not '' @ Itoa L (int (length columns)))
          else Inr vs)"

text \<open>The \<^verbatim>\<open>for rows.Next()\<close> loop of \<^verbatim>\<open>runSQLAndSave\<close>.\<close>

fun rows_loop ::
  "('t, 'a) golib \<Rightarrow> Step \<Rightarrow> string list \<Rightarrow> (string \<rightharpoonup> nat) \<Rightarrow> (string + 'a anyval option list) list
     \<Rightarrow> bool \<Rightarrow> int \<Rightarrow> vars \<Rightarrow> (error + int) \<times> vars" where
  "rows_loop L step columns columnIndex [] savedFirstRow affectedRows vars =
     (Inr affectedRows, vars)"
| "rows_loop L step columns columnIndex (row # rest) savedFirstRow affectedRows vars =
     (case Scan L columns row of
        Inl e \<Rightarrow> (Inl (ErrScanRow (Name step) e), vars)
      | Inr values \<Rightarrow>
          if \<not> savedFirstRow then
            (case saveRowValues L step vars values columnIndex of
               (Some e, vars') \<Rightarrow> (Inl e, vars')
             | (None, vars') \<Rightarrow>
                 rows_loop L step columns columnIndex rest True (affectedRows + 1) vars')
          else rows_loop L step columns columnIndex rest savedFirstRow (affectedRows + 1) vars)"

definition runSQLAndSave ::
  "('t, 'a) golib \<Rightarrow> 'a sqlDB \<Rightarrow> Step \<Rightarrow> string \<Rightarrow> vars \<Rightarrow> (error + int) \<times> vars" where
  "runSQLAndSave L db step sqlStmt vars =
     (case QueryContext db sqlStmt of
        Inl e \<Rightarrow> (Inl (ErrQuerySQL (Name step) e), vars)
      | Inr rows \<Rightarrow>
          (case Columns rows of
             Inl e \<Rightarrow> (Inl (ErrFetchColumns (Name step) e), vars)
           | Inr columns \<Rightarrow>
               (let columnIndex = columnIndex_loop L 0 columns Map.empty in
                case rows_loop L step columns columnIndex (fetched rows) False 0 vars of
                  (Inl e, vars') \<Rightarrow> (Inl e, vars')
                | (Inr affectedRows, vars') \<Rightarrow>
                    (case Err rows of
                       Some e \<Rightarrow> (Inl (ErrIterateRows (Name step) e), vars')
                     | None \<Rightarrow>
                         if affectedRows = 0 then (Inl (ErrNoRowsToSave (Name step)), vars')
                         else (Inr affectedRows, vars')))))"

definition executeSQLAndMaybeSave ::
  "('t, 'a) golib \<Rightarrow> 'a sqlDB \<Rightarrow> Step \<Rightarrow> string \<Rightarrow> vars \<Rightarrow> (error + int) \<times> vars" where
  "executeSQLAndMaybeSave L db step sqlStmt vars =
     (if length (Save step) = 0 then (runSQLWithoutSave db step sqlStmt, vars)
      else runSQLAndSave L db step sqlStmt vars)"

section \<open>Affected-row expectation\<close>

text \<open>
  \<^verbatim>\<open>ensureExpectedAffectedRows\<close>: \<^verbatim>\<open>nil\<close> is \<open>None\<close>. The console output
  of the failing branch is not modelled.
\<close>

definition ensureExpectedAffectedRows :: "Step \<Rightarrow> int \<Rightarrow> error option" where
  "ensureExpectedAffectedRows step affectedRows =
     (if ExpectAffectedRows step = 0 \<or> affectedRows = ExpectAffectedRows step then None
      else Some (ErrUnexpectedAffectedRows (Name step) affectedRows))"

definition emptyStep :: Step where
  "emptyStep = \<lparr>Wait = [], Skip = False, Export = False, Name = [], TimeoutSeconds = 0,
     Method = [], URL = [], Headers = [], Body = [], ExpectStatus = 0, Save = [],
     SQL = [], DatabaseURL = [], ExpectAffectedRows = 0, Mongo = None, GRPC = None\<rparr>"


text \<open>
  \<^verbatim>\<open>executeSQLStep\<close>. The step's timeout only bounds the driver calls, whose
  outcomes are given; console output is not modelled.
\<close>

definition executeSQLStep ::
  "('t, 'a) golib \<Rightarrow> Step \<Rightarrow> string \<Rightarrow> vars \<Rightarrow> error option \<times> vars" where
  "executeSQLStep L step sqlStmt vars =
     (let dbURL = TrimSpace L (render L (DatabaseURL step) vars);
          dbURL = (if dbURL = [] then TrimSpace L (index vars ''database_url'') else dbURL);
          dbURL = (if dbURL = [] then TrimSpace L (Getenv L ''DATABASE_URL'') else dbURL)
      in if dbURL = [] then (Some (ErrRequiresDatabaseURL (Name step)), vars)
         else case Open L dbURL of
           Inl e \<Rightarrow> (Some (ErrOpenDatabase (Name step) e), vars)
         | Inr db \<Rightarrow>
             (case PingContext db of
                Some e \<Rightarrow> (Some (ErrPingDatabase (Name step) e), vars)
              | None \<Rightarrow>
                  (case executeSQLAndMaybeSave L db step sqlStmt vars of
                     (Inl e, vars') \<Rightarrow> (Some e, vars')
                   | (Inr affectedRows, vars') \<Rightarrow>
                       (ensureExpectedAffectedRows step affectedRows, vars'))))"


section \<open>Export sink\<close>

text \<open>
  An \<^verbatim>\<open>*os.File\<close> is the bytes written to it so far and whether it has been closed;
  a write to a closed file fails and writes nothing. \<^verbatim>\<open>os.Create\<close> gives an open,
  empty file.
\<close>

record osFile =
  closed :: bool
  written :: string

record varExporter =
  "file" :: "osFile option"
  records :: "exportRecord list"

record FlowRunner =
  exporter :: "varExporter option"

definition file_Write :: "osFile \<Rightarrow> string \<Rightarrow> string option \<times> osFile" where
  "file_Write f bytes =
     (if closed f then (Some ''file already closed'', f)
      else (None, f\<lparr>written := written f @ bytes\<rparr>))"

definition newVarExporter :: "('t, 'a) golib \<Rightarrow> string \<Rightarrow> error + varExporter" where
  "newVarExporter L path =
     (case Create L path of
        Some e \<Rightarrow> Inl (ErrCreateExportFile e)
      | None \<Rightarrow> Inr \<lparr>file = Some \<lparr>closed = False, written = []\<rparr>, records = []\<rparr>)"

definition varExporter_Record ::
  "varExporter option \<Rightarrow> string \<Rightarrow> vars \<Rightarrow> varExporter option" where
  "varExporter_Record e stepName values =
     (case e of
        None \<Rightarrow> None
      | Some x \<Rightarrow> Some (x\<lparr>records := records x @ [\<lparr>Step = stepName, Vars = values\<rparr>]\<rparr>))"

text \<open>
  \<^verbatim>\<open>json.Encoder.Encode\<close> with \<^verbatim>\<open>SetIndent("", "  ")\<close> on a slice of records:
  the empty slice is \<^verbatim>\<open>[]\<close>, a longer one has one indented object per element; a
  newline follows, and the whole goes to the file in one write. Marshalling records of
  strings cannot fail, so the only error is the write's.
\<close>

fun joinWith :: "string \<Rightarrow> string list \<Rightarrow> string" where
  "joinWith sep [] = []"
| "joinWith sep [x] = x"
| "joinWith sep (x # y # ys) = x @ sep @ joinWith sep (y # ys)"

definition encodeRecords :: "('t, 'a) golib \<Rightarrow> exportRecord list \<Rightarrow> string" where
  "encodeRecords L rs =
     (if rs = [] then ''[]''
      else ''['' @ [CHR 0x0A] @ ''  '' @ joinWith ('','' @ [CHR 0x0A] @ ''  '') (map (MarshalRecord L) rs)
           @ [CHR 0x0A] @ '']'')"

definition Encode :: "('t, 'a) golib \<Rightarrow> osFile \<Rightarrow> exportRecord list \<Rightarrow> string option \<times> osFile" where
  "Encode L f rs = file_Write f (encodeRecords L rs @ [CHR 0x0A])"

text \<open>
  \<^verbatim>\<open>varExporter.Close\<close>. A nil \<^verbatim>\<open>records\<close> slice is replaced by an empty one
  before encoding; both are the empty list here. The deferred \<^verbatim>\<open>e.file.Close()\<close>
  closes the file whatever the encoder returned.
\<close>

definition varExporter_Close ::
  "('t, 'a) golib \<Rightarrow> varExporter option \<Rightarrow> error option \<times> varExporter option" where
  "varExporter_Close L e =
     (case e of
        None \<Rightarrow> (None, None)
      | Some x \<Rightarrow>
          (case file x of
             None \<Rightarrow> (None, Some x)
           | Some f \<Rightarrow>
               (case Encode L f (records x) of
                  (werr, f') \<Rightarrow>
                    (map_option ErrWriteExportedVars werr,
                     Some (x\<lparr>file := Some (f'\<lparr>closed := True\<rparr>)\<rparr>)))))"

definition FlowRunner_Close ::
  "('t, 'a) golib \<Rightarrow> FlowRunner option \<Rightarrow> error option \<times> FlowRunner option" where
  "FlowRunner_Close L r =
     (case r of
        None \<Rightarrow> (None, None)
      | Some x \<Rightarrow>
          (case exporter x of
             None \<Rightarrow> (None, Some x)
           | Some e \<Rightarrow>
               (case varExporter_Close L (Some e) of
                  (err, e') \<Rightarrow> (err, Some (x\<lparr>exporter := e'\<rparr>)))))"

text \<open>\<^verbatim>\<open>for k := range step.Save { exportMap[k] = vars[k] }\<close>\<close>

fun exportMap_loop :: "strmap \<Rightarrow> vars \<Rightarrow> vars \<Rightarrow> vars" where
  "exportMap_loop [] vars exportMap = exportMap"
| "exportMap_loop ((k, p) # save) vars exportMap =
     exportMap_loop save vars (exportMap(k \<mapsto> index vars k))"

definition recordExport :: "FlowRunner \<Rightarrow> Step \<Rightarrow> vars \<Rightarrow> FlowRunner" where
  "recordExport r step vars =
     (if \<not> Export step \<or> exporter r = None then r
      else r\<lparr>exporter :=
             varExporter_Record (exporter r) (Name step) (exportMap_loop (Save step) vars Map.empty)\<rparr>)"

section \<open>Document-store executor\<close>

text \<open>
  The MongoDB driver and the BSON codec are parameters as well. \<open>'doc\<close> is
  \<^verbatim>\<open>bson.M\<close>, \<open>'arr\<close> is \<^verbatim>\<open>bson.A\<close>, \<open>'id\<close> an id value. Each driver call is
  given by what it returns for the database, the collection and the documents it is
  called with; a cursor call is its own error or the outcome of \<^verbatim>\<open>cursor.All\<close>.
\<close>

datatype 'doc findOneResult = ErrNoDocuments | FindOneError string | FindOneDoc 'doc

record 'id UpdateResult =
  MatchedCount :: int
  ModifiedCount :: int
  UpsertedCount :: int
  UpsertedID :: "'id option"

text \<open>The values handed to \<^verbatim>\<open>bsonToJSON\<close>, one constructor per call.\<close>

datatype ('doc, 'id) bsonValue =
    FoundDoc 'doc
  | FoundDocs "'doc list"
  | InsertedID 'id
  | UpdateCounts "'id UpdateResult"
  | DeletedCount int
  | CommandResult 'doc

record ('doc, 'arr, 'id) mongolib =
  UnmarshalM :: "string \<Rightarrow> string + 'doc"
  UnmarshalA :: "string \<Rightarrow> string + 'arr"
  emptyM :: 'doc
  lenM :: "'doc \<Rightarrow> nat"
  MarshalExtJSON :: "('doc, 'id) bsonValue \<Rightarrow> string + string"
  Connect :: "string \<Rightarrow> string option"
  Ping :: "string \<Rightarrow> string option"
  FindOne :: "string \<Rightarrow> string \<Rightarrow> 'doc \<Rightarrow> 'doc findOneResult"
  Find :: "string \<Rightarrow> string \<Rightarrow> 'doc \<Rightarrow> int option \<Rightarrow> string + (string + 'doc list)"
  Aggregate :: "string \<Rightarrow> string \<Rightarrow> 'arr \<Rightarrow> string + (string + 'doc list)"
  InsertOne :: "string \<Rightarrow> string \<Rightarrow> 'doc \<Rightarrow> string + 'id"
  UpdateOne :: "string \<Rightarrow> string \<Rightarrow> 'doc \<Rightarrow> 'doc \<Rightarrow> string + 'id UpdateResult"
  DeleteOne :: "string \<Rightarrow> string \<Rightarrow> 'doc \<Rightarrow> string + int"
  RunCommand :: "string \<Rightarrow> 'doc \<Rightarrow> string + 'doc"

definition mongoOpFindOne :: string where "mongoOpFindOne = ''findone''"
definition mongoOpFind :: string where "mongoOpFind = ''find''"
definition mongoOpAggregate :: string where "mongoOpAggregate = ''aggregate''"
definition mongoOpInsertOne :: string where "mongoOpInsertOne = ''insertone''"
definition mongoOpUpdateOne :: string where "mongoOpUpdateOne = ''updateone''"
definition mongoOpDeleteOne :: string where "mongoOpDeleteOne = ''deleteone''"
definition mongoOpCommand :: string where "mongoOpCommand = ''command''"

definition normalizeMongoOperation :: "('t, 'a) golib \<Rightarrow> string \<Rightarrow> string" where
  "normalizeMongoOperation L op =
     (let s = ToLower L (TrimSpace L op) in
      if s = [] \<or> s = ''findone'' \<or> s = ''find_one'' then mongoOpFindOne
      else if s = ''find'' \<or> s = ''findmany'' \<or> s = ''find_many'' then mongoOpFind
      else if s = ''aggregate'' then mongoOpAggregate
      else if s = ''insert'' \<or> s = ''insertone'' \<or> s = ''insert_one'' then mongoOpInsertOne
      else if s = ''update'' \<or> s = ''updateone'' \<or> s = ''update_one'' then mongoOpUpdateOne
      else if s = ''delete'' \<or> s = ''deleteone'' \<or> s = ''delete_one'' then mongoOpDeleteOne
      else if s = ''command'' then mongoOpCommand
      else s)"

definition parseBSONDocument ::
  "('doc, 'arr, 'id) mongolib \<Rightarrow> ('t, 'a) golib \<Rightarrow> string \<Rightarrow> string + 'doc" where
  "parseBSONDocument M L payload =
     (let trimmed = TrimSpace L payload in
      if trimmed = [] then Inr (emptyM M) else UnmarshalM M trimmed)"

definition parseBSONArray ::
  "('doc, 'arr, 'id) mongolib \<Rightarrow> ('t, 'a) golib \<Rightarrow> string \<Rightarrow> string + 'arr" where
  "parseBSONArray M L payload =
     (let trimmed = TrimSpace L payload in
      if trimmed = [] then Inl ''pipeline is required'' else UnmarshalA M trimmed)"

definition bsonToJSON :: "('doc, 'arr, 'id) mongolib \<Rightarrow> ('doc, 'id) bsonValue \<Rightarrow> string + string" where
  "bsonToJSON M v = MarshalExtJSON M v"

text \<open>
  The \<^verbatim>\<open>switch op\<close> of \<^verbatim>\<open>executeMongoStep\<close>, as a function of its own: an error,
  or \<^verbatim>\<open>resultPayload\<close> and \<^verbatim>\<open>affected\<close> as they stand after the switch.
\<close>

definition mongoSwitch ::
  "('doc, 'arr, 'id) mongolib \<Rightarrow> ('t, 'a) golib \<Rightarrow> Step \<Rightarrow> MongoStep \<Rightarrow> vars \<Rightarrow> string \<Rightarrow> string
     \<Rightarrow> string \<Rightarrow> error + string \<times> int" where
  "mongoSwitch M L step cfg vars dbName collName op =
    (if op = mongoOpFindOne then
       (case parseBSONDocument M L (render L (Filter cfg) vars) of
          Inl e \<Rightarrow> Inl (ErrStepWrap (Name step) ''parse mongo filter'' e)
        | Inr filterDoc \<Rightarrow>
            (case FindOne M dbName collName filterDoc of
               ErrNoDocuments \<Rightarrow> Inr (''null'', 0)
             | FindOneError e \<Rightarrow> Inl (ErrStepWrap (Name step) ''mongo findOne failed'' e)
             | FindOneDoc doc \<Rightarrow>
                 (case bsonToJSON M (FoundDoc doc) of
                    Inl e \<Rightarrow> Inl (ErrStepWrap (Name step) ''encode mongo findOne result'' e)
                  | Inr payload \<Rightarrow> Inr (payload, 1))))
     else if op = mongoOpFind then
       (case parseBSONDocument M L (render L (Filter cfg) vars) of
          Inl e \<Rightarrow> Inl (ErrStepWrap (Name step) ''parse mongo filter'' e)
        | Inr filterDoc \<Rightarrow>
            (case Find M dbName collName filterDoc (if Limit cfg > 0 then Some (Limit cfg) else None) of
               Inl e \<Rightarrow> Inl (ErrStepWrap (Name step) ''mongo find failed'' e)
             | Inr cursor \<Rightarrow>
                 (case cursor of
                    Inl e \<Rightarrow> Inl (ErrStepWrap (Name step) ''read mongo find results'' e)
                  | Inr docs \<Rightarrow>
                      (case bsonToJSON M (FoundDocs docs) of
                         Inl e \<Rightarrow> Inl (ErrStepWrap (Name step) ''encode mongo find results'' e)
                       | Inr payload \<Rightarrow> Inr (payload, int (length docs))))))
     else if op = mongoOpAggregate then
       (case parseBSONArray M L (render L (Pipeline cfg) vars) of
          Inl e \<Rightarrow> Inl (ErrStepWrap (Name step) ''parse mongo pipeline'' e)
        | Inr pipeline \<Rightarrow>
            (case Aggregate M dbName collName pipeline of
               Inl e \<Rightarrow> Inl (ErrStepWrap (Name step) ''mongo aggregate failed'' e)
             | Inr cursor \<Rightarrow>
                 (case cursor of
                    Inl e \<Rightarrow> Inl (ErrStepWrap (Name step) ''read mongo aggregate results'' e)
                  | Inr docs \<Rightarrow>
                      (case bsonToJSON M (FoundDocs docs) of
                         Inl e \<Rightarrow> Inl (ErrStepWrap (Name step) ''encode mongo aggregate results'' e)
                       | Inr payload \<Rightarrow> Inr (payload, int (length docs))))))
     else if op = mongoOpInsertOne then
       (case parseBSONDocument M L (render L (Document cfg) vars) of
          Inl e \<Rightarrow> Inl (ErrStepWrap (Name step) ''parse mongo document'' e)
        | Inr document \<Rightarrow>
            if lenM M document = 0
            then Inl (ErrStepMsg (Name step) ''mongo document is required for insertOne'')
            else (case InsertOne M dbName collName document of
                    Inl e \<Rightarrow> Inl (ErrStepWrap (Name step) ''mongo insertOne failed'' e)
                  | Inr insertedID \<Rightarrow>
                      (case bsonToJSON M (InsertedID insertedID) of
                         Inl e \<Rightarrow> Inl (ErrStepWrap (Name step) ''encode mongo insertOne result'' e)
                       | Inr payload \<Rightarrow> Inr (payload, 1))))
     else if op = mongoOpUpdateOne then
       (case parseBSONDocument M L (render L (Filter cfg) vars) of
          Inl e \<Rightarrow> Inl (ErrStepWrap (Name step) ''parse mongo filter'' e)
        | Inr filterDoc \<Rightarrow>
            (case parseBSONDocument M L (render L (Update cfg) vars) of
               Inl e \<Rightarrow> Inl (ErrStepWrap (Name step) ''parse mongo update'' e)
             | Inr updateDoc \<Rightarrow>
                 if lenM M updateDoc = 0
                 then Inl (ErrStepMsg (Name step) ''mongo update document is required for updateOne'')
                 else (case UpdateOne M dbName collName filterDoc updateDoc of
                         Inl e \<Rightarrow> Inl (ErrStepWrap (Name step) ''mongo updateOne failed'' e)
                       | Inr res \<Rightarrow>
                           (let affected = ModifiedCount res;
                                affected = (if affected = 0 \<and> UpsertedCount res > 0
                                            then UpsertedCount res else affected)
                            in case bsonToJSON M (UpdateCounts res) of
                                 Inl e \<Rightarrow> Inl (ErrStepWrap (Name step) ''encode mongo updateOne result'' e)
                               | Inr payload \<Rightarrow> Inr (payload, affected)))))
     else if op = mongoOpDeleteOne then
       (case parseBSONDocument M L (render L (Filter cfg) vars) of
          Inl e \<Rightarrow> Inl (ErrStepWrap (Name step) ''parse mongo filter'' e)
        | Inr filterDoc \<Rightarrow>
            (case DeleteOne M dbName collName filterDoc of
               Inl e \<Rightarrow> Inl (ErrStepWrap (Name step) ''mongo deleteOne failed'' e)
             | Inr deletedCount \<Rightarrow>
                 (case bsonToJSON M (DeletedCount deletedCount) of
                    Inl e \<Rightarrow> Inl (ErrStepWrap (Name step) ''encode mongo deleteOne result'' e)
                  | Inr payload \<Rightarrow> Inr (payload, deletedCount))))
     else if op = mongoOpCommand then
       (let cmdStr = TrimSpace L (render L (Command cfg) vars) in
        if cmdStr = [] then Inl (ErrStepMsg (Name step) ''mongo command payload is required'')
        else (case parseBSONDocument M L cmdStr of
                Inl e \<Rightarrow> Inl (ErrStepWrap (Name step) ''parse mongo command'' e)
              | Inr commandDoc \<Rightarrow>
                  (case RunCommand M dbName commandDoc of
                     Inl e \<Rightarrow> Inl (ErrStepWrap (Name step) ''mongo command failed'' e)
                   | Inr result \<Rightarrow>
                       (case bsonToJSON M (CommandResult result) of
                          Inl e \<Rightarrow> Inl (ErrStepWrap (Name step) ''encode mongo command result'' e)
                        | Inr payload \<Rightarrow> Inr (payload, 1)))))
     else Inl (ErrUnsupportedMongoOperation (Name step) (Operation cfg)))"

text \<open>
  What follows the switch in \<^verbatim>\<open>executeMongoStep\<close>: the expectation, the save
  directive, the export record.
\<close>

definition mongoFinish ::
  "('t, 'a) golib \<Rightarrow> FlowRunner \<Rightarrow> Step \<Rightarrow> vars \<Rightarrow> string \<Rightarrow> int
     \<Rightarrow> error option \<times> vars \<times> FlowRunner" where
  "mongoFinish L r step vars resultPayload affected =
     (case ensureExpectedAffectedRows step affected of
        Some e \<Rightarrow> (Some e, vars, r)
      | None \<Rightarrow>
          (let vars' = (if length (Save step) > 0 \<and> length resultPayload > 0 \<and> Valid L resultPayload
                        then saveValues L resultPayload (Save step) vars else vars)
           in (None, vars', recordExport r step vars')))"

definition executeMongoStep ::
  "('doc, 'arr, 'id) mongolib \<Rightarrow> ('t, 'a) golib \<Rightarrow> FlowRunner \<Rightarrow> Step \<Rightarrow> vars
     \<Rightarrow> error option \<times> vars \<times> FlowRunner" where
  "executeMongoStep M L r step vars =
     (case Mongo step of
        None \<Rightarrow> (Some (ErrMissingMongoConfig (Name step)), vars, r)
      | Some cfg \<Rightarrow>
          (let uri = TrimSpace L (render L (URI cfg) vars);
               uri = (if uri = [] then TrimSpace L (index vars ''mongo_uri'') else uri);
               uri = (if uri = [] then TrimSpace L (Getenv L ''MONGO_URI'') else uri)
           in if uri = [] then (Some (ErrRequiresMongoURI (Name step)), vars, r)
              else
               (let dbName = TrimSpace L (render L (Database cfg) vars);
                    dbName = (if dbName = [] then TrimSpace L (index vars ''mongo_database'') else dbName)
                in if dbName = [] then (Some (ErrRequiresMongoDatabase (Name step)), vars, r)
                   else
                    (let op = normalizeMongoOperation L (Operation cfg);
                         useCollection = (op \<noteq> mongoOpCommand);
                         collName = (if useCollection then TrimSpace L (render L (Collection cfg) vars) else []);
                         collName = (if useCollection \<and> collName = []
                                     then TrimSpace L (index vars ''mongo_collection'') else collName)
                     in if useCollection \<and> collName = []
                        then (Some (ErrRequiresMongoCollection (Name step) op), vars, r)
                        else case Connect M uri of
                          Some e \<Rightarrow> (Some (ErrConnectMongo (Name step) e), vars, r)
                        | None \<Rightarrow>
                            (case Ping M uri of
                               Some e \<Rightarrow> (Some (ErrPingMongo (Name step) e), vars, r)
                             | None \<Rightarrow>
                                 (case mongoSwitch M L step cfg vars dbName collName op of
                                    Inl e \<Rightarrow> (Some e, vars, r)
                                  | Inr (resultPayload, affected) \<Rightarrow>
                                      mongoFinish L r step vars resultPayload affected))))))"

section \<open>Step dispatch\<close>

definition applyDefaults :: "Step \<Rightarrow> Step" where
  "applyDefaults s = (if TimeoutSeconds s = 0 then s\<lparr>TimeoutSeconds := 10\<rparr> else s)"

text \<open>
  \<^verbatim>\<open>executeStep\<close> up to the point where it hands the step to a protocol executor
  (or, for HTTP, starts to build the request): which executor runs, on which step, and
  with which rendered text. The wait itself takes time and changes nothing.
\<close>

datatype route =
    Skipped
  | RunSQL Step string
  | RunMongo Step
  | RunGRPC Step
  | RunHTTP Step string string

definition executeStep_route :: "('t, 'a) golib \<Rightarrow> Step \<Rightarrow> vars \<Rightarrow> error + route" where
  "executeStep_route L step vars =
     (if Skip step then Inr Skipped
      else case (if Wait step \<noteq> [] then ParseDuration L (render L (Wait step) vars) else None) of
        Some e \<Rightarrow> Inl (ErrParseWait (Name step) e)
      | None \<Rightarrow>
          (let sqlStmt = TrimSpace L (render L (SQL step) vars) in
           if sqlStmt \<noteq> [] then Inr (RunSQL (applyDefaults step) sqlStmt)
           else if Mongo step \<noteq> None then Inr (RunMongo (applyDefaults step))
           else if GRPC step \<noteq> None then Inr (RunGRPC (applyDefaults step))
           else if Method step = [] \<or> URL step = [] then Inl (ErrRequiresFields (Name step))
           else Inr (RunHTTP (applyDefaults step) (render L (URL step) vars) (render L (Body step) vars))))"

text \<open>
  The HTTP part of \<^verbatim>\<open>executeStep\<close>, from the request on; \<open>step\<close> has its
  defaults applied, \<open>url\<close> and \<open>bodyStr\<close> are the rendered URL and body.
\<close>

fun renderHeaders :: "('t, 'a) golib \<Rightarrow> strmap \<Rightarrow> vars \<Rightarrow> strmap" where
  "renderHeaders L [] vars = []"
| "renderHeaders L ((k, v) # headers) vars = (k, render L v vars) # renderHeaders L headers vars"

definition executeHTTP ::
  "('t, 'a) golib \<Rightarrow> FlowRunner \<Rightarrow> Step \<Rightarrow> vars \<Rightarrow> string \<Rightarrow> string
     \<Rightarrow> error option \<times> vars \<times> FlowRunner" where
  "executeHTTP L r step vars url bodyStr =
     (let body = (if bodyStr \<noteq> [] then Some bodyStr else None) in
      case NewRequest L (Method step) url of
        Some e \<Rightarrow> (Some (ErrBuildRequest (Name step) e), vars, r)
      | None \<Rightarrow>
          (case Do L (Method step) url (renderHeaders L (Headers step) vars) body of
             Inl e \<Rightarrow> (Some (ErrSendRequest (Name step) e), vars, r)
           | Inr (statusCode, readAll) \<Rightarrow>
               (case readAll of
                  Inl e \<Rightarrow> (Some (ErrReadResponseBody (Name step) e), vars, r)
                | Inr respBytes \<Rightarrow>
                    if ExpectStatus step \<noteq> 0 \<and> statusCode \<noteq> ExpectStatus step
                    then (Some (ErrUnexpectedStatus (Name step) statusCode), vars, r)
                    else (let vars' = (if length (Save step) > 0 \<and> length respBytes > 0 \<and>
                                           Valid L respBytes
                                        then saveValues L respBytes (Save step) vars else vars)
                          in (None, vars', recordExport r step vars')))))"

text \<open>\<^verbatim>\<open>classifyStep\<close> of the run log: the same order on the unrendered step.\<close>

definition classifyStep :: "('t, 'a) golib \<Rightarrow> Step \<Rightarrow> string" where
  "classifyStep L step =
     (if TrimSpace L (SQL step) \<noteq> [] then ''sql''
      else if Mongo step \<noteq> None then ''mongo''
      else if GRPC step \<noteq> None then ''grpc''
      else if Method step \<noteq> [] \<and> URL step \<noteq> [] then ''http''
      else ''step'')"

section \<open>Error texts\<close>

definition error_message :: "('t, 'a) golib \<Rightarrow> error \<Rightarrow> string" where
  "error_message L err =
     (case err of
        ErrParseWait n e \<Rightarrow> ''parse wait duration for step '' @ Quote L n @ '': '' @ e
      | ErrRequiresFields n \<Rightarrow> ''step '' @ Quote L n @ '' requires sql, grpc, or method/url fields''
      | ErrUnexpectedAffectedRows n k \<Rightarrow>
          ''step '' @ Quote L n @ '' failed: unexpected affected rows '' @ Itoa L k
      | ErrExecuteSQL n e \<Rightarrow> ''execute sql for step '' @ Quote L n @ '': '' @ e
      | ErrGetAffectedRows n e \<Rightarrow> ''get affected rows for step '' @ Quote L n @ '': '' @ e
      | ErrQuerySQL n e \<Rightarrow> ''query sql for step '' @ Quote L n @ '': '' @ e
      | ErrFetchColumns n e \<Rightarrow> ''fetch columns for step '' @ Quote L n @ '': '' @ e
      | ErrScanRow n e \<Rightarrow> ''scan row for step '' @ Quote L n @ '': '' @ e
      | ErrIterateRows n e \<Rightarrow> ''iterate rows for step '' @ Quote L n @ '': '' @ e
      | ErrNoRowsToSave n \<Rightarrow> ''execute sql for step '' @ Quote L n @ '': no rows returned to save''
      | ErrColumnNotFound n t \<Rightarrow>
          ''step '' @ Quote L n @ '': column '' @ Quote L t @ '' not found in result set''
      | ErrRequiresDatabaseURL n \<Rightarrow>
          ''step '' @ Quote L n @ '' requires database_url (var, step override, or DATABASE_URL env)''
      | ErrOpenDatabase n e \<Rightarrow> ''open database for step '' @ Quote L n @ '': '' @ e
      | ErrPingDatabase n e \<Rightarrow> ''ping database for step '' @ Quote L n @ '': '' @ e
      | ErrCreateExportFile e \<Rightarrow> ''create exported vars file: '' @ e
      | ErrWriteExportedVars e \<Rightarrow> ''write exported vars: '' @ e
      | PanicIndexOutOfRange i n \<Rightarrow>
          ''runtime error: index out of range ['' @ Itoa L (int i) @ ''] with length '' @ Itoa L (int n)
      | ErrMissingMongoConfig n \<Rightarrow> ''step '' @ Quote L n @ '' missing mongo configuration''
      | ErrRequiresMongoURI n \<Rightarrow>
          ''step '' @ Quote L n @ '' requires mongo.uri (field, var mongo_uri, or MONGO_URI env)''
      | ErrRequiresMongoDatabase n \<Rightarrow>
          ''step '' @ Quote L n @ '' requires mongo.database (field or mongo_database var)''
      | ErrRequiresMongoCollection n op \<Rightarrow>
          ''step '' @ Quote L n @ '' requires mongo.collection for operation '' @ Quote L op
      | ErrConnectMongo n e \<Rightarrow> ''connect mongo for step '' @ Quote L n @ '': '' @ e
      | ErrPingMongo n e \<Rightarrow> ''ping mongo for step '' @ Quote L n @ '': '' @ e
      | ErrStepWrap n what e \<Rightarrow> ''step '' @ Quote L n @ '': '' @ what @ '': '' @ e
      | ErrStepMsg n what \<Rightarrow> ''step '' @ Quote L n @ '': '' @ what
      | ErrUnsupportedMongoOperation n op \<Rightarrow>
          ''step '' @ Quote L n @ '': unsupported mongo operation '' @ Quote L op
      | ErrBuildRequest n e \<Rightarrow> ''build request for step '' @ Quote L n @ '': '' @ e
      | ErrSendRequest n e \<Rightarrow> ''send request for step '' @ Quote L n @ '': '' @ e
      | ErrReadResponseBody n e \<Rightarrow> ''read response body for step '' @ Quote L n @ '': '' @ e
      | ErrUnexpectedStatus n code \<Rightarrow>
          ''step '' @ Quote L n @ '' failed: unexpected status '' @ Itoa L code
      | ErrMissingGRPCConfig n \<Rightarrow> ''step '' @ Quote L n @ '' missing grpc configuration''
      | ErrRequiresGRPCTarget n \<Rightarrow> ''step '' @ Quote L n @ '' requires grpc.target''
      | ErrRequiresGRPCMethod n \<Rightarrow> ''step '' @ Quote L n @ '' requires grpc.method''
      | ErrStep n e \<Rightarrow> ''step '' @ Quote L n @ '': '' @ e
      | ErrDialGRPC n e \<Rightarrow> ''dial grpc for step '' @ Quote L n @ '': '' @ e
      | ErrPrepareDescriptorSource n e \<Rightarrow>
          ''prepare descriptor source for step '' @ Quote L n @ '': '' @ e
      | ErrBuildGRPCParser n e \<Rightarrow> ''build grpc request parser for step '' @ Quote L n @ '': '' @ e
      | ErrGRPCCall n e \<Rightarrow> ''grpc call for step '' @ Quote L n @ '': '' @ e
      | ErrProcessGRPCResponse n e \<Rightarrow> ''process grpc response for step '' @ Quote L n @ '': '' @ e
      | ErrGRPCExpected n expected actual msg \<Rightarrow>
          ''step '' @ Quote L n @ '' failed: expected '' @ expected @ '' but got '' @ actual @
          '' ('' @ msg @ '')''
      | ErrGRPCFailed n st \<Rightarrow> ''step '' @ Quote L n @ '' failed: '' @ st)"

section \<open>Composite descriptor source\<close>

text \<open>
  A \<^verbatim>\<open>grpcurl.DescriptorSource\<close> is what its three methods return; \<open>'d\<close> is a
  descriptor, \<open>'f\<close> a field descriptor, whose \<^verbatim>\<open>GetNumber()\<close> is an \<^verbatim>\<open>int32\<close>.
\<close>

record ('d, 'f) DescriptorSource =
  ListServices :: "string + string list"
  FindSymbol :: "string \<Rightarrow> string + 'd"
  AllExtensionsForType :: "string \<Rightarrow> string + 'f list"

record ('d, 'f) compositeDescriptorSource =
  reflection :: "('d, 'f) DescriptorSource"
  "file" :: "('d, 'f) DescriptorSource"

datatype lookup = Reflection | File

definition composite_ListServices :: "('d, 'f) compositeDescriptorSource \<Rightarrow> string + string list" where
  "composite_ListServices cs = ListServices (reflection cs)"

text \<open>
  \<^verbatim>\<open>compositeDescriptorSource.FindSymbol\<close>, returning beside its result the sources
  whose \<^verbatim>\<open>FindSymbol\<close> it called, in the order of the calls.
\<close>

definition composite_FindSymbol ::
  "('d, 'f) compositeDescriptorSource \<Rightarrow> string \<Rightarrow> (string + 'd) \<times> lookup list" where
  "composite_FindSymbol cs name =
     (case FindSymbol (reflection cs) name of
        Inr d \<Rightarrow> (Inr d, [Reflection])
      | Inl err \<Rightarrow> (FindSymbol (compositeDescriptorSource.file cs) name, [Reflection, File]))"

text \<open>
  The last loop of \<^verbatim>\<open>AllExtensionsForType\<close>: \<^verbatim>\<open>tags\<close> holds the field numbers of
  the reflection entries and is not extended while the file entries are appended.
\<close>

fun appendMissing :: "('f \<Rightarrow> 32 word) \<Rightarrow> 32 word set \<Rightarrow> 'f list \<Rightarrow> 'f list \<Rightarrow> 'f list" where
  "appendMissing GetNumber tags exts [] = exts"
| "appendMissing GetNumber tags exts (ext # fileExts) =
     (if GetNumber ext \<in> tags then appendMissing GetNumber tags exts fileExts
      else appendMissing GetNumber tags (exts @ [ext]) fileExts)"

definition composite_AllExtensionsForType ::
  "('f \<Rightarrow> 32 word) \<Rightarrow> ('d, 'f) compositeDescriptorSource \<Rightarrow> string \<Rightarrow> string + 'f list" where
  "composite_AllExtensionsForType GetNumber cs typeName =
     (case AllExtensionsForType (reflection cs) typeName of
        Inl err \<Rightarrow> AllExtensionsForType (compositeDescriptorSource.file cs) typeName
      | Inr exts \<Rightarrow>
          (let tags = set (map GetNumber exts) in
           case AllExtensionsForType (compositeDescriptorSource.file cs) typeName of
             Inl err \<Rightarrow> Inr exts
           | Inr fileExts \<Rightarrow> Inr (appendMissing GetNumber tags exts fileExts)))"


section \<open>RPC executor\<close>

text \<open>
  The gRPC libraries are parameters: \<open>'conn\<close> is a client connection, \<open>'cert\<close> a TLS
  certificate, \<open>'msg\<close> a response message, \<open>'parser\<close> a request parser. A status is its
  code (\<^verbatim>\<open>codes.Code\<close>, a \<^verbatim>\<open>uint32\<close>) and its message. \<^verbatim>\<open>grpcurl.InvokeRPC\<close> is
  given by its error and by the calls it makes on the event handler, in their order; the
  callbacks other than \<^verbatim>\<open>OnReceiveResponse\<close> and \<^verbatim>\<open>OnReceiveTrailers\<close> do nothing.
\<close>

record grpcStatus =
  Code :: "32 word"
  Message :: string

datatype grpcFormat = FormatJSON | FormatText

datatype 'msg event = ReceiveResponse 'msg | ReceiveTrailers "grpcStatus option"

record 'cert tlsConfig =
  MinVersion :: nat
  InsecureSkipVerify :: bool
  tls_ServerName :: string
  RootCAs :: "string option"
  Certificates :: "'cert list"

datatype 'cert transportCredentials = InsecureCredentials | TLSCredentials "'cert tlsConfig"

datatype ('d, 'f) descriptor =
    Single "('d, 'f) DescriptorSource"
  | Composite "('d, 'f) compositeDescriptorSource"

record ('conn, 'cert, 'msg, 'parser, 'd, 'f) grpclib =
  ToUpper :: "string \<Rightarrow> string"
  Atoi :: "string \<Rightarrow> int option"
  SortStrings :: "string list \<Rightarrow> string list"
  CodeString :: "32 word \<Rightarrow> string"
  StatusString :: "grpcStatus \<Rightarrow> string"
  ReadFile :: "string \<Rightarrow> string + string"
  AppendCertsFromPEM :: "string \<Rightarrow> bool"
  LoadX509KeyPair :: "string \<Rightarrow> string \<Rightarrow> string + 'cert"
  DialContext :: "string \<Rightarrow> 'cert transportCredentials \<Rightarrow> string + 'conn"
  FromProtoSets :: "string list \<Rightarrow> string + ('d, 'f) DescriptorSource"
  FromProtoFiles :: "string list \<Rightarrow> string list \<Rightarrow> string + ('d, 'f) DescriptorSource"
  FromServer :: "'conn \<Rightarrow> string list \<Rightarrow> ('d, 'f) DescriptorSource"
  RequestParserAndFormatter ::
    "grpcFormat \<Rightarrow> ('d, 'f) descriptor \<Rightarrow> string \<Rightarrow> string + 'parser \<times> ('msg \<Rightarrow> string + string)"
  InvokeRPC ::
    "('d, 'f) descriptor \<Rightarrow> 'conn \<Rightarrow> string \<Rightarrow> string list \<Rightarrow> 'parser \<Rightarrow> 'msg event list \<times> string option"

definition parseGRPCFormat ::
  "('t, 'a) golib \<Rightarrow> string \<Rightarrow> string + grpcFormat" where
  "parseGRPCFormat L value =
     (let format = ToLower L (TrimSpace L value) in
      if format = [] \<or> format = ''json'' then Inr FormatJSON
      else if format = ''text'' \<or> format = ''proto'' \<or> format = ''protobuf'' then Inr FormatText
      else Inl (''unsupported grpc format '' @ Quote L value))"

text \<open>
  \<^verbatim>\<open>buildGRPCHeaders\<close>: the trimmed non-empty keys, sorted, each with the rendered
  value the map holds at the trimmed key.
\<close>

fun trimmedKeys :: "('t, 'a) golib \<Rightarrow> strmap \<Rightarrow> string list" where
  "trimmedKeys L [] = []"
| "trimmedKeys L ((key, v) # values) =
     (let trimmed = TrimSpace L key in
      if trimmed = [] then trimmedKeys L values else trimmed # trimmedKeys L values)"

definition buildGRPCHeaders ::
  "('conn, 'cert, 'msg, 'parser, 'd, 'f) grpclib \<Rightarrow> ('t, 'a) golib \<Rightarrow> strmap \<Rightarrow> vars \<Rightarrow> string list" where
  "buildGRPCHeaders G L values vars =
     (if length values = 0 then []
      else map (\<lambda>key. key @ '': '' @ render L (index (map_of values) key) vars)
             (SortStrings G (trimmedKeys L values)))"

definition transportCredentialsForStep ::
  "('conn, 'cert, 'msg, 'parser, 'd, 'f) grpclib \<Rightarrow> ('t, 'a) golib \<Rightarrow> GRPCStep option \<Rightarrow> vars
     \<Rightarrow> string + 'cert transportCredentials" where
  "transportCredentialsForStep G L cfg vars =
     (case cfg of
        None \<Rightarrow> Inr InsecureCredentials
      | Some c \<Rightarrow>
          if \<not> UseTLS c then Inr InsecureCredentials
          else
           (let tlsConfig = \<lparr>MinVersion = 771, InsecureSkipVerify = False, tls_ServerName = [],
                              RootCAs = None, Certificates = []\<rparr>;
                tlsConfig = (if SkipTLSVerify c then tlsConfig\<lparr>InsecureSkipVerify := True\<rparr>
                             else tlsConfig);
                serverName = TrimSpace L (render L (ServerName c) vars);
                tlsConfig = (if serverName \<noteq> [] then tlsConfig\<lparr>tls_ServerName := serverName\<rparr>
                             else tlsConfig);
                caPath = TrimSpace L (render L (CACert c) vars)
            in case (if caPath \<noteq> [] then
                       (case ReadFile G caPath of
                          Inl e \<Rightarrow> Inl (''read grpc ca_cert '' @ Quote L caPath @ '': '' @ e)
                        | Inr caBytes \<Rightarrow>
                            if \<not> AppendCertsFromPEM G caBytes
                            then Inl (''grpc ca_cert '' @ Quote L caPath @ '' contains no valid certificates'')
                            else Inr (tlsConfig\<lparr>RootCAs := Some caBytes\<rparr>))
                     else Inr tlsConfig) of
                 Inl e \<Rightarrow> Inl e
               | Inr tlsConfig \<Rightarrow>
                   (let clientCertPath = TrimSpace L (render L (ClientCert c) vars);
                        clientKeyPath = TrimSpace L (render L (ClientKey c) vars)
                    in if clientCertPath \<noteq> [] \<or> clientKeyPath \<noteq> [] then
                         (if clientCertPath = [] \<or> clientKeyPath = []
                          then Inl ''grpc client_cert and client_key must both be provided''
                          else case LoadX509KeyPair G clientCertPath clientKeyPath of
                            Inl e \<Rightarrow> Inl (''load grpc client certificate: '' @ e)
                          | Inr cert \<Rightarrow> Inr (TLSCredentials (tlsConfig\<lparr>Certificates := [cert]\<rparr>)))
                       else Inr (TLSCredentials tlsConfig))))"

definition dialGRPC ::
  "('conn, 'cert, 'msg, 'parser, 'd, 'f) grpclib \<Rightarrow> ('t, 'a) golib \<Rightarrow> string \<Rightarrow> GRPCStep option \<Rightarrow> vars
     \<Rightarrow> string + 'conn" where
  "dialGRPC G L target cfg vars =
     (case transportCredentialsForStep G L cfg vars of
        Inl e \<Rightarrow> Inl e
      | Inr creds \<Rightarrow> DialContext G target creds)"

fun renderStringSlice :: "('t, 'a) golib \<Rightarrow> string list \<Rightarrow> vars \<Rightarrow> string list" where
  "renderStringSlice L [] vars = []"
| "renderStringSlice L (v # values) vars =
     (let trimmed = TrimSpace L (render L v vars) in
      if trimmed = [] then renderStringSlice L values vars
      else trimmed # renderStringSlice L values vars)"

definition boolValue :: "bool option \<Rightarrow> bool \<Rightarrow> bool" where
  "boolValue v def = (case v of None \<Rightarrow> def | Some b \<Rightarrow> b)"

definition loadFileDescriptorSource ::
  "('conn, 'cert, 'msg, 'parser, 'd, 'f) grpclib \<Rightarrow> ('t, 'a) golib \<Rightarrow> GRPCStep option \<Rightarrow> vars
     \<Rightarrow> string + ('d, 'f) DescriptorSource option" where
  "loadFileDescriptorSource G L cfg vars =
     (case cfg of
        None \<Rightarrow> Inr None
      | Some c \<Rightarrow>
          (let protoSets = renderStringSlice L (ProtoSets c) vars;
               protoFiles = renderStringSlice L (ProtoFiles c) vars;
               protoPaths = renderStringSlice L (ProtoPaths c) vars
           in if length protoSets > 0 \<and> length protoFiles > 0
              then Inl ''grpc step cannot set both proto_sets and proto_files''
              else if length protoSets > 0 then
                (case FromProtoSets G protoSets of Inl e \<Rightarrow> Inl e | Inr src \<Rightarrow> Inr (Some src))
              else if length protoFiles > 0 then
                (case FromProtoFiles G protoPaths protoFiles of
                   Inl e \<Rightarrow> Inl e | Inr src \<Rightarrow> Inr (Some src))
              else Inr None))"

text \<open>
  \<^verbatim>\<open>buildDescriptorSource\<close>; the cleanup it returns releases the reflection client and
  is not modelled.
\<close>

definition buildDescriptorSource ::
  "('conn, 'cert, 'msg, 'parser, 'd, 'f) grpclib \<Rightarrow> ('t, 'a) golib \<Rightarrow> 'conn \<Rightarrow> GRPCStep \<Rightarrow> vars
     \<Rightarrow> string list \<Rightarrow> string + ('d, 'f) descriptor" where
  "buildDescriptorSource G L conn cfg vars reflectionHeaders =
     (case loadFileDescriptorSource G L (Some cfg) vars of
        Inl e \<Rightarrow> Inl e
      | Inr fileSource \<Rightarrow>
          (let descriptor =
                 (if boolValue (UseReflection cfg) True then
                    (let reflectionSource = FromServer G conn reflectionHeaders in
                     case fileSource of
                       Some f \<Rightarrow> Some (Composite \<lparr>reflection = reflectionSource, file = f\<rparr>)
                     | None \<Rightarrow> Some (Single reflectionSource))
                  else (case fileSource of Some f \<Rightarrow> Some (Single f) | None \<Rightarrow> None))
           in case descriptor of
                None \<Rightarrow> Inl ''grpc step requires reflection (use_reflection) or proto descriptors''
              | Some d \<Rightarrow> Inr d))"

definition grpcCodeLookup :: "(string \<times> 32 word) list" where
  "grpcCodeLookup =
     [(''OK'', 0), (''CANCELED'', 1), (''UNKNOWN'', 2), (''INVALID_ARGUMENT'', 3),
      (''DEADLINE_EXCEEDED'', 4), (''NOT_FOUND'', 5), (''ALREADY_EXISTS'', 6),
      (''PERMISSION_DENIED'', 7), (''RESOURCE_EXHAUSTED'', 8), (''FAILED_PRECONDITION'', 9),
      (''ABORTED'', 10), (''OUT_OF_RANGE'', 11), (''UNIMPLEMENTED'', 12), (''INTERNAL'', 13),
      (''UNAVAILABLE'', 14), (''DATA_LOSS'', 15), (''UNAUTHENTICATED'', 16)]"

text \<open>
  \<^verbatim>\<open>parseGRPCCode\<close>; the conversion \<^verbatim>\<open>codes.Code(num)\<close> of an \<^verbatim>\<open>int\<close> to a
  \<^verbatim>\<open>uint32\<close> wraps around.
\<close>

definition parseGRPCCode ::
  "('conn, 'cert, 'msg, 'parser, 'd, 'f) grpclib \<Rightarrow> ('t, 'a) golib \<Rightarrow> string \<Rightarrow> string + 32 word" where
  "parseGRPCCode G L value =
     (let v = TrimSpace L value in
      if v = [] then Inr 0
      else case map_of grpcCodeLookup (ToUpper G v) of
        Some code \<Rightarrow> Inr code
      | None \<Rightarrow>
          (case Atoi G v of
             Some num \<Rightarrow> Inr (word_of_int num)
           | None \<Rightarrow> Inl (''unknown grpc expect_code '' @ Quote L value)))"

record 'msg grpcCaptureEventHandler =
  formatter :: "('msg \<Rightarrow> string + string) option"
  responses :: "string list"
  status :: "grpcStatus option"
  err :: "string option"

definition OnReceiveResponse ::
  "('t, 'a) golib \<Rightarrow> 'msg grpcCaptureEventHandler \<Rightarrow> 'msg \<Rightarrow> 'msg grpcCaptureEventHandler" where
  "OnReceiveResponse L h resp =
     (if err h \<noteq> None then h
      else case formatter h of
        None \<Rightarrow> h
      | Some fmt \<Rightarrow>
          (case fmt resp of
             Inl e \<Rightarrow> h\<lparr>err := Some e\<rparr>
           | Inr formatted \<Rightarrow> h\<lparr>responses := responses h @ [TrimSpace L formatted]\<rparr>))"

definition OnReceiveTrailers ::
  "'msg grpcCaptureEventHandler \<Rightarrow> grpcStatus option \<Rightarrow> 'msg grpcCaptureEventHandler" where
  "OnReceiveTrailers h stat = h\<lparr>status := stat\<rparr>"

fun handleEvents ::
  "('t, 'a) golib \<Rightarrow> 'msg grpcCaptureEventHandler \<Rightarrow> 'msg event list \<Rightarrow> 'msg grpcCaptureEventHandler" where
  "handleEvents L h [] = h"
| "handleEvents L h (ReceiveResponse resp # events) = handleEvents L (OnReceiveResponse L h resp) events"
| "handleEvents L h (ReceiveTrailers stat # events) = handleEvents L (OnReceiveTrailers h stat) events"

text \<open>The loop of \<^verbatim>\<open>joinResponses\<close>, with the buffer as it stands.\<close>

fun joinResponses_loop :: "('t, 'a) golib \<Rightarrow> nat \<Rightarrow> string list \<Rightarrow> string \<Rightarrow> string" where
  "joinResponses_loop L idx [] buf = buf"
| "joinResponses_loop L idx (resp # rest) buf =
     joinResponses_loop L (Suc idx) rest ((if idx > 0 then buf @ '','' else buf) @ TrimSpace L resp)"

definition joinResponses :: "('t, 'a) golib \<Rightarrow> string list \<Rightarrow> string" where
  "joinResponses L rs = joinResponses_loop L 0 rs ''['' @ '']''"

definition ResponsePayload :: "('t, 'a) golib \<Rightarrow> 'msg grpcCaptureEventHandler \<Rightarrow> string" where
  "ResponsePayload L h =
     (case responses h of
        [] \<Rightarrow> []
      | [x] \<Rightarrow> x
      | x # y # rest \<Rightarrow> joinResponses L (responses h))"

text \<open>
  \<^verbatim>\<open>executeGRPCStep\<close> in three parts: from the dial to \<^verbatim>\<open>handler.Error()\<close>, giving
  an error or the handler as the call left it; from the status on; and the whole.
\<close>

definition grpcInvoke ::
  "('conn, 'cert, 'msg, 'parser, 'd, 'f) grpclib \<Rightarrow> ('t, 'a) golib \<Rightarrow> Step \<Rightarrow> GRPCStep \<Rightarrow> vars
     \<Rightarrow> string \<Rightarrow> string \<Rightarrow> grpcFormat \<Rightarrow> string \<Rightarrow> string list \<Rightarrow> string list
     \<Rightarrow> error + 'msg grpcCaptureEventHandler" where
  "grpcInvoke G L step cfg vars target method format payload headers reflectionHeaders =
     (case dialGRPC G L target (Some cfg) vars of
        Inl e \<Rightarrow> Inl (ErrDialGRPC (Name step) e)
      | Inr conn \<Rightarrow>
          (case buildDescriptorSource G L conn cfg vars reflectionHeaders of
             Inl e \<Rightarrow> Inl (ErrPrepareDescriptorSource (Name step) e)
           | Inr descSource \<Rightarrow>
               (case RequestParserAndFormatter G format descSource payload of
                  Inl e \<Rightarrow> Inl (ErrBuildGRPCParser (Name step) e)
                | Inr (parser, fmt) \<Rightarrow>
                    (case InvokeRPC G descSource conn method headers parser of
                       (events, invokeErr) \<Rightarrow>
                         (let handler = handleEvents L
                                \<lparr>formatter = Some fmt, responses = [], status = None, err = None\<rparr> events
                          in case invokeErr of
                               Some e \<Rightarrow> Inl (ErrGRPCCall (Name step) e)
                             | None \<Rightarrow>
                                 (case err handler of
                                    Some e \<Rightarrow> Inl (ErrProcessGRPCResponse (Name step) e)
                                  | None \<Rightarrow> Inr handler))))))"

definition respStatusOf :: "'msg grpcCaptureEventHandler \<Rightarrow> grpcStatus" where
  "respStatusOf h = (case status h of None \<Rightarrow> \<lparr>Code = 0, Message = []\<rparr> | Some s \<Rightarrow> s)"

definition grpcFinish ::
  "('conn, 'cert, 'msg, 'parser, 'd, 'f) grpclib \<Rightarrow> ('t, 'a) golib \<Rightarrow> FlowRunner \<Rightarrow> Step \<Rightarrow> GRPCStep
     \<Rightarrow> vars \<Rightarrow> 'msg grpcCaptureEventHandler \<Rightarrow> error option \<times> vars \<times> FlowRunner" where
  "grpcFinish G L r step cfg vars handler =
     (let respStatus = respStatusOf handler;
          expectedCode = TrimSpace L (ExpectCode cfg)
      in case (if expectedCode \<noteq> [] then
                 (case parseGRPCCode G L expectedCode of
                    Inl e \<Rightarrow> Some (ErrStep (Name step) e)
                  | Inr code \<Rightarrow>
                      if Code respStatus \<noteq> code
                      then Some (ErrGRPCExpected (Name step) (CodeString G code)
                                   (CodeString G (Code respStatus)) (Message respStatus))
                      else None)
               else if Code respStatus \<noteq> 0
                    then Some (ErrGRPCFailed (Name step) (StatusString G respStatus))
                    else None) of
           Some e \<Rightarrow> (Some e, vars, r)
         | None \<Rightarrow>
             (let respBytes = ResponsePayload L handler;
                  vars' = (if length (Save step) > 0 \<and> length respBytes > 0 \<and> Valid L respBytes
                           then saveValues L respBytes (Save step) vars else vars)
              in (None, vars', recordExport r step vars')))"

definition executeGRPCStep ::
  "('conn, 'cert, 'msg, 'parser, 'd, 'f) grpclib \<Rightarrow> ('t, 'a) golib \<Rightarrow> FlowRunner \<Rightarrow> Step \<Rightarrow> vars
     \<Rightarrow> error option \<times> vars \<times> FlowRunner" where
  "executeGRPCStep G L r step vars =
     (case GRPC step of
        None \<Rightarrow> (Some (ErrMissingGRPCConfig (Name step)), vars, r)
      | Some cfg \<Rightarrow>
          (let target = TrimSpace L (render L (Target cfg) vars) in
           if target = [] then (Some (ErrRequiresGRPCTarget (Name step)), vars, r)
           else
            (let method = TrimSpace L (render L (grpc_Method cfg) vars) in
             if method = [] then (Some (ErrRequiresGRPCMethod (Name step)), vars, r)
             else case parseGRPCFormat L (Format cfg) of
               Inl e \<Rightarrow> (Some (ErrStep (Name step) e), vars, r)
             | Inr format \<Rightarrow>
                 (let payload = render L (Request cfg) vars;
                      headers = buildGRPCHeaders G L (Metadata cfg) vars;
                      reflectionHeaders = buildGRPCHeaders G L (ReflectionMetadata cfg) vars
                  in case grpcInvoke G L step cfg vars target method format payload headers
                            reflectionHeaders of
                       Inl e \<Rightarrow> (Some e, vars, r)
                     | Inr handler \<Rightarrow> grpcFinish G L r step cfg vars handler))))"


section \<open>Notions used in the statements\<close>

text \<open>The column a save entry names in \<^verbatim>\<open>saveRowValues\<close>.\<close>

definition targetColumn :: "('t, 'a) golib \<Rightarrow> string \<Rightarrow> string \<Rightarrow> string" where
  "targetColumn L varName column =
     (if TrimSpace L column = [] then varName else TrimSpace L column)"

definition matched ::
  "('t, 'a) golib \<Rightarrow> (string \<rightharpoonup> nat) \<Rightarrow> nat \<Rightarrow> string \<times> string \<Rightarrow> bool" where
  "matched L columnIndex len kc =
     (case columnIndex (ToLower L (targetColumn L (fst kc) (snd kc))) of
        None \<Rightarrow> False
      | Some i \<Rightarrow> i < len)"

text \<open>
  The connection string \<^verbatim>\<open>executeSQLStep\<close> arrives at, and the condition under
  which it reaches the statement on the handle \<open>db\<close>.
\<close>

definition databaseURL :: "('t, 'a) golib \<Rightarrow> Step \<Rightarrow> vars \<Rightarrow> string" where
  "databaseURL L step vars =
     (let dbURL = TrimSpace L (render L (DatabaseURL step) vars);
          dbURL = (if dbURL = [] then TrimSpace L (index vars ''database_url'') else dbURL)
      in if dbURL = [] then TrimSpace L (Getenv L ''DATABASE_URL'') else dbURL)"

definition connected :: "('t, 'a) golib \<Rightarrow> Step \<Rightarrow> vars \<Rightarrow> 'a sqlDB \<Rightarrow> bool" where
  "connected L step vars db =
     (databaseURL L step vars \<noteq> [] \<and> Open L (databaseURL L step vars) = Inr db \<and>
      PingContext db = None)"

text \<open>
  The same for \<^verbatim>\<open>executeMongoStep\<close>: the URI, database and collection it resolves,
  and the condition under which it reaches the switch.
\<close>

definition mongoURI :: "('t, 'a) golib \<Rightarrow> MongoStep \<Rightarrow> vars \<Rightarrow> string" where
  "mongoURI L cfg vars =
     (let uri = TrimSpace L (render L (URI cfg) vars);
          uri = (if uri = [] then TrimSpace L (index vars ''mongo_uri'') else uri)
      in if uri = [] then TrimSpace L (Getenv L ''MONGO_URI'') else uri)"

definition mongoDatabase :: "('t, 'a) golib \<Rightarrow> MongoStep \<Rightarrow> vars \<Rightarrow> string" where
  "mongoDatabase L cfg vars =
     (let dbName = TrimSpace L (render L (Database cfg) vars)
      in if dbName = [] then TrimSpace L (index vars ''mongo_database'') else dbName)"

definition mongoCollection :: "('t, 'a) golib \<Rightarrow> MongoStep \<Rightarrow> vars \<Rightarrow> string" where
  "mongoCollection L cfg vars =
     (if normalizeMongoOperation L (Operation cfg) = mongoOpCommand then []
      else (let collName = TrimSpace L (render L (Collection cfg) vars)
            in if collName = [] then TrimSpace L (index vars ''mongo_collection'') else collName))"

definition mongoConnected ::
  "('doc, 'arr, 'id) mongolib \<Rightarrow> ('t, 'a) golib \<Rightarrow> Step \<Rightarrow> MongoStep \<Rightarrow> vars \<Rightarrow> bool" where
  "mongoConnected M L step cfg vars =
     (Mongo step = Some cfg \<and> mongoURI L cfg vars \<noteq> [] \<and> mongoDatabase L cfg vars \<noteq> [] \<and>
      (normalizeMongoOperation L (Operation cfg) = mongoOpCommand \<or> mongoCollection L cfg vars \<noteq> []) \<and>
      Connect M (mongoURI L cfg vars) = None \<and> Ping M (mongoURI L cfg vars) = None)"

section \<open>A concrete library, for evaluating the model on examples\<close>

text \<open>
  One instance of the library record: white space and letter case on ASCII text, decimal
  numerals, \<^verbatim>\<open>%q\<close> on names that need no escaping, and a template engine for
  templates made of text and field actions \<^verbatim>\<open>{{.name}}\<close> over a
  \<^verbatim>\<open>map[string]string\<close> with \<^verbatim>\<open>missingkey=zero\<close> (a missing key prints the zero
  value of a string). It is used only where a statement is evaluated on an example.
\<close>

definition isSpace :: "char \<Rightarrow> bool" where
  "isSpace c = (c \<in> set [CHR 0x09, CHR 0x0A, CHR 0x0B, CHR 0x0C, CHR 0x0D, CHR 0x20])"

definition asciiTrimSpace :: "string \<Rightarrow> string" where
  "asciiTrimSpace s = rev (dropWhile isSpace (rev (dropWhile isSpace s)))"

definition asciiToLower :: "string \<Rightarrow> string" where
  "asciiToLower s =
     map (\<lambda>c. case map_of (zip ''ABCDEFGHIJKLMNOPQRSTUVWXYZ'' ''abcdefghijklmnopqrstuvwxyz'') c of
                 None \<Rightarrow> c | Some l \<Rightarrow> l) s"

function decimal :: "nat \<Rightarrow> string" where
  "decimal n =
     (if n < 10 then [''0123456789'' ! n]
      else decimal (n div 10) @ [''0123456789'' ! (n mod 10)])"
  by pat_completeness auto
termination
  by (relation "measure id") auto

definition asciiItoa :: "int \<Rightarrow> string" where
  "asciiItoa i = (if i < 0 then CHR ''-'' # decimal (nat (- i)) else decimal (nat i))"

definition plainQuote :: "string \<Rightarrow> string" where
  "plainQuote s = [CHR 0x22] @ s @ [CHR 0x22]"

datatype tnode = Text string | Field string

definition isField :: "string \<Rightarrow> bool" where
  "isField a =
     (case a of
        [] \<Rightarrow> False
      | c # cs \<Rightarrow> c = CHR ''.'' \<and> cs \<noteq> [] \<and>
                 list_all (\<lambda>d. \<not> isSpace d \<and> d \<noteq> CHR ''.'' \<and> d \<noteq> CHR ''|'') cs)"

fun miniText :: "string \<Rightarrow> string \<Rightarrow> tnode list option"
  and miniAction :: "string \<Rightarrow> string \<Rightarrow> tnode list option" where
  "miniText acc (c # d # cs) =
     (if c = CHR ''{'' \<and> d = CHR ''{'' then map_option ((#) (Text acc)) (miniAction [] cs)
      else miniText (acc @ [c]) (d # cs))"
| "miniText acc cs = Some [Text (acc @ cs)]"
| "miniAction acc (c # d # cs) =
     (if c = CHR ''}'' \<and> d = CHR ''}''
      then (if isField (asciiTrimSpace acc)
            then map_option ((#) (Field (tl (asciiTrimSpace acc)))) (miniText [] cs)
            else None)
      else miniAction (acc @ [c]) (d # cs))"
| "miniAction acc cs = None"

definition miniExecute :: "tnode list \<Rightarrow> vars \<Rightarrow> string option" where
  "miniExecute t vars =
     Some (concat (map (\<lambda>n. case n of Text s \<Rightarrow> s | Field f \<Rightarrow> index vars f) t))"

text \<open>
  The outside world of the examples: two JSON documents with one path each, no
  environment variables, every file creatable, one database reachable at one URL, and one
  HTTP endpoint that answers 200 with the first document.
\<close>

definition usersRows :: "int sqlRows" where
  "usersRows =
     \<lparr>Columns = Inr [''ID'', ''Name'', ''note''],
      fetched = [Inr [Some (OtherVal 7), Some (ByteSlice ''ann''), None],
                 Inr [Some (OtherVal 8), Some (ByteSlice ''bob''), Some (ByteSlice ''x'')]],
      Err = None\<rparr>"

definition noRows :: "int sqlRows" where
  "noRows = \<lparr>Columns = Inr [''ID'', ''Name'', ''note''], fetched = [], Err = None\<rparr>"

definition usersDB :: "int sqlDB" where
  "usersDB =
     \<lparr>PingContext = None,
      ExecContext = (\<lambda>stmt. Inr (Inr 0)),
      QueryContext = (\<lambda>stmt. if stmt = ''SELECT * FROM users'' then Inr usersRows else Inr noRows)\<rparr>"

definition stdlib :: "(tnode list, int) golib" where
  "stdlib =
     \<lparr>TrimSpace = asciiTrimSpace,
      ToLower = asciiToLower,
      Quote = plainQuote,
      Itoa = asciiItoa,
      Sprint = asciiItoa,
      Parse = miniText [],
      Execute = miniExecute,
      ParseDuration = (\<lambda>s. if s = ''1s'' then None else Some (''time: invalid duration '' @ plainQuote s)),
      Getenv = (\<lambda>k. []),
      Valid = (\<lambda>doc. doc = ''{\"data\":{\"id\":\"42\"}}'' \<or> doc = ''null'' \<or>
                     doc = ''{\"name\":\"ann\",\"age\":7}''),
      GetBytes = (\<lambda>doc path. if doc = ''{\"data\":{\"id\":\"42\"}}'' \<and> path = ''data.id'' then ''42''
                           else if doc = ''{\"name\":\"ann\",\"age\":7}'' \<and> path = ''age'' then ''7''
                           else []),
      Create = (\<lambda>path. None),
      MarshalRecord = (\<lambda>r. ''{\"step\": '' @ plainQuote (Step r) @ ''}''),
      Open = (\<lambda>url. if url = ''postgres://localhost/app'' then Inr usersDB
                     else Inl ''missing host''),
      NewRequest = (\<lambda>method url. None),
      Do = (\<lambda>method url headers body.
              if url = ''http://localhost/echo'' then Inr (200, Inr ''{\"data\":{\"id\":\"42\"}}'')
              else Inl ''dial tcp: connection refused'')\<rparr>"


definition lookupStep :: Step where
  "lookupStep = emptyStep\<lparr>Name := ''lookup'', DatabaseURL := ''postgres://localhost/app'',
     Save := [(''user_id'', ''id''), (''Name'', []), (''remark'', ''NOTE'')]\<rparr>"

definition nicknameStep :: Step where
  "nicknameStep = emptyStep\<lparr>Name := ''lookup'', DatabaseURL := ''postgres://localhost/app'',
     Save := [(''nick'', ''nickname'')]\<rparr>"

definition deleteStep :: Step where
  "deleteStep = emptyStep\<lparr>Name := ''cleanup'', DatabaseURL := ''postgres://localhost/app''\<rparr>"

definition expectStep :: Step where
  "expectStep = emptyStep\<lparr>Name := ''cleanup'', DatabaseURL := ''postgres://localhost/app'',
     ExpectAffectedRows := 2\<rparr>"

definition echoStep :: Step where
  "echoStep = emptyStep\<lparr>Name := ''echo'', Method := ''GET'', URL := ''http://localhost/echo'',
     Save := [(''user_id'', ''data.id''), (''missing'', ''data.none'')]\<rparr>"


text \<open>
  A document store for the examples: documents are their JSON text, one document matches
  one filter, and every call succeeds.
\<close>

definition stdmongo :: "(string, string, string) mongolib" where
  "stdmongo =
     \<lparr>UnmarshalM = Inr,
      UnmarshalA = Inr,
      emptyM = ''{}'',
      lenM = (\<lambda>d. if d = ''{}'' then 0 else 1),
      MarshalExtJSON = (\<lambda>v. case v of
          FoundDoc d \<Rightarrow> Inr d
        | FoundDocs ds \<Rightarrow> Inr (''['' @ joinWith '','' ds @ '']'')
        | InsertedID i \<Rightarrow> Inr (''{\"inserted_id\":'' @ i @ ''}'')
        | UpdateCounts res \<Rightarrow> Inr ''{\"matched_count\":0,\"modified_count\":0,\"upserted_count\":1}''
        | DeletedCount n \<Rightarrow> Inr ''{\"deleted_count\":1}''
        | CommandResult d \<Rightarrow> Inr d),
      Connect = (\<lambda>uri. None),
      Ping = (\<lambda>uri. None),
      FindOne = (\<lambda>db coll f. if f = ''{\"name\":\"ann\"}'' then FindOneDoc ''{\"name\":\"ann\",\"age\":7}''
                              else ErrNoDocuments),
      Find = (\<lambda>db coll f lim. Inr (Inr [''{\"name\":\"ann\",\"age\":7}'', ''{\"name\":\"bob\",\"age\":8}''])),
      Aggregate = (\<lambda>db coll p. Inr (Inr [])),
      InsertOne = (\<lambda>db coll d. Inr ''{\"$oid\":\"65f0\"}''),
      UpdateOne = (\<lambda>db coll f u. Inr \<lparr>MatchedCount = 0, ModifiedCount = 0, UpsertedCount = 1,
                                        UpsertedID = Some ''{\"$oid\":\"65f1\"}''\<rparr>),
      DeleteOne = (\<lambda>db coll f. Inr 1),
      RunCommand = (\<lambda>db cmd. Inr ''{\"ok\":1}'')\<rparr>"

definition usersFind :: MongoStep where
  "usersFind = \<lparr>URI = ''mongodb://localhost:27017'', Database = ''app'', Collection = ''users'',
     Operation = ''findOne'', Filter = ''{\"name\":\"zed\"}'', Document = [], Update = [],
     Pipeline = [], Command = [], Limit = 0\<rparr>"

definition findZed :: Step where
  "findZed = emptyStep\<lparr>Name := ''find-zed'', Mongo := Some usersFind\<rparr>"

definition findZedExpected :: Step where
  "findZedExpected = emptyStep\<lparr>Name := ''find-zed'', ExpectAffectedRows := 1, Mongo := Some usersFind\<rparr>"

definition findAnn :: Step where
  "findAnn = emptyStep\<lparr>Name := ''find-ann'', ExpectAffectedRows := 1,
     Mongo := Some (usersFind\<lparr>Filter := ''{\"name\":\"ann\"}''\<rparr>)\<rparr>"

definition usersFindAll :: MongoStep where
  "usersFindAll = usersFind\<lparr>Operation := ''find'', Filter := []\<rparr>"

definition findAll :: Step where
  "findAll = emptyStep\<lparr>Name := ''find-all'', ExpectAffectedRows := 3, Mongo := Some usersFindAll\<rparr>"


text \<open>
  Two descriptor sources for the examples: a field descriptor is a name with its number.
\<close>

definition reflSource :: "(string, string \<times> 32 word) DescriptorSource" where
  "reflSource =
     \<lparr>ListServices = Inr [''pkg.Greeter''],
      FindSymbol = (\<lambda>n. if n = ''pkg.Greeter'' then Inr ''pkg.Greeter from reflection''
                        else Inl (''Symbol not found: '' @ n)),
      AllExtensionsForType = (\<lambda>t. Inr [(''refl.a'', 100), (''refl.b'', 101)])\<rparr>"

definition fileSource :: "(string, string \<times> 32 word) DescriptorSource" where
  "fileSource =
     \<lparr>ListServices = Inr [''pkg.Greeter'', ''pkg.Local''],
      FindSymbol = (\<lambda>n. if n = ''pkg.Greeter'' \<or> n = ''pkg.Local'' then Inr (n @ '' from file'')
                        else Inl (''Symbol not found: '' @ n)),
      AllExtensionsForType = (\<lambda>t. Inr [(''file.b'', 101), (''file.c'', 102)])\<rparr>"

definition bothSources :: "(string, string \<times> 32 word) compositeDescriptorSource" where
  "bothSources = \<lparr>reflection = reflSource, file = fileSource\<rparr>"


text \<open>More document-store steps, one for each operation.\<close>

definition findAnnSave :: Step where
  "findAnnSave = emptyStep\<lparr>Name := ''find-ann'', Save := [(''age'', ''age''), (''email'', ''email'')],
     Mongo := Some (usersFind\<lparr>Filter := ''{\"name\":\"ann\"}''\<rparr>)\<rparr>"

definition usersAggregate :: MongoStep where
  "usersAggregate = usersFind\<lparr>Operation := ''aggregate'', Filter := [],
     Pipeline := ''[{\"$match\":{\"age\":9}}]''\<rparr>"

definition usersInsert :: MongoStep where
  "usersInsert = usersFind\<lparr>Operation := ''insertOne'', Filter := [], Document := ''{\"name\":\"cy\"}''\<rparr>"

definition usersUpdate :: MongoStep where
  "usersUpdate = usersFind\<lparr>Operation := ''updateOne'', Update := ''{\"$set\":{\"age\":9}}''\<rparr>"

definition usersDelete :: MongoStep where
  "usersDelete = usersFind\<lparr>Operation := ''deleteOne''\<rparr>"

definition pingCommand :: MongoStep where
  "pingCommand = usersFind\<lparr>Operation := ''command'', Collection := [], Filter := [],
     Command := ''{\"ping\":1}''\<rparr>"

definition mongoExample :: "string \<Rightarrow> int \<Rightarrow> MongoStep \<Rightarrow> Step" where
  "mongoExample name expect cfg = emptyStep\<lparr>Name := name, ExpectAffectedRows := expect, Mongo := Some cfg\<rparr>"

text \<open>
  A gRPC service for the examples: one method answers one message and the status OK, any
  other method answers the status NOT_FOUND; the formatter pads its output with white
  space.
\<close>

definition asciiToUpper :: "string \<Rightarrow> string" where
  "asciiToUpper s =
     map (\<lambda>c. case map_of (zip ''abcdefghijklmnopqrstuvwxyz'' ''ABCDEFGHIJKLMNOPQRSTUVWXYZ'') c of
                 None \<Rightarrow> c | Some u \<Rightarrow> u) s"

fun parseDigits :: "string \<Rightarrow> nat \<Rightarrow> nat option" where
  "parseDigits [] acc = Some acc"
| "parseDigits (c # cs) acc =
     (case map_of (zip ''0123456789'' [0, 1, 2, 3, 4, 5, 6, 7, 8, 9]) c of
        None \<Rightarrow> None
      | Some d \<Rightarrow> parseDigits cs (10 * acc + d))"

definition asciiAtoi :: "string \<Rightarrow> int option" where
  "asciiAtoi s =
     (case s of
        [] \<Rightarrow> None
      | c # cs \<Rightarrow>
          if c = CHR ''-'' then (if cs = [] then None else map_option (\<lambda>n. - int n) (parseDigits cs 0))
          else if c = CHR ''+'' then (if cs = [] then None else map_option int (parseDigits cs 0))
          else map_option int (parseDigits s 0))"

fun strLe :: "string \<Rightarrow> string \<Rightarrow> bool" where
  "strLe [] ys = True"
| "strLe (x # xs) [] = False"
| "strLe (x # xs) (y # ys) =
     ((of_char x :: nat) < of_char y \<or> (x = y \<and> strLe xs ys))"

fun insertStr :: "string \<Rightarrow> string list \<Rightarrow> string list" where
  "insertStr x [] = [x]"
| "insertStr x (y # ys) = (if strLe x y then x # y # ys else y # insertStr x ys)"

definition sortStrs :: "string list \<Rightarrow> string list" where
  "sortStrs xs = foldr insertStr xs []"

definition codeName :: "32 word \<Rightarrow> string" where
  "codeName c =
     (if unat c < 17
      then [''OK'', ''Canceled'', ''Unknown'', ''InvalidArgument'', ''DeadlineExceeded'', ''NotFound'',
            ''AlreadyExists'', ''PermissionDenied'', ''ResourceExhausted'', ''FailedPrecondition'',
            ''Aborted'', ''OutOfRange'', ''Unimplemented'', ''Internal'', ''Unavailable'', ''DataLoss'',
            ''Unauthenticated''] ! unat c
      else ''Code('' @ decimal (unat c) @ '')'')"

definition padFormatter :: "string \<Rightarrow> string + string" where
  "padFormatter msg = Inr ('' '' @ msg @ [CHR 0x0A])"

definition stdgrpc :: "(string, string, string, string, string, string \<times> 32 word) grpclib" where
  "stdgrpc =
     \<lparr>ToUpper = asciiToUpper,
      Atoi = asciiAtoi,
      SortStrings = sortStrs,
      CodeString = codeName,
      StatusString = (\<lambda>st. ''rpc error: code = '' @ codeName (Code st) @ '' desc = '' @ Message st),
      ReadFile = (\<lambda>path. Inl (''open '' @ path @ '': no such file or directory'')),
      AppendCertsFromPEM = (\<lambda>pem. False),
      LoadX509KeyPair = (\<lambda>certFile keyFile. Inl (''open '' @ certFile @ '': no such file or directory'')),
      DialContext = (\<lambda>target creds. if target = ''localhost:50051'' then Inr target
                                     else Inl ''context deadline exceeded''),
      FromProtoSets = (\<lambda>sets. Inl ''could not load protoset file''),
      FromProtoFiles = (\<lambda>paths files. Inl ''could not parse given files''),
      FromServer = (\<lambda>conn headers. reflSource),
      RequestParserAndFormatter = (\<lambda>format d payload. Inr (payload, padFormatter)),
      InvokeRPC = (\<lambda>d conn method headers parser.
          if method = ''pkg.Greeter/Get''
          then ([ReceiveResponse ''{\"data\":{\"id\":\"42\"}}'',
                 ReceiveTrailers (Some \<lparr>Code = 0, Message = []\<rparr>)], None)
          else ([ReceiveTrailers (Some \<lparr>Code = 5, Message = ''no such method''\<rparr>)], None))\<rparr>"

definition greeterCfg :: GRPCStep where
  "greeterCfg =
     \<lparr>Target = ''localhost:50051'', grpc_Method = ''pkg.Greeter/Get'', Request = ''{\"id\":\"42\"}'',
      Format = [], Metadata = [], ReflectionMetadata = [], UseTLS = False, SkipTLSVerify = False,
      CACert = [], ClientCert = [], ClientKey = [], ServerName = [], ProtoSets = [],
      ProtoFiles = [], ProtoPaths = [], UseReflection = None, ExpectCode = []\<rparr>"

definition greetStep :: Step where
  "greetStep = emptyStep\<lparr>Name := ''greet'', GRPC := Some greeterCfg,
     Save := [(''user_id'', ''data.id''), (''missing'', ''data.none'')]\<rparr>"

text \<open>The handler as the call of \<open>greetStep\<close> leaves it, and one after a call that found nothing.\<close>

definition greetHandler :: "string grpcCaptureEventHandler" where
  "greetHandler =
     \<lparr>formatter = Some padFormatter, responses = [''{\"data\":{\"id\":\"42\"}}''],
      status = Some \<lparr>Code = 0, Message = []\<rparr>, err = None\<rparr>"

definition notFoundHandler :: "string grpcCaptureEventHandler" where
  "notFoundHandler =
     \<lparr>formatter = Some padFormatter, responses = [],
      status = Some \<lparr>Code = 5, Message = ''no such user''\<rparr>, err = None\<rparr>"

section \<open>Theorems\<close>

lemmas example_defs =
  stdlib_def usersDB_def usersRows_def noRows_def emptyStep_def lookupStep_def nicknameStep_def
  deleteStep_def echoStep_def asciiTrimSpace_def isSpace_def asciiToLower_def isField_def
  miniExecute_def plainQuote_def asciiItoa_def index_def

lemmas sql_defs =
  executeSQLStep_def executeSQLAndMaybeSave_def runSQLAndSave_def runSQLWithoutSave_def
  saveRowValues_def Scan_def anyToString_def render_def ensureExpectedAffectedRows_def
  targetColumn_def connected_def databaseURL_def

subsection \<open>The save loops\<close>

lemma saveValues_other:
  "k \<notin> fst ` set save \<Longrightarrow> saveValues L r save vars k = vars k"
  by (induction save arbitrary: vars) (auto simp: Let_def)

lemma saveValues_key:
  "distinct (map fst save) \<Longrightarrow> (k, p) \<in> set save \<Longrightarrow>
   saveValues L r save vars k = (if GetBytes L r p = [] then vars k else Some (GetBytes L r p))"
proof (induction save arbitrary: vars)
  case Nil
  then show ?case by simp
next
  case (Cons a save)
  obtain k' p' where a: "a = (k', p')" by (cases a)
  show ?case
  proof (cases "k' = k")
    case True
    with Cons.prems a have p: "p' = p" and notin: "k \<notin> fst ` set save"
      by (auto simp: image_iff)
    show ?thesis using True p a by (simp add: Let_def saveValues_other [OF notin])
  next
    case False
    with Cons.prems a have "(k, p) \<in> set save" and "distinct (map fst save)" by auto
    from Cons.IH [OF this(2) this(1)] False a show ?thesis by (simp add: Let_def)
  qed
qed

lemma loop_Cons:
  "saveRowValues_loop L n ((k, c) # save) vars row ci =
     (case ci (ToLower L (targetColumn L k c)) of
        None \<Rightarrow> (Some (ErrColumnNotFound n (targetColumn L k c)), vars)
      | Some idx \<Rightarrow>
          if length row \<le> idx then (Some (PanicIndexOutOfRange idx (length row)), vars)
          else (case row ! idx of
                  None \<Rightarrow> saveRowValues_loop L n save vars row ci
                | Some val \<Rightarrow> saveRowValues_loop L n save (vars(k \<mapsto> anyToString L val)) row ci))"
  unfolding targetColumn_def by (simp add: Let_def)

lemma loop_other:
  "k \<notin> fst ` set save \<Longrightarrow> snd (saveRowValues_loop L n save vars row ci) k = vars k"
  by (induction save arbitrary: vars)
    (auto simp: loop_Cons simp del: saveRowValues_loop.simps(2) split: option.splits)

lemma loop_ok:
  "list_all (matched L ci (length row)) save \<Longrightarrow>
   fst (saveRowValues_loop L n save vars row ci) = None"
  by (induction save arbitrary: vars)
    (auto simp: loop_Cons matched_def simp del: saveRowValues_loop.simps(2) split: option.splits)

lemma loop_key:
  "distinct (map fst save) \<Longrightarrow> (k, c) \<in> set save \<Longrightarrow>
   list_all (matched L ci (length row)) save \<Longrightarrow>
   ci (ToLower L (targetColumn L k c)) = Some i \<Longrightarrow>
   snd (saveRowValues_loop L n save vars row ci) k =
     (case row ! i of None \<Rightarrow> vars k | Some v \<Rightarrow> Some (anyToString L v))"
proof (induction save arbitrary: vars)
  case Nil
  then show ?case by simp
next
  case (Cons a save)
  obtain k' c' where a: "a = (k', c')" by (cases a)
  from Cons.prems(3) a have m: "matched L ci (length row) (k', c')"
    and ms: "list_all (matched L ci (length row)) save"
    by auto
  show ?case
  proof (cases "k' = k")
    case True
    with Cons.prems a have c: "c' = c" and notin: "k \<notin> fst ` set save"
      by (auto simp: image_iff)
    from m True c Cons.prems(4) have i: "i < length row" by (simp add: matched_def)
    show ?thesis using True c a i Cons.prems(4)
      by (simp add: loop_Cons loop_other [OF notin] del: saveRowValues_loop.simps(2)
            split: option.splits)
  next
    case False
    with Cons.prems a have in': "(k, c) \<in> set save" and d: "distinct (map fst save)" by auto
    from m obtain j where j: "ci (ToLower L (targetColumn L k' c')) = Some j" "j < length row"
      by (auto simp: matched_def split: option.splits)
    show ?thesis using Cons.IH [OF d in' ms Cons.prems(4)] False a j
      by (simp add: loop_Cons del: saveRowValues_loop.simps(2) split: option.splits)
  qed
qed

lemma loop_unmatched:
  "(k, c) \<in> set save \<Longrightarrow> ci (ToLower L (targetColumn L k c)) = None \<Longrightarrow>
   \<forall>i \<in> ran ci. i < length row \<Longrightarrow>
   \<exists>t. fst (saveRowValues_loop L n save vars row ci) = Some (ErrColumnNotFound n t) \<and>
       ci (ToLower L t) = None"
proof (induction save arbitrary: vars)
  case Nil
  then show ?case by simp
next
  case (Cons a save)
  obtain k' c' where a: "a = (k', c')" by (cases a)
  show ?case
  proof (cases "ci (ToLower L (targetColumn L k' c'))")
    case None
    then show ?thesis using a by (auto simp: loop_Cons simp del: saveRowValues_loop.simps(2))
  next
    case (Some j)
    with Cons.prems(3) have j: "j < length row" by (auto simp: ran_def)
    from Some Cons.prems a have "(k, c) \<in> set save" by auto
    from Cons.IH [OF this Cons.prems(2,3)] Some j a show ?thesis
      by (auto simp: loop_Cons simp del: saveRowValues_loop.simps(2) split: option.splits)
  qed
qed

subsection \<open>The column index and the row loop\<close>

lemma columnIndex_loop_Some:
  "columnIndex_loop L i cols m key = Some j \<Longrightarrow>
   m key = Some j \<or> (i \<le> j \<and> j < i + length cols \<and> ToLower L (cols ! (j - i)) = key)"
proof (induction cols arbitrary: i m)
  case Nil
  then show ?case by simp
next
  case (Cons col cols)
  from Cons.prems have "columnIndex_loop L (Suc i) cols (m(ToLower L col \<mapsto> i)) key = Some j"
    by simp
  from Cons.IH [OF this]
  have "(m(ToLower L col \<mapsto> i)) key = Some j \<or>
        (Suc i \<le> j \<and> j < Suc i + length cols \<and> ToLower L (cols ! (j - Suc i)) = key)" .
  then show ?case
  proof
    assume "(m(ToLower L col \<mapsto> i)) key = Some j"
    then show ?thesis by (auto split: if_splits)
  next
    assume a: "Suc i \<le> j \<and> j < Suc i + length cols \<and> ToLower L (cols ! (j - Suc i)) = key"
    then have "j - i = Suc (j - Suc i)" by arith
    with a show ?thesis by auto
  qed
qed

lemma columnIndex_loop_None:
  "columnIndex_loop L i cols m key = None \<longleftrightarrow> m key = None \<and> key \<notin> ToLower L ` set cols"
  by (induction cols arbitrary: i m) auto

lemma columnIndex_found:
  "columnIndex_loop L 0 cols Map.empty key = Some j \<Longrightarrow>
   j < length cols \<and> ToLower L (cols ! j) = key"
  using columnIndex_loop_Some [of L 0 cols Map.empty key j] by simp

lemma columnIndex_ran:
  "j \<in> ran (columnIndex_loop L 0 cols Map.empty) \<Longrightarrow> j < length cols"
  by (auto simp: ran_def dest: columnIndex_found)

lemma Scan_ok: "length vs = length cols \<Longrightarrow> Scan L cols (Inr vs) = Inr vs"
  by (simp add: Scan_def)

lemma rows_loop_saved:
  "list_all (\<lambda>v. length v = length cols) rs \<Longrightarrow>
   rows_loop L step cols ci (map Inr rs) True n vars = (Inr (n + int (length rs)), vars)"
  by (induction rs arbitrary: n) (simp_all add: Scan_ok)

lemma rows_loop_first:
  "length r = length cols \<Longrightarrow> list_all (\<lambda>v. length v = length cols) rs \<Longrightarrow>
   rows_loop L step cols ci (map Inr (r # rs)) False 0 vars =
     (case saveRowValues L step vars r ci of
        (Some e, vars') \<Rightarrow> (Inl e, vars')
      | (None, vars') \<Rightarrow> (Inr (1 + int (length rs)), vars'))"
  by (simp add: Scan_ok rows_loop_saved split: prod.splits option.splits)

lemma runSQLAndSave_rows:
  assumes "QueryContext db stmt = Inr rows" "Columns rows = Inr cols"
    "fetched rows = map Inr (r # rs)" "list_all (\<lambda>v. length v = length cols) (r # rs)"
    "Err rows = None"
  shows "runSQLAndSave L db step stmt vars =
     (case saveRowValues L step vars r (columnIndex_loop L 0 cols Map.empty) of
        (Some e, vars') \<Rightarrow> (Inl e, vars')
      | (None, vars') \<Rightarrow> (Inr (1 + int (length rs)), vars'))"
proof -
  from assms(4) have r: "length r = length cols"
    and rs: "list_all (\<lambda>v. length v = length cols) rs"
    by simp_all
  show ?thesis
    unfolding runSQLAndSave_def Let_def
    by (simp add: assms(1,2,3,5) rows_loop_first [OF r rs] del: rows_loop.simps list.map
          split: prod.splits option.splits)
qed

lemma runSQLAndSave_no_rows:
  assumes "QueryContext db stmt = Inr rows" "Columns rows = Inr cols" "fetched rows = []"
    "Err rows = None"
  shows "runSQLAndSave L db step stmt vars = (Inl (ErrNoRowsToSave (Name step)), vars)"
  using assms by (simp add: runSQLAndSave_def)

lemma executeSQLStep_connected:
  assumes "connected L step vars db"
  shows "executeSQLStep L step stmt vars =
     (case executeSQLAndMaybeSave L db step stmt vars of
        (Inl e, vars') \<Rightarrow> (Some e, vars')
      | (Inr affectedRows, vars') \<Rightarrow> (ensureExpectedAffectedRows step affectedRows, vars'))"
  using assms unfolding connected_def databaseURL_def executeSQLStep_def Let_def
  by (simp split: if_splits)


subsection \<open>A query with rows\<close>

lemma matched_all:
  assumes "\<forall>(k, c) \<in> set save. ToLower L (targetColumn L k c) \<in> ToLower L ` set cols"
  shows "list_all (matched L (columnIndex_loop L 0 cols Map.empty) (length cols)) save"
proof -
  have "matched L (columnIndex_loop L 0 cols Map.empty) (length cols) kc" if "kc \<in> set save" for kc
  proof -
    from that assms have "ToLower L (targetColumn L (fst kc) (snd kc)) \<in> ToLower L ` set cols"
      by (cases kc) auto
    then have "columnIndex_loop L 0 cols Map.empty (ToLower L (targetColumn L (fst kc) (snd kc))) \<noteq> None"
      by (simp add: columnIndex_loop_None)
    then obtain j where j: "columnIndex_loop L 0 cols Map.empty
        (ToLower L (targetColumn L (fst kc) (snd kc))) = Some j"
      by auto
    with columnIndex_found [OF j] show ?thesis by (simp add: matched_def)
  qed
  then show ?thesis by (simp add: list_all_iff)
qed

lemma runSQLAndSave_matched:
  assumes q: "QueryContext db stmt = Inr rows" "Columns rows = Inr cols"
    "fetched rows = map Inr (r # rs)" "\<forall>v \<in> set (r # rs). length v = length cols"
    "Err rows = None"
    and d: "distinct (map fst (Save step))"
    and m: "\<forall>(k, c) \<in> set (Save step). ToLower L (targetColumn L k c) \<in> ToLower L ` set cols"
  shows "\<exists>vars'. runSQLAndSave L db step stmt vars = (Inr (int (length (r # rs))), vars') \<and>
     (\<forall>(k, c) \<in> set (Save step). \<exists>i < length cols.
         ToLower L (cols ! i) = ToLower L (targetColumn L k c) \<and>
         vars' k = (case r ! i of None \<Rightarrow> vars k | Some v \<Rightarrow> Some (anyToString L v))) \<and>
     (\<forall>k. k \<notin> fst ` set (Save step) \<longrightarrow> vars' k = vars k)"
proof -
  let ?ci = "columnIndex_loop L 0 cols Map.empty"
  let ?res = "saveRowValues_loop L (Name step) (Save step) vars r ?ci"
  from q(4) have len: "list_all (\<lambda>v. length v = length cols) (r # rs)"
    by (simp add: list_all_iff)
  then have lr: "length r = length cols" by simp
  from matched_all [OF m] lr have ma: "list_all (matched L ?ci (length r)) (Save step)" by simp
  have ok: "fst ?res = None" by (rule loop_ok [OF ma])
  have run: "runSQLAndSave L db step stmt vars = (Inr (int (length (r # rs))), snd ?res)"
    using runSQLAndSave_rows [OF q(1,2,3) len q(5), of L step vars] ok
    by (simp add: saveRowValues_def split: prod.splits option.splits)
  have keys: "\<exists>i < length cols. ToLower L (cols ! i) = ToLower L (targetColumn L k c) \<and>
      snd ?res k = (case r ! i of None \<Rightarrow> vars k | Some v \<Rightarrow> Some (anyToString L v))"
    if kc: "(k, c) \<in> set (Save step)" for k c
  proof -
    from ma kc have "matched L ?ci (length r) (k, c)" by (auto simp: list_all_iff)
    then obtain i where i: "?ci (ToLower L (targetColumn L k c)) = Some i"
      by (auto simp: matched_def split: option.splits)
    from columnIndex_found [OF i] loop_key [OF d kc ma i] show ?thesis by blast
  qed
  have others: "snd ?res k = vars k" if "k \<notin> fst ` set (Save step)" for k
    by (rule loop_other [OF that])
  from run keys others show ?thesis by blast
qed

lemma runSQLAndSave_unmatched:
  assumes q: "QueryContext db stmt = Inr rows" "Columns rows = Inr cols"
    "fetched rows = map Inr (r # rs)" "\<forall>v \<in> set (r # rs). length v = length cols"
    "Err rows = None"
    and u: "(k, c) \<in> set (Save step)" "ToLower L (targetColumn L k c) \<notin> ToLower L ` set cols"
  shows "\<exists>t vars'. runSQLAndSave L db step stmt vars = (Inl (ErrColumnNotFound (Name step) t), vars') \<and>
     ToLower L t \<notin> ToLower L ` set cols"
proof -
  let ?ci = "columnIndex_loop L 0 cols Map.empty"
  let ?res = "saveRowValues_loop L (Name step) (Save step) vars r ?ci"
  from q(4) have len: "list_all (\<lambda>v. length v = length cols) (r # rs)"
    by (simp add: list_all_iff)
  then have lr: "length r = length cols" by simp
  from u(2) have none: "?ci (ToLower L (targetColumn L k c)) = None"
    by (simp add: columnIndex_loop_None)
  have ran: "\<forall>i \<in> ran ?ci. i < length r" using columnIndex_ran [of _ L cols] lr by auto
  from loop_unmatched [OF u(1) none ran, of "Name step" vars]
  obtain t where t: "fst ?res = Some (ErrColumnNotFound (Name step) t)" "?ci (ToLower L t) = None"
    by blast
  from t(2) have "ToLower L t \<notin> ToLower L ` set cols" by (simp add: columnIndex_loop_None)
  moreover have "runSQLAndSave L db step stmt vars = (Inl (ErrColumnNotFound (Name step) t), snd ?res)"
    using runSQLAndSave_rows [OF q(1,2,3) len q(5), of L step vars] t(1)
    by (simp add: saveRowValues_def split: prod.splits option.splits)
  ultimately show ?thesis by blast
qed


subsection \<open>Document-store steps\<close>

lemma executeMongoStep_connected:
  assumes "mongoConnected M L step cfg vars"
  shows "executeMongoStep M L r step vars =
     (case mongoSwitch M L step cfg vars (mongoDatabase L cfg vars) (mongoCollection L cfg vars)
             (normalizeMongoOperation L (Operation cfg)) of
        Inl e \<Rightarrow> (Some e, vars, r)
      | Inr (resultPayload, affected) \<Rightarrow> mongoFinish L r step vars resultPayload affected)"
  using assms
  unfolding mongoConnected_def mongoURI_def mongoDatabase_def mongoCollection_def
    executeMongoStep_def Let_def
  by (auto split: if_splits)

lemma mongoFinish_fst:
  "fst (mongoFinish L r step vars payload affected) = ensureExpectedAffectedRows step affected"
  by (simp add: mongoFinish_def Let_def split: option.splits)

lemmas mongoOp_defs =
  mongoOpFindOne_def mongoOpFind_def mongoOpAggregate_def mongoOpInsertOne_def
  mongoOpUpdateOne_def mongoOpDeleteOne_def mongoOpCommand_def

lemma executeMongoStep_outcome:
  assumes "mongoConnected M L step cfg vars"
  shows "fst (executeMongoStep M L r step vars) =
     (case mongoSwitch M L step cfg vars (mongoDatabase L cfg vars) (mongoCollection L cfg vars)
             (normalizeMongoOperation L (Operation cfg)) of
        Inl e \<Rightarrow> Some e
      | Inr (p, n) \<Rightarrow> ensureExpectedAffectedRows step n)"
  by (simp add: executeMongoStep_connected [OF assms] mongoFinish_fst split: sum.splits)

lemma run_findOne_none:
  assumes "parseBSONDocument M L (render L (Filter cfg) vars) = Inr f"
    "FindOne M db coll f = ErrNoDocuments"
  shows "mongoSwitch M L step cfg vars db coll mongoOpFindOne = Inr (''null'', 0)"
  using assms by (simp add: mongoSwitch_def)

lemma run_findOne_doc:
  assumes "parseBSONDocument M L (render L (Filter cfg) vars) = Inr f"
    "FindOne M db coll f = FindOneDoc d" "bsonToJSON M (FoundDoc d) = Inr p"
  shows "mongoSwitch M L step cfg vars db coll mongoOpFindOne = Inr (p, 1)"
  using assms by (simp add: mongoSwitch_def)

lemma run_find:
  assumes "parseBSONDocument M L (render L (Filter cfg) vars) = Inr f"
    "Find M db coll f (if Limit cfg > 0 then Some (Limit cfg) else None) = Inr (Inr docs)"
    "bsonToJSON M (FoundDocs docs) = Inr p"
  shows "mongoSwitch M L step cfg vars db coll mongoOpFind = Inr (p, int (length docs))"
  using assms by (simp add: mongoSwitch_def mongoOp_defs)

lemma run_aggregate:
  assumes "parseBSONArray M L (render L (Pipeline cfg) vars) = Inr pl"
    "Aggregate M db coll pl = Inr (Inr docs)"
    "bsonToJSON M (FoundDocs docs) = Inr p"
  shows "mongoSwitch M L step cfg vars db coll mongoOpAggregate = Inr (p, int (length docs))"
  using assms by (simp add: mongoSwitch_def mongoOp_defs)

lemma run_insertOne:
  assumes "parseBSONDocument M L (render L (Document cfg) vars) = Inr d"
    "lenM M d \<noteq> 0" "InsertOne M db coll d = Inr i" "bsonToJSON M (InsertedID i) = Inr p"
  shows "mongoSwitch M L step cfg vars db coll mongoOpInsertOne = Inr (p, 1)"
  using assms by (simp add: mongoSwitch_def mongoOp_defs)

lemma run_updateOne:
  assumes "parseBSONDocument M L (render L (Filter cfg) vars) = Inr f"
    "parseBSONDocument M L (render L (Update cfg) vars) = Inr u"
    "lenM M u \<noteq> 0" "UpdateOne M db coll f u = Inr res" "bsonToJSON M (UpdateCounts res) = Inr p"
  shows "mongoSwitch M L step cfg vars db coll mongoOpUpdateOne =
     Inr (p, if ModifiedCount res = 0 \<and> UpsertedCount res > 0 then UpsertedCount res
             else ModifiedCount res)"
  using assms by (simp add: mongoSwitch_def mongoOp_defs Let_def)

lemma run_deleteOne:
  assumes "parseBSONDocument M L (render L (Filter cfg) vars) = Inr f"
    "DeleteOne M db coll f = Inr n" "bsonToJSON M (DeletedCount n) = Inr p"
  shows "mongoSwitch M L step cfg vars db coll mongoOpDeleteOne = Inr (p, n)"
  using assms by (simp add: mongoSwitch_def mongoOp_defs)

lemma run_command:
  assumes "TrimSpace L (render L (Command cfg) vars) \<noteq> []"
    "parseBSONDocument M L (TrimSpace L (render L (Command cfg) vars)) = Inr c"
    "RunCommand M db c = Inr res" "bsonToJSON M (CommandResult res) = Inr p"
  shows "mongoSwitch M L step cfg vars db coll mongoOpCommand = Inr (p, 1)"
  using assms by (simp add: mongoSwitch_def mongoOp_defs Let_def)


lemmas mongo_example_defs =
  stdmongo_def usersFind_def usersFindAll_def findZed_def findZedExpected_def findAnn_def
  findAll_def

lemma stdlib_render_plain:
  "render stdlib ''mongodb://localhost:27017'' vars = ''mongodb://localhost:27017''"
  "render stdlib ''app'' vars = ''app''"
  "render stdlib ''users'' vars = ''users''"
  "render stdlib ''{\"name\":\"zed\"}'' vars = ''{\"name\":\"zed\"}''"
  "render stdlib ''{\"name\":\"ann\"}'' vars = ''{\"name\":\"ann\"}''"
  by (simp_all add: render_def stdlib_def miniExecute_def asciiTrimSpace_def isSpace_def)

lemma stdlib_ops:
  "normalizeMongoOperation stdlib ''findOne'' = mongoOpFindOne"
  "normalizeMongoOperation stdlib ''find'' = mongoOpFind"
  by (simp_all add: normalizeMongoOperation_def stdlib_def asciiTrimSpace_def isSpace_def
        asciiToLower_def mongoOp_defs)

lemma stdlib_trim:
  "TrimSpace stdlib ''mongodb://localhost:27017'' = ''mongodb://localhost:27017''"
  "TrimSpace stdlib ''app'' = ''app''"
  "TrimSpace stdlib ''users'' = ''users''"
  "TrimSpace stdlib ''{\"name\":\"zed\"}'' = ''{\"name\":\"zed\"}''"
  "TrimSpace stdlib ''{\"name\":\"ann\"}'' = ''{\"name\":\"ann\"}''"
  "TrimSpace stdlib [] = []"
  by (simp_all add: stdlib_def asciiTrimSpace_def isSpace_def)

lemma users_mongo_resolved:
  "mongoURI stdlib (usersFind\<lparr>Filter := f\<rparr>) vars = ''mongodb://localhost:27017''"
  "mongoDatabase stdlib (usersFind\<lparr>Filter := f\<rparr>) vars = ''app''"
  "mongoCollection stdlib (usersFind\<lparr>Filter := f\<rparr>) vars = ''users''"
  "normalizeMongoOperation stdlib (Operation (usersFind\<lparr>Filter := f\<rparr>)) = mongoOpFindOne"
  by (simp_all add: mongoURI_def mongoDatabase_def mongoCollection_def usersFind_def
        stdlib_render_plain stdlib_trim stdlib_ops mongoOp_defs)

lemma users_mongo_connected:
  "Mongo step = Some (usersFind\<lparr>Filter := f\<rparr>) \<Longrightarrow>
   mongoConnected stdmongo stdlib step (usersFind\<lparr>Filter := f\<rparr>) vars"
  by (simp add: mongoConnected_def users_mongo_resolved mongoOp_defs) (simp add: stdmongo_def)

lemma zed_filter:
  "parseBSONDocument stdmongo stdlib (render stdlib (Filter usersFind) vars) = Inr ''{\"name\":\"zed\"}''"
  "FindOne stdmongo ''app'' ''users'' ''{\"name\":\"zed\"}'' = ErrNoDocuments"
  by (simp_all add: parseBSONDocument_def usersFind_def stdlib_render_plain stdlib_trim)
    (simp_all add: stdmongo_def)

lemma ann_filter:
  "parseBSONDocument stdmongo stdlib (render stdlib (Filter (usersFind\<lparr>Filter := ''{\"name\":\"ann\"}''\<rparr>)) vars)
     = Inr ''{\"name\":\"ann\"}''"
  "FindOne stdmongo ''app'' ''users'' ''{\"name\":\"ann\"}'' = FindOneDoc ''{\"name\":\"ann\",\"age\":7}''"
  "bsonToJSON stdmongo (FoundDoc ''{\"name\":\"ann\",\"age\":7}'') = Inr ''{\"name\":\"ann\",\"age\":7}''"
  by (simp_all add: parseBSONDocument_def bsonToJSON_def stdlib_render_plain stdlib_trim)
    (simp_all add: stdmongo_def)

subsection \<open>The save directive in each kind of step\<close>

lemma mongoFinish_store:
  assumes "ensureExpectedAffectedRows step affected = None"
  shows "fst (mongoFinish L r step vars payload affected) = None \<and>
     fst (snd (mongoFinish L r step vars payload affected)) =
       (if Save step \<noteq> [] \<and> payload \<noteq> [] \<and> Valid L payload
        then saveValues L payload (Save step) vars else vars)"
  using assms by (simp add: mongoFinish_def Let_def)

lemma executeMongoStep_store:
  assumes "mongoConnected M L step cfg vars"
    "mongoSwitch M L step cfg vars (mongoDatabase L cfg vars) (mongoCollection L cfg vars)
       (normalizeMongoOperation L (Operation cfg)) = Inr (payload, affected)"
    "ensureExpectedAffectedRows step affected = None"
  shows "fst (executeMongoStep M L r step vars) = None \<and>
     fst (snd (executeMongoStep M L r step vars)) =
       (if Save step \<noteq> [] \<and> payload \<noteq> [] \<and> Valid L payload
        then saveValues L payload (Save step) vars else vars)"
  using mongoFinish_store [OF assms(3), of L r vars payload] assms(2)
  by (simp add: executeMongoStep_connected [OF assms(1)])

lemma grpcFinish_ok:
  assumes "if TrimSpace L (ExpectCode cfg) = [] then Code (respStatusOf h) = 0
           else parseGRPCCode G L (TrimSpace L (ExpectCode cfg)) = Inr (Code (respStatusOf h))"
  shows "fst (grpcFinish G L r step cfg vars h) = None \<and>
     fst (snd (grpcFinish G L r step cfg vars h)) =
       (if Save step \<noteq> [] \<and> ResponsePayload L h \<noteq> [] \<and> Valid L (ResponsePayload L h)
        then saveValues L (ResponsePayload L h) (Save step) vars else vars)"
  using assms by (simp add: grpcFinish_def Let_def split: if_splits)

lemma executeGRPCStep_invoked:
  assumes "GRPC step = Some cfg"
    "TrimSpace L (render L (Target cfg) vars) \<noteq> []"
    "TrimSpace L (render L (grpc_Method cfg) vars) \<noteq> []"
    "parseGRPCFormat L (Format cfg) = Inr format"
    "grpcInvoke G L step cfg vars (TrimSpace L (render L (Target cfg) vars))
       (TrimSpace L (render L (grpc_Method cfg) vars)) format (render L (Request cfg) vars)
       (buildGRPCHeaders G L (Metadata cfg) vars)
       (buildGRPCHeaders G L (ReflectionMetadata cfg) vars) = Inr h"
  shows "executeGRPCStep G L r step vars = grpcFinish G L r step cfg vars h"
  using assms by (simp add: executeGRPCStep_def Let_def)

lemma executeHTTP_ok:
  assumes "NewRequest L (Method step) url = None"
    "Do L (Method step) url (renderHeaders L (Headers step) vars)
       (if bodyStr \<noteq> [] then Some bodyStr else None) = Inr (code, Inr resp)"
    "ExpectStatus step = 0 \<or> code = ExpectStatus step"
  shows "fst (executeHTTP L r step vars url bodyStr) = None \<and>
     fst (snd (executeHTTP L r step vars url bodyStr)) =
       (if Save step \<noteq> [] \<and> resp \<noteq> [] \<and> Valid L resp
        then saveValues L resp (Save step) vars else vars)"
  using assms by (auto simp: executeHTTP_def Let_def)

text \<open>
  C1 (as amended). For every key of a save map: a path that resolves to the empty string
  leaves the variable as it was and every other key is still processed. This is all the
  save directive does in an HTTP, an RPC and a document-store step, and it cannot fail
  them: a document-store step whose expectation passed, an HTTP step whose response was
  read and whose status expectation passed, and an RPC step whose call returned with the
  expected status all succeed, and the variables they leave are those of \<open>saveValues\<close>
  on the payload (the variables as they were when nothing is to be saved, or when the
  payload is empty or not valid JSON). For SQL, with at least one returned row, a NULL in
  the first row leaves the variable as it was when every save target names a column; a
  save target that names no column fails the query with \<open>ErrColumnNotFound\<close>; a query
  returning zero rows fails with \<open>ErrNoRowsToSave\<close>.
\<close>

theorem save_empty_or_null_is_skipped:
  assumes "distinct (map fst save)" "Save step = save"
  shows "(\<forall>(k, p) \<in> set save.
            saveValues L resp save vars k =
              (if GetBytes L resp p = [] then vars k else Some (GetBytes L resp p))) \<and>
         (ensureExpectedAffectedRows step affected = None \<longrightarrow>
            fst (mongoFinish L r step vars resp affected) = None \<and>
            fst (snd (mongoFinish L r step vars resp affected)) =
              (if save \<noteq> [] \<and> resp \<noteq> [] \<and> Valid L resp
               then saveValues L resp save vars else vars)) \<and>
         (QueryContext db stmt = Inr rows \<and> Columns rows = Inr cols \<and>
          fetched rows = map Inr (row # rest) \<and> (\<forall>v \<in> set (row # rest). length v = length cols) \<and>
          Err rows = None \<and>
          (\<forall>(k, c) \<in> set save. ToLower L (targetColumn L k c) \<in> ToLower L ` set cols) \<longrightarrow>
            (\<exists>vars'. runSQLAndSave L db step stmt vars = (Inr (int (length (row # rest))), vars') \<and>
               (\<forall>(k, c) \<in> set save. \<exists>i < length cols.
                   ToLower L (cols ! i) = ToLower L (targetColumn L k c) \<and>
                   vars' k = (case row ! i of None \<Rightarrow> vars k | Some v \<Rightarrow> Some (anyToString L v))))) \<and>
         (QueryContext db stmt = Inr rows \<and> Columns rows = Inr cols \<and>
          fetched rows = map Inr (row # rest) \<and> (\<forall>v \<in> set (row # rest). length v = length cols) \<and>
          Err rows = None \<and>
          (\<exists>(k, c) \<in> set save. ToLower L (targetColumn L k c) \<notin> ToLower L ` set cols) \<longrightarrow>
            (\<exists>t vars'. runSQLAndSave L db step stmt vars =
                (Inl (ErrColumnNotFound (Name step) t), vars'))) \<and>
         (QueryContext db stmt = Inr rows \<and> Columns rows = Inr cols \<and> fetched rows = [] \<and>
          Err rows = None \<longrightarrow>
            runSQLAndSave L db step stmt vars = (Inl (ErrNoRowsToSave (Name step)), vars)) \<and>
         (NewRequest L (Method step) url = None \<and>
          Do L (Method step) url (renderHeaders L (Headers step) vars)
            (if bodyStr \<noteq> [] then Some bodyStr else None) = Inr (code, Inr resp) \<and>
          (ExpectStatus step = 0 \<or> code = ExpectStatus step) \<longrightarrow>
            fst (executeHTTP L r step vars url bodyStr) = None \<and>
            fst (snd (executeHTTP L r step vars url bodyStr)) =
              (if save \<noteq> [] \<and> resp \<noteq> [] \<and> Valid L resp
               then saveValues L resp save vars else vars)) \<and>
         (mongoConnected M L step cfg vars \<and>
          mongoSwitch M L step cfg vars (mongoDatabase L cfg vars) (mongoCollection L cfg vars)
            (normalizeMongoOperation L (Operation cfg)) = Inr (resp, affected) \<and>
          ensureExpectedAffectedRows step affected = None \<longrightarrow>
            fst (executeMongoStep M L r step vars) = None \<and>
            fst (snd (executeMongoStep M L r step vars)) =
              (if save \<noteq> [] \<and> resp \<noteq> [] \<and> Valid L resp
               then saveValues L resp save vars else vars)) \<and>
         ((if TrimSpace L (ExpectCode gcfg) = [] then Code (respStatusOf h) = 0
           else parseGRPCCode G L (TrimSpace L (ExpectCode gcfg)) = Inr (Code (respStatusOf h))) \<longrightarrow>
            fst (grpcFinish G L r step gcfg vars h) = None \<and>
            fst (snd (grpcFinish G L r step gcfg vars h)) =
              (if save \<noteq> [] \<and> ResponsePayload L h \<noteq> [] \<and> Valid L (ResponsePayload L h)
               then saveValues L (ResponsePayload L h) save vars else vars)) \<and>
         (GRPC step = Some gcfg \<and>
          TrimSpace L (render L (Target gcfg) vars) \<noteq> [] \<and>
          TrimSpace L (render L (grpc_Method gcfg) vars) \<noteq> [] \<and>
          parseGRPCFormat L (Format gcfg) = Inr format \<and>
          grpcInvoke G L step gcfg vars (TrimSpace L (render L (Target gcfg) vars))
            (TrimSpace L (render L (grpc_Method gcfg) vars)) format (render L (Request gcfg) vars)
            (buildGRPCHeaders G L (Metadata gcfg) vars)
            (buildGRPCHeaders G L (ReflectionMetadata gcfg) vars) = Inr h \<and>
          (if TrimSpace L (ExpectCode gcfg) = [] then Code (respStatusOf h) = 0
           else parseGRPCCode G L (TrimSpace L (ExpectCode gcfg)) = Inr (Code (respStatusOf h))) \<longrightarrow>
            fst (executeGRPCStep G L r step vars) = None \<and>
            fst (snd (executeGRPCStep G L r step vars)) =
              (if save \<noteq> [] \<and> ResponsePayload L h \<noteq> [] \<and> Valid L (ResponsePayload L h)
               then saveValues L (ResponsePayload L h) save vars else vars))"
proof -
  have c1: "\<forall>(k, p) \<in> set save. saveValues L resp save vars k =
      (if GetBytes L resp p = [] then vars k else Some (GetBytes L resp p))"
    using saveValues_key [OF assms(1)] by blast
  have c2: "ensureExpectedAffectedRows step affected = None \<longrightarrow>
      fst (mongoFinish L r step vars resp affected) = None \<and>
      fst (snd (mongoFinish L r step vars resp affected)) =
        (if save \<noteq> [] \<and> resp \<noteq> [] \<and> Valid L resp
         then saveValues L resp save vars else vars)"
    using mongoFinish_store [of step affected L r vars resp] assms(2) by simp
  have c3: "QueryContext db stmt = Inr rows \<and> Columns rows = Inr cols \<and>
      fetched rows = map Inr (row # rest) \<and> (\<forall>v \<in> set (row # rest). length v = length cols) \<and>
      Err rows = None \<and>
      (\<forall>(k, c) \<in> set save. ToLower L (targetColumn L k c) \<in> ToLower L ` set cols) \<longrightarrow>
        (\<exists>vars'. runSQLAndSave L db step stmt vars = (Inr (int (length (row # rest))), vars') \<and>
           (\<forall>(k, c) \<in> set save. \<exists>i < length cols.
               ToLower L (cols ! i) = ToLower L (targetColumn L k c) \<and>
               vars' k = (case row ! i of None \<Rightarrow> vars k | Some v \<Rightarrow> Some (anyToString L v))))"
  proof
    assume a: "QueryContext db stmt = Inr rows \<and> Columns rows = Inr cols \<and>
        fetched rows = map Inr (row # rest) \<and> (\<forall>v \<in> set (row # rest). length v = length cols) \<and>
        Err rows = None \<and>
        (\<forall>(k, c) \<in> set save. ToLower L (targetColumn L k c) \<in> ToLower L ` set cols)"
    from assms have d: "distinct (map fst (Save step))" by simp
    from a assms(2) have m: "\<forall>(k, c) \<in> set (Save step).
        ToLower L (targetColumn L k c) \<in> ToLower L ` set cols" by simp
    from a have q: "QueryContext db stmt = Inr rows" "Columns rows = Inr cols"
      "fetched rows = map Inr (row # rest)" "\<forall>v \<in> set (row # rest). length v = length cols"
      "Err rows = None" by blast+
    from runSQLAndSave_matched [OF q d m, of vars] assms(2)
    show "\<exists>vars'. runSQLAndSave L db step stmt vars = (Inr (int (length (row # rest))), vars') \<and>
        (\<forall>(k, c) \<in> set save. \<exists>i < length cols.
            ToLower L (cols ! i) = ToLower L (targetColumn L k c) \<and>
            vars' k = (case row ! i of None \<Rightarrow> vars k | Some v \<Rightarrow> Some (anyToString L v)))"
      by auto
  qed
  have c4: "QueryContext db stmt = Inr rows \<and> Columns rows = Inr cols \<and>
      fetched rows = map Inr (row # rest) \<and> (\<forall>v \<in> set (row # rest). length v = length cols) \<and>
      Err rows = None \<and>
      (\<exists>(k, c) \<in> set save. ToLower L (targetColumn L k c) \<notin> ToLower L ` set cols) \<longrightarrow>
        (\<exists>t vars'. runSQLAndSave L db step stmt vars =
            (Inl (ErrColumnNotFound (Name step) t), vars'))"
  proof
    assume a: "QueryContext db stmt = Inr rows \<and> Columns rows = Inr cols \<and>
        fetched rows = map Inr (row # rest) \<and> (\<forall>v \<in> set (row # rest). length v = length cols) \<and>
        Err rows = None \<and>
        (\<exists>(k, c) \<in> set save. ToLower L (targetColumn L k c) \<notin> ToLower L ` set cols)"
    then obtain k c where u: "(k, c) \<in> set (Save step)"
      "ToLower L (targetColumn L k c) \<notin> ToLower L ` set cols"
      using assms(2) by auto
    from a have q: "QueryContext db stmt = Inr rows" "Columns rows = Inr cols"
      "fetched rows = map Inr (row # rest)" "\<forall>v \<in> set (row # rest). length v = length cols"
      "Err rows = None" by blast+
    from runSQLAndSave_unmatched [OF q u, of vars]
    show "\<exists>t vars'. runSQLAndSave L db step stmt vars = (Inl (ErrColumnNotFound (Name step) t), vars')"
      by blast
  qed
  have c5: "QueryContext db stmt = Inr rows \<and> Columns rows = Inr cols \<and> fetched rows = [] \<and>
      Err rows = None \<longrightarrow>
        runSQLAndSave L db step stmt vars = (Inl (ErrNoRowsToSave (Name step)), vars)"
    by (simp add: runSQLAndSave_no_rows)
  have c6: "NewRequest L (Method step) url = None \<and>
      Do L (Method step) url (renderHeaders L (Headers step) vars)
        (if bodyStr \<noteq> [] then Some bodyStr else None) = Inr (code, Inr resp) \<and>
      (ExpectStatus step = 0 \<or> code = ExpectStatus step) \<longrightarrow>
        fst (executeHTTP L r step vars url bodyStr) = None \<and>
        fst (snd (executeHTTP L r step vars url bodyStr)) =
          (if save \<noteq> [] \<and> resp \<noteq> [] \<and> Valid L resp
           then saveValues L resp save vars else vars)"
    using executeHTTP_ok [of L step url vars bodyStr code resp r] assms(2) by blast
  have c7: "mongoConnected M L step cfg vars \<and>
      mongoSwitch M L step cfg vars (mongoDatabase L cfg vars) (mongoCollection L cfg vars)
        (normalizeMongoOperation L (Operation cfg)) = Inr (resp, affected) \<and>
      ensureExpectedAffectedRows step affected = None \<longrightarrow>
        fst (executeMongoStep M L r step vars) = None \<and>
        fst (snd (executeMongoStep M L r step vars)) =
          (if save \<noteq> [] \<and> resp \<noteq> [] \<and> Valid L resp
           then saveValues L resp save vars else vars)"
    using executeMongoStep_store [of M L step cfg vars resp affected r] assms(2) by blast
  have c8: "(if TrimSpace L (ExpectCode gcfg) = [] then Code (respStatusOf h) = 0
       else parseGRPCCode G L (TrimSpace L (ExpectCode gcfg)) = Inr (Code (respStatusOf h))) \<longrightarrow>
        fst (grpcFinish G L r step gcfg vars h) = None \<and>
        fst (snd (grpcFinish G L r step gcfg vars h)) =
          (if save \<noteq> [] \<and> ResponsePayload L h \<noteq> [] \<and> Valid L (ResponsePayload L h)
           then saveValues L (ResponsePayload L h) save vars else vars)"
    using grpcFinish_ok [of L gcfg h G r step vars] assms(2) by blast
  have c9: "GRPC step = Some gcfg \<and>
      TrimSpace L (render L (Target gcfg) vars) \<noteq> [] \<and>
      TrimSpace L (render L (grpc_Method gcfg) vars) \<noteq> [] \<and>
      parseGRPCFormat L (Format gcfg) = Inr format \<and>
      grpcInvoke G L step gcfg vars (TrimSpace L (render L (Target gcfg) vars))
        (TrimSpace L (render L (grpc_Method gcfg) vars)) format (render L (Request gcfg) vars)
        (buildGRPCHeaders G L (Metadata gcfg) vars)
        (buildGRPCHeaders G L (ReflectionMetadata gcfg) vars) = Inr h \<and>
      (if TrimSpace L (ExpectCode gcfg) = [] then Code (respStatusOf h) = 0
       else parseGRPCCode G L (TrimSpace L (ExpectCode gcfg)) = Inr (Code (respStatusOf h))) \<longrightarrow>
        fst (executeGRPCStep G L r step vars) = None \<and>
        fst (snd (executeGRPCStep G L r step vars)) =
          (if save \<noteq> [] \<and> ResponsePayload L h \<noteq> [] \<and> Valid L (ResponsePayload L h)
           then saveValues L (ResponsePayload L h) save vars else vars)"
  proof
    assume a: "GRPC step = Some gcfg \<and>
      TrimSpace L (render L (Target gcfg) vars) \<noteq> [] \<and>
      TrimSpace L (render L (grpc_Method gcfg) vars) \<noteq> [] \<and>
      parseGRPCFormat L (Format gcfg) = Inr format \<and>
      grpcInvoke G L step gcfg vars (TrimSpace L (render L (Target gcfg) vars))
        (TrimSpace L (render L (grpc_Method gcfg) vars)) format (render L (Request gcfg) vars)
        (buildGRPCHeaders G L (Metadata gcfg) vars)
        (buildGRPCHeaders G L (ReflectionMetadata gcfg) vars) = Inr h \<and>
      (if TrimSpace L (ExpectCode gcfg) = [] then Code (respStatusOf h) = 0
       else parseGRPCCode G L (TrimSpace L (ExpectCode gcfg)) = Inr (Code (respStatusOf h)))"
    then have e: "executeGRPCStep G L r step vars = grpcFinish G L r step gcfg vars h"
      using executeGRPCStep_invoked [of step gcfg L vars format G h r] by blast
    from a c8 e show "fst (executeGRPCStep G L r step vars) = None \<and>
        fst (snd (executeGRPCStep G L r step vars)) =
          (if save \<noteq> [] \<and> ResponsePayload L h \<noteq> [] \<and> Valid L (ResponsePayload L h)
           then saveValues L (ResponsePayload L h) save vars else vars)"
      by simp
  qed
  from c1 c2 c3 c4 c5 c6 c7 c8 c9 show ?thesis by (intro conjI)
qed


subsection \<open>The examples, evaluated\<close>

lemma lookup_run:
  "runSQLAndSave stdlib usersDB lookupStep ''SELECT * FROM users'' [''remark'' \<mapsto> ''old'']
     = (Inr 2, [''remark'' \<mapsto> ''old'', ''user_id'' \<mapsto> ''7'', ''Name'' \<mapsto> ''ann''])"
  by (simp add: example_defs sql_defs Let_def)

lemma nickname_run:
  "runSQLAndSave stdlib usersDB nicknameStep ''SELECT * FROM users'' Map.empty
     = (Inl (ErrColumnNotFound ''lookup'' ''nickname''), Map.empty)"
  by (simp add: example_defs sql_defs Let_def)

lemma users_query:
  "QueryContext usersDB ''SELECT * FROM users'' = Inr usersRows \<and>
   Columns usersRows = Inr [''ID'', ''Name'', ''note''] \<and>
   fetched usersRows = map Inr [[Some (OtherVal 7), Some (ByteSlice ''ann''), None],
                                [Some (OtherVal 8), Some (ByteSlice ''bob''), Some (ByteSlice ''x'')]] \<and>
   Err usersRows = None"
  by (simp add: usersDB_def usersRows_def)

lemma empty_query:
  "QueryContext usersDB ''SELECT * FROM users WHERE false'' = Inr noRows \<and>
   Columns noRows = Inr [''ID'', ''Name'', ''note''] \<and> fetched noRows = [] \<and> Err noRows = None"
  by (simp add: usersDB_def noRows_def)

lemma lookup_targets:
  "\<forall>(k, c) \<in> set (Save lookupStep).
     ToLower stdlib (targetColumn stdlib k c) \<in> ToLower stdlib ` set [''ID'', ''Name'', ''note'']"
  by (simp add: lookupStep_def emptyStep_def targetColumn_def stdlib_def asciiTrimSpace_def
        isSpace_def asciiToLower_def)

lemma nickname_target:
  "\<exists>(k, c) \<in> set (Save nicknameStep).
     ToLower stdlib (targetColumn stdlib k c) \<notin> ToLower stdlib ` set [''ID'', ''Name'', ''note'']"
  by (simp add: nicknameStep_def emptyStep_def targetColumn_def stdlib_def asciiTrimSpace_def
        isSpace_def asciiToLower_def)

lemma step_fields:
  "Save lookupStep = [(''user_id'', ''id''), (''Name'', []), (''remark'', ''NOTE'')]"
  "Save nicknameStep = [(''nick'', ''nickname'')]"
  "Save deleteStep = []"
  "Name lookupStep = ''lookup''" "Name nicknameStep = ''lookup''" "Name deleteStep = ''cleanup''"
  "ExpectAffectedRows lookupStep = 0" "ExpectAffectedRows nicknameStep = 0"
  "ExpectAffectedRows deleteStep = 0"
  by (simp_all add: lookupStep_def nicknameStep_def deleteStep_def emptyStep_def)

lemma users_connected:
  "connected stdlib lookupStep Map.empty usersDB \<and> connected stdlib nicknameStep Map.empty usersDB \<and>
   connected stdlib deleteStep Map.empty usersDB"
  by (simp add: example_defs connected_def databaseURL_def render_def)

lemma example_saves:
  "Save findAnnSave = [(''age'', ''age''), (''email'', ''email'')]"
  "Save greetStep = [(''user_id'', ''data.id''), (''missing'', ''data.none'')]"
  "Mongo findAnnSave = Some (usersFind\<lparr>Filter := ''{\"name\":\"ann\"}''\<rparr>)"
  "ExpectAffectedRows findAnnSave = 0"
  "GRPC greetStep = Some greeterCfg"
  by (simp_all add: findAnnSave_def greetStep_def emptyStep_def)

lemma example_valid:
  "Valid stdlib ''{\"name\":\"ann\",\"age\":7}''"
  "Valid stdlib ''{\"data\":{\"id\":\"42\"}}''"
  "GetBytes stdlib ''{\"name\":\"ann\",\"age\":7}'' ''age'' = ''7''"
  "GetBytes stdlib ''{\"name\":\"ann\",\"age\":7}'' ''email'' = []"
  "GetBytes stdlib ''{\"data\":{\"id\":\"42\"}}'' ''data.id'' = ''42''"
  "GetBytes stdlib ''{\"data\":{\"id\":\"42\"}}'' ''data.none'' = []"
  by (simp_all add: stdlib_def)

lemma findAnnSave_switch:
  "mongoSwitch stdmongo stdlib findAnnSave (usersFind\<lparr>Filter := ''{\"name\":\"ann\"}''\<rparr>) vars
     (mongoDatabase stdlib (usersFind\<lparr>Filter := ''{\"name\":\"ann\"}''\<rparr>) vars)
     (mongoCollection stdlib (usersFind\<lparr>Filter := ''{\"name\":\"ann\"}''\<rparr>) vars)
     (normalizeMongoOperation stdlib (Operation (usersFind\<lparr>Filter := ''{\"name\":\"ann\"}''\<rparr>)))
   = Inr (''{\"name\":\"ann\",\"age\":7}'', 1)"
  by (simp only: users_mongo_resolved) (rule run_findOne_doc [OF ann_filter])

lemma greet_rendered:
  "TrimSpace stdlib (render stdlib (Target greeterCfg) vars) = ''localhost:50051''"
  "TrimSpace stdlib (render stdlib (grpc_Method greeterCfg) vars) = ''pkg.Greeter/Get''"
  "render stdlib (Request greeterCfg) vars = ''{\"id\":\"42\"}''"
  "buildGRPCHeaders stdgrpc stdlib (Metadata greeterCfg) vars = []"
  "buildGRPCHeaders stdgrpc stdlib (ReflectionMetadata greeterCfg) vars = []"
  "parseGRPCFormat stdlib (Format greeterCfg) = Inr FormatJSON"
  "TrimSpace stdlib (ExpectCode greeterCfg) = []"
  by (simp_all add: greeterCfg_def buildGRPCHeaders_def parseGRPCFormat_def render_def stdlib_def
        miniExecute_def asciiTrimSpace_def asciiToLower_def isSpace_def)

lemma greet_invoke:
  "grpcInvoke stdgrpc stdlib greetStep greeterCfg vars ''localhost:50051'' ''pkg.Greeter/Get''
     FormatJSON ''{\"id\":\"42\"}'' [] [] = Inr greetHandler"
  by (simp add: grpcInvoke_def dialGRPC_def transportCredentialsForStep_def
        buildDescriptorSource_def loadFileDescriptorSource_def boolValue_def greeterCfg_def
        stdgrpc_def OnReceiveResponse_def OnReceiveTrailers_def padFormatter_def greetHandler_def
        stdlib_def asciiTrimSpace_def isSpace_def)

lemma greet_hyps:
  "GRPC greetStep = Some greeterCfg \<and>
   TrimSpace stdlib (render stdlib (Target greeterCfg) vars) \<noteq> [] \<and>
   TrimSpace stdlib (render stdlib (grpc_Method greeterCfg) vars) \<noteq> [] \<and>
   parseGRPCFormat stdlib (Format greeterCfg) = Inr FormatJSON \<and>
   grpcInvoke stdgrpc stdlib greetStep greeterCfg vars
     (TrimSpace stdlib (render stdlib (Target greeterCfg) vars))
     (TrimSpace stdlib (render stdlib (grpc_Method greeterCfg) vars)) FormatJSON
     (render stdlib (Request greeterCfg) vars)
     (buildGRPCHeaders stdgrpc stdlib (Metadata greeterCfg) vars)
     (buildGRPCHeaders stdgrpc stdlib (ReflectionMetadata greeterCfg) vars) = Inr greetHandler \<and>
   (if TrimSpace stdlib (ExpectCode greeterCfg) = [] then Code (respStatusOf greetHandler) = 0
    else parseGRPCCode stdgrpc stdlib (TrimSpace stdlib (ExpectCode greeterCfg))
           = Inr (Code (respStatusOf greetHandler)))"
  by (simp add: greet_rendered greet_invoke example_saves) (simp add: respStatusOf_def greetHandler_def)

lemma greet_payload:
  "ResponsePayload stdlib greetHandler = ''{\"data\":{\"id\":\"42\"}}''"
  "ResponsePayload stdlib notFoundHandler = []"
  by (simp_all add: ResponsePayload_def greetHandler_def notFoundHandler_def)

lemma notFound_hyp:
  "if TrimSpace stdlib (ExpectCode (greeterCfg\<lparr>ExpectCode := '' not_found''\<rparr>)) = []
   then Code (respStatusOf notFoundHandler) = 0
   else parseGRPCCode stdgrpc stdlib (TrimSpace stdlib (ExpectCode (greeterCfg\<lparr>ExpectCode := '' not_found''\<rparr>)))
          = Inr (Code (respStatusOf notFoundHandler))"
  by (simp add: parseGRPCCode_def grpcCodeLookup_def respStatusOf_def notFoundHandler_def stdgrpc_def
        asciiToUpper_def stdlib_def asciiTrimSpace_def isSpace_def)

theorem save_empty_or_null_is_skipped_witness:
  "distinct (map fst (Save echoStep)) \<and>
   saveValues stdlib ''{\"data\":{\"id\":\"42\"}}'' (Save echoStep) [''missing'' \<mapsto> ''old''] ''user_id''
     = Some ''42'' \<and>
   saveValues stdlib ''{\"data\":{\"id\":\"42\"}}'' (Save echoStep) [''missing'' \<mapsto> ''old''] ''missing''
     = Some ''old'' \<and>
   distinct (map fst (Save lookupStep)) \<and>
   QueryContext usersDB ''SELECT * FROM users'' = Inr usersRows \<and>
   fst (runSQLAndSave stdlib usersDB lookupStep ''SELECT * FROM users'' [''remark'' \<mapsto> ''old'']) = Inr 2 \<and>
   snd (runSQLAndSave stdlib usersDB lookupStep ''SELECT * FROM users'' [''remark'' \<mapsto> ''old''])
     ''remark'' = Some ''old'' \<and>
   snd (runSQLAndSave stdlib usersDB lookupStep ''SELECT * FROM users'' [''remark'' \<mapsto> ''old''])
     ''user_id'' = Some ''7'' \<and>
   fst (runSQLAndSave stdlib usersDB nicknameStep ''SELECT * FROM users'' Map.empty)
     = Inl (ErrColumnNotFound ''lookup'' ''nickname'') \<and>
   QueryContext usersDB ''SELECT * FROM users WHERE false'' = Inr noRows \<and>
   runSQLAndSave stdlib usersDB lookupStep ''SELECT * FROM users WHERE false'' Map.empty
     = (Inl (ErrNoRowsToSave ''lookup''), Map.empty) \<and>
   Do stdlib (Method echoStep) ''http://localhost/echo'' [] None
     = Inr (200, Inr ''{\"data\":{\"id\":\"42\"}}'') \<and>
   fst (executeHTTP stdlib \<lparr>exporter = None\<rparr> echoStep [''missing'' \<mapsto> ''old'']
          ''http://localhost/echo'' []) = None \<and>
   fst (snd (executeHTTP stdlib \<lparr>exporter = None\<rparr> echoStep [''missing'' \<mapsto> ''old'']
          ''http://localhost/echo'' [])) ''user_id'' = Some ''42'' \<and>
   fst (snd (executeHTTP stdlib \<lparr>exporter = None\<rparr> echoStep [''missing'' \<mapsto> ''old'']
          ''http://localhost/echo'' [])) ''missing'' = Some ''old'' \<and>
   fst (mongoFinish stdlib \<lparr>exporter = None\<rparr> findAnnSave [''email'' \<mapsto> ''old'']
          ''{\"name\":\"ann\",\"age\":7}'' 1) = None \<and>
   fst (snd (mongoFinish stdlib \<lparr>exporter = None\<rparr> findAnnSave [''email'' \<mapsto> ''old'']
          ''{\"name\":\"ann\",\"age\":7}'' 1)) ''age'' = Some ''7'' \<and>
   fst (snd (mongoFinish stdlib \<lparr>exporter = None\<rparr> findAnnSave [''email'' \<mapsto> ''old'']
          ''{\"name\":\"ann\",\"age\":7}'' 1)) ''email'' = Some ''old'' \<and>
   FindOne stdmongo ''app'' ''users'' ''{\"name\":\"ann\"}'' = FindOneDoc ''{\"name\":\"ann\",\"age\":7}'' \<and>
   fst (executeMongoStep stdmongo stdlib \<lparr>exporter = None\<rparr> findAnnSave [''email'' \<mapsto> ''old'']) = None \<and>
   fst (snd (executeMongoStep stdmongo stdlib \<lparr>exporter = None\<rparr> findAnnSave [''email'' \<mapsto> ''old'']))
     ''age'' = Some ''7'' \<and>
   fst (snd (executeMongoStep stdmongo stdlib \<lparr>exporter = None\<rparr> findAnnSave [''email'' \<mapsto> ''old'']))
     ''email'' = Some ''old'' \<and>
   fst (grpcFinish stdgrpc stdlib \<lparr>exporter = None\<rparr> greetStep
          (greeterCfg\<lparr>ExpectCode := '' not_found''\<rparr>) [''missing'' \<mapsto> ''old''] notFoundHandler) = None \<and>
   fst (snd (grpcFinish stdgrpc stdlib \<lparr>exporter = None\<rparr> greetStep
          (greeterCfg\<lparr>ExpectCode := '' not_found''\<rparr>) [''missing'' \<mapsto> ''old''] notFoundHandler))
     = [''missing'' \<mapsto> ''old''] \<and>
   grpcInvoke stdgrpc stdlib greetStep greeterCfg [''missing'' \<mapsto> ''old''] ''localhost:50051''
     ''pkg.Greeter/Get'' FormatJSON ''{\"id\":\"42\"}'' [] [] = Inr greetHandler \<and>
   fst (executeGRPCStep stdgrpc stdlib \<lparr>exporter = None\<rparr> greetStep [''missing'' \<mapsto> ''old'']) = None \<and>
   fst (snd (executeGRPCStep stdgrpc stdlib \<lparr>exporter = None\<rparr> greetStep [''missing'' \<mapsto> ''old'']))
     ''user_id'' = Some ''42'' \<and>
   fst (snd (executeGRPCStep stdgrpc stdlib \<lparr>exporter = None\<rparr> greetStep [''missing'' \<mapsto> ''old'']))
     ''missing'' = Some ''old''"
proof -
  have d1: "distinct (map fst (Save echoStep))"
    by (simp add: echoStep_def emptyStep_def)
  have d2: "distinct (map fst (Save lookupStep))"
    by (simp add: lookupStep_def emptyStep_def)
  have d3: "distinct (map fst (Save nicknameStep))"
    by (simp add: nicknameStep_def emptyStep_def)
  have d4: "distinct (map fst (Save findAnnSave))"
    by (simp add: example_saves)
  have d5: "distinct (map fst (Save greetStep))"
    by (simp add: example_saves)
  note a = save_empty_or_null_is_skipped [OF d1 refl, where L = stdlib
      and resp = "''{\"data\":{\"id\":\"42\"}}''" and vars = "[''missing'' \<mapsto> ''old'']",
      THEN conjunct1]
  have s: "saveValues stdlib ''{\"data\":{\"id\":\"42\"}}'' (Save echoStep) [''missing'' \<mapsto> ''old''] ''user_id''
      = Some ''42'' \<and>
    saveValues stdlib ''{\"data\":{\"id\":\"42\"}}'' (Save echoStep) [''missing'' \<mapsto> ''old''] ''missing''
      = Some ''old''"
    using a by (simp add: echoStep_def emptyStep_def stdlib_def)
  have len: "\<forall>v \<in> set [[Some (OtherVal (7::int)), Some (ByteSlice ''ann''), None],
      [Some (OtherVal 8), Some (ByteSlice ''bob''), Some (ByteSlice ''x'')]].
      length v = length [''ID'', ''Name'', ''note'']"
    by simp
  note b = save_empty_or_null_is_skipped [OF d2 refl, where L = stdlib and db = usersDB
      and stmt = "''SELECT * FROM users''" and rows = usersRows
      and cols = "[''ID'', ''Name'', ''note'']"
      and row = "[Some (OtherVal 7), Some (ByteSlice ''ann''), None]"
      and rest = "[[Some (OtherVal 8), Some (ByteSlice ''bob''), Some (ByteSlice ''x'')]]"
      and vars = "[''remark'' \<mapsto> ''old'']",
      THEN conjunct2, THEN conjunct2, THEN conjunct1, THEN mp]
  from b users_query len lookup_targets
  have r1: "fst (runSQLAndSave stdlib usersDB lookupStep ''SELECT * FROM users'' [''remark'' \<mapsto> ''old''])
      = Inr 2"
    by fastforce
  note c = save_empty_or_null_is_skipped [OF d3 refl, where L = stdlib and db = usersDB
      and stmt = "''SELECT * FROM users''" and rows = usersRows
      and cols = "[''ID'', ''Name'', ''note'']"
      and row = "[Some (OtherVal 7), Some (ByteSlice ''ann''), None]"
      and rest = "[[Some (OtherVal 8), Some (ByteSlice ''bob''), Some (ByteSlice ''x'')]]"
      and vars = Map.empty,
      THEN conjunct2, THEN conjunct2, THEN conjunct2, THEN conjunct1, THEN mp]
  from c users_query len nickname_target
  have "\<exists>t vars'. runSQLAndSave stdlib usersDB nicknameStep ''SELECT * FROM users'' Map.empty
      = (Inl (ErrColumnNotFound (Name nicknameStep) t), vars')"
    by blast
  note z = save_empty_or_null_is_skipped [OF d2 refl, where L = stdlib and db = usersDB
      and stmt = "''SELECT * FROM users WHERE false''" and rows = noRows
      and cols = "[''ID'', ''Name'', ''note'']" and vars = Map.empty,
      THEN conjunct2, THEN conjunct2, THEN conjunct2, THEN conjunct2, THEN conjunct1, THEN mp]
  from z empty_query
  have r0: "runSQLAndSave stdlib usersDB lookupStep ''SELECT * FROM users WHERE false'' Map.empty
      = (Inl (ErrNoRowsToSave ''lookup''), Map.empty)"
    by (simp add: lookupStep_def emptyStep_def)
  have hd: "NewRequest stdlib (Method echoStep) ''http://localhost/echo'' = None"
    "Do stdlib (Method echoStep) ''http://localhost/echo''
       (renderHeaders stdlib (Headers echoStep) [''missing'' \<mapsto> ''old''])
       (if ([] :: string) \<noteq> [] then Some [] else None)
     = Inr (200, Inr ''{\"data\":{\"id\":\"42\"}}'')"
    "ExpectStatus echoStep = 0 \<or> 200 = ExpectStatus echoStep"
    "Valid stdlib ''{\"data\":{\"id\":\"42\"}}''"
    "Headers echoStep = []"
    by (simp_all add: echoStep_def emptyStep_def stdlib_def)
  note h = save_empty_or_null_is_skipped [OF d1 refl, where L = stdlib
      and r = "\<lparr>exporter = None\<rparr>" and url = "''http://localhost/echo''" and bodyStr = "[]"
      and code = 200 and resp = "''{\"data\":{\"id\":\"42\"}}''"
      and vars = "[''missing'' \<mapsto> ''old'']",
      THEN conjunct2, THEN conjunct2, THEN conjunct2, THEN conjunct2, THEN conjunct2,
      THEN conjunct1, THEN mp, OF conjI [OF hd(1) conjI [OF hd(2,3)]]]
  have sv: "Save echoStep \<noteq> []" by (simp add: echoStep_def emptyStep_def)
  from h hd(4) sv s
  have x: "fst (executeHTTP stdlib \<lparr>exporter = None\<rparr> echoStep [''missing'' \<mapsto> ''old'']
          ''http://localhost/echo'' []) = None \<and>
    fst (snd (executeHTTP stdlib \<lparr>exporter = None\<rparr> echoStep [''missing'' \<mapsto> ''old'']
          ''http://localhost/echo'' [])) ''user_id'' = Some ''42'' \<and>
    fst (snd (executeHTTP stdlib \<lparr>exporter = None\<rparr> echoStep [''missing'' \<mapsto> ''old'']
          ''http://localhost/echo'' [])) ''missing'' = Some ''old''"
    by simp
  have dd: "Do stdlib (Method echoStep) ''http://localhost/echo'' [] None
     = Inr (200, Inr ''{\"data\":{\"id\":\"42\"}}'')"
    using hd(2,5) by simp
  note ma = save_empty_or_null_is_skipped [OF d4 refl, where L = stdlib
      and resp = "''{\"name\":\"ann\",\"age\":7}''" and vars = "[''email'' \<mapsto> ''old'']",
      THEN conjunct1]
  have sa: "saveValues stdlib ''{\"name\":\"ann\",\"age\":7}'' (Save findAnnSave) [''email'' \<mapsto> ''old''] ''age''
      = Some ''7'' \<and>
    saveValues stdlib ''{\"name\":\"ann\",\"age\":7}'' (Save findAnnSave) [''email'' \<mapsto> ''old''] ''email''
      = Some ''old''"
    using ma by (simp add: example_saves example_valid)
  have ex: "ensureExpectedAffectedRows findAnnSave 1 = None"
    by (simp add: ensureExpectedAffectedRows_def example_saves)
  have sm: "Save findAnnSave \<noteq> []" "Save greetStep \<noteq> []" by (simp_all add: example_saves)
  note mf = save_empty_or_null_is_skipped [OF d4 refl, where L = stdlib
      and r = "\<lparr>exporter = None\<rparr>" and affected = 1 and resp = "''{\"name\":\"ann\",\"age\":7}''"
      and vars = "[''email'' \<mapsto> ''old'']",
      THEN conjunct2, THEN conjunct1, THEN mp, OF ex]
  from mf example_valid(1) sm(1) sa
  have y: "fst (mongoFinish stdlib \<lparr>exporter = None\<rparr> findAnnSave [''email'' \<mapsto> ''old'']
          ''{\"name\":\"ann\",\"age\":7}'' 1) = None \<and>
    fst (snd (mongoFinish stdlib \<lparr>exporter = None\<rparr> findAnnSave [''email'' \<mapsto> ''old'']
          ''{\"name\":\"ann\",\"age\":7}'' 1)) ''age'' = Some ''7'' \<and>
    fst (snd (mongoFinish stdlib \<lparr>exporter = None\<rparr> findAnnSave [''email'' \<mapsto> ''old'']
          ''{\"name\":\"ann\",\"age\":7}'' 1)) ''email'' = Some ''old''"
    by simp
  have mc: "mongoConnected stdmongo stdlib findAnnSave (usersFind\<lparr>Filter := ''{\"name\":\"ann\"}''\<rparr>)
      [''email'' \<mapsto> ''old'']"
    by (rule users_mongo_connected) (simp add: example_saves)
  note ms = save_empty_or_null_is_skipped [OF d4 refl, where L = stdlib and M = stdmongo
      and r = "\<lparr>exporter = None\<rparr>" and affected = 1 and resp = "''{\"name\":\"ann\",\"age\":7}''"
      and vars = "[''email'' \<mapsto> ''old'']" and cfg = "usersFind\<lparr>Filter := ''{\"name\":\"ann\"}''\<rparr>",
      THEN conjunct2, THEN conjunct2, THEN conjunct2, THEN conjunct2, THEN conjunct2,
      THEN conjunct2, THEN conjunct1, THEN mp, OF conjI [OF mc conjI [OF findAnnSave_switch ex]]]
  from ms example_valid(1) sm(1) sa
  have w: "fst (executeMongoStep stdmongo stdlib \<lparr>exporter = None\<rparr> findAnnSave [''email'' \<mapsto> ''old'']) = None \<and>
    fst (snd (executeMongoStep stdmongo stdlib \<lparr>exporter = None\<rparr> findAnnSave [''email'' \<mapsto> ''old'']))
      ''age'' = Some ''7'' \<and>
    fst (snd (executeMongoStep stdmongo stdlib \<lparr>exporter = None\<rparr> findAnnSave [''email'' \<mapsto> ''old'']))
      ''email'' = Some ''old''"
    by simp
  note gf = save_empty_or_null_is_skipped [OF d5 refl, where L = stdlib and G = stdgrpc
      and r = "\<lparr>exporter = None\<rparr>" and gcfg = "greeterCfg\<lparr>ExpectCode := '' not_found''\<rparr>"
      and h = notFoundHandler and vars = "[''missing'' \<mapsto> ''old'']",
      THEN conjunct2, THEN conjunct2, THEN conjunct2, THEN conjunct2, THEN conjunct2,
      THEN conjunct2, THEN conjunct2, THEN conjunct1, THEN mp, OF notFound_hyp]
  from gf
  have v: "fst (grpcFinish stdgrpc stdlib \<lparr>exporter = None\<rparr> greetStep
          (greeterCfg\<lparr>ExpectCode := '' not_found''\<rparr>) [''missing'' \<mapsto> ''old''] notFoundHandler) = None \<and>
    fst (snd (grpcFinish stdgrpc stdlib \<lparr>exporter = None\<rparr> greetStep
          (greeterCfg\<lparr>ExpectCode := '' not_found''\<rparr>) [''missing'' \<mapsto> ''old''] notFoundHandler))
      = [''missing'' \<mapsto> ''old'']"
    by (simp add: greet_payload)
  note ga = save_empty_or_null_is_skipped [OF d5 refl, where L = stdlib
      and resp = "''{\"data\":{\"id\":\"42\"}}''" and vars = "[''missing'' \<mapsto> ''old'']",
      THEN conjunct1]
  have sg: "saveValues stdlib ''{\"data\":{\"id\":\"42\"}}'' (Save greetStep) [''missing'' \<mapsto> ''old''] ''user_id''
      = Some ''42'' \<and>
    saveValues stdlib ''{\"data\":{\"id\":\"42\"}}'' (Save greetStep) [''missing'' \<mapsto> ''old''] ''missing''
      = Some ''old''"
    using ga by (simp add: example_saves example_valid)
  note gs = save_empty_or_null_is_skipped [OF d5 refl, where L = stdlib and G = stdgrpc
      and r = "\<lparr>exporter = None\<rparr>" and gcfg = greeterCfg and format = FormatJSON
      and h = greetHandler and vars = "[''missing'' \<mapsto> ''old'']",
      THEN conjunct2, THEN conjunct2, THEN conjunct2, THEN conjunct2, THEN conjunct2,
      THEN conjunct2, THEN conjunct2, THEN conjunct2, THEN mp, OF greet_hyps]
  from gs example_valid(2) sm(2) sg
  have u: "fst (executeGRPCStep stdgrpc stdlib \<lparr>exporter = None\<rparr> greetStep [''missing'' \<mapsto> ''old'']) = None \<and>
    fst (snd (executeGRPCStep stdgrpc stdlib \<lparr>exporter = None\<rparr> greetStep [''missing'' \<mapsto> ''old'']))
      ''user_id'' = Some ''42'' \<and>
    fst (snd (executeGRPCStep stdgrpc stdlib \<lparr>exporter = None\<rparr> greetStep [''missing'' \<mapsto> ''old'']))
      ''missing'' = Some ''old''"
    by (simp add: greet_payload)
  have p1: "distinct (map fst (Save echoStep)) \<and>
   saveValues stdlib ''{\"data\":{\"id\":\"42\"}}'' (Save echoStep) [''missing'' \<mapsto> ''old''] ''user_id''
     = Some ''42'' \<and>
   saveValues stdlib ''{\"data\":{\"id\":\"42\"}}'' (Save echoStep) [''missing'' \<mapsto> ''old''] ''missing''
     = Some ''old'' \<and>
   distinct (map fst (Save lookupStep)) \<and>
   QueryContext usersDB ''SELECT * FROM users'' = Inr usersRows \<and>
   fst (runSQLAndSave stdlib usersDB lookupStep ''SELECT * FROM users'' [''remark'' \<mapsto> ''old'']) = Inr 2 \<and>
   snd (runSQLAndSave stdlib usersDB lookupStep ''SELECT * FROM users'' [''remark'' \<mapsto> ''old''])
     ''remark'' = Some ''old'' \<and>
   snd (runSQLAndSave stdlib usersDB lookupStep ''SELECT * FROM users'' [''remark'' \<mapsto> ''old''])
     ''user_id'' = Some ''7'' \<and>
   fst (runSQLAndSave stdlib usersDB nicknameStep ''SELECT * FROM users'' Map.empty)
     = Inl (ErrColumnNotFound ''lookup'' ''nickname'') \<and>
   QueryContext usersDB ''SELECT * FROM users WHERE false'' = Inr noRows \<and>
   runSQLAndSave stdlib usersDB lookupStep ''SELECT * FROM users WHERE false'' Map.empty
     = (Inl (ErrNoRowsToSave ''lookup''), Map.empty) \<and>
   Do stdlib (Method echoStep) ''http://localhost/echo'' [] None
     = Inr (200, Inr ''{\"data\":{\"id\":\"42\"}}'')"
    using d1 d2 s r0 r1 users_query empty_query dd by (simp add: lookup_run nickname_run)
  from p1 x y ann_filter(2) w v greet_invoke [of "[''missing'' \<mapsto> ''old'']"] u
  show ?thesis by (intro conjI) (erule conjunct1 | erule conjunct2 | assumption | simp)+
qed

text \<open>
  C1 as stated fails: the query returns two rows, the save target \<open>nickname\<close> names no
  column, and the step fails.
\<close>

theorem unmatched_column_fails_step:
  "QueryContext usersDB ''SELECT * FROM users'' = Inr usersRows \<and>
   length (fetched usersRows) = 2 \<and>
   executeSQLStep stdlib nicknameStep ''SELECT * FROM users'' Map.empty
     = (Some (ErrColumnNotFound ''lookup'' ''nickname''), Map.empty) \<and>
   error_message stdlib (ErrColumnNotFound ''lookup'' ''nickname'')
     = ''step \"lookup\": column \"nickname\" not found in result set''"
proof -
  have "executeSQLStep stdlib nicknameStep ''SELECT * FROM users'' Map.empty
     = (Some (ErrColumnNotFound ''lookup'' ''nickname''), Map.empty)"
    using users_connected executeSQLStep_connected [of stdlib nicknameStep Map.empty usersDB]
    by (simp add: executeSQLAndMaybeSave_def nickname_run step_fields)
  moreover have "error_message stdlib (ErrColumnNotFound ''lookup'' ''nickname'')
     = ''step \"lookup\": column \"nickname\" not found in result set''"
    by (simp add: error_message_def stdlib_def plainQuote_def)
  moreover have "length (fetched usersRows) = 2" by (simp add: usersRows_def)
  ultimately show ?thesis using users_query by simp
qed


lemma delete_run:
  "ExecContext usersDB ''DELETE FROM users WHERE false'' = Inr (Inr 0)"
  by (simp add: usersDB_def)

text \<open>
  C5. A SQL step that declares \<^verbatim>\<open>save\<close> and whose query returns zero rows fails with
  the error \<open>ErrNoRowsToSave\<close>, whose text ends in \<^verbatim>\<open>no rows returned to save\<close>,
  whatever the affected-row expectation; a SQL step without \<^verbatim>\<open>save\<close> whose statement
  reports 0 affected rows only meets the affected-row expectation, and succeeds when none
  is set.
\<close>

theorem no_rows_to_save_is_hard_error:
  assumes "connected L step vars db"
  shows "(Save step \<noteq> [] \<and> QueryContext db stmt = Inr rows \<and> Columns rows = Inr cols \<and>
          fetched rows = [] \<and> Err rows = None \<longrightarrow>
            executeSQLStep L step stmt vars = (Some (ErrNoRowsToSave (Name step)), vars)) \<and>
         (Save step = [] \<and> ExecContext db stmt = Inr (Inr 0) \<longrightarrow>
            executeSQLStep L step stmt vars = (ensureExpectedAffectedRows step 0, vars)) \<and>
         (Save step = [] \<and> ExecContext db stmt = Inr (Inr 0) \<and> ExpectAffectedRows step = 0 \<longrightarrow>
            executeSQLStep L step stmt vars = (None, vars)) \<and>
         error_message L (ErrNoRowsToSave (Name step)) =
           ''execute sql for step '' @ Quote L (Name step) @ '': no rows returned to save''"
proof (intro conjI impI)
  assume a: "Save step \<noteq> [] \<and> QueryContext db stmt = Inr rows \<and> Columns rows = Inr cols \<and>
      fetched rows = [] \<and> Err rows = None"
  then have "runSQLAndSave L db step stmt vars = (Inl (ErrNoRowsToSave (Name step)), vars)"
    by (simp add: runSQLAndSave_no_rows)
  with a show "executeSQLStep L step stmt vars = (Some (ErrNoRowsToSave (Name step)), vars)"
    by (simp add: executeSQLStep_connected [OF assms] executeSQLAndMaybeSave_def)
next
  assume a: "Save step = [] \<and> ExecContext db stmt = Inr (Inr 0)"
  then show "executeSQLStep L step stmt vars = (ensureExpectedAffectedRows step 0, vars)"
    by (simp add: executeSQLStep_connected [OF assms] executeSQLAndMaybeSave_def
          runSQLWithoutSave_def)
next
  assume a: "Save step = [] \<and> ExecContext db stmt = Inr (Inr 0) \<and> ExpectAffectedRows step = 0"
  then show "executeSQLStep L step stmt vars = (None, vars)"
    by (simp add: executeSQLStep_connected [OF assms] executeSQLAndMaybeSave_def
          runSQLWithoutSave_def ensureExpectedAffectedRows_def)
next
  show "error_message L (ErrNoRowsToSave (Name step)) =
      ''execute sql for step '' @ Quote L (Name step) @ '': no rows returned to save''"
    by (simp add: error_message_def)
qed

theorem no_rows_to_save_is_hard_error_witness:
  "connected stdlib lookupStep Map.empty usersDB \<and> Save lookupStep \<noteq> [] \<and>
   QueryContext usersDB ''SELECT * FROM users WHERE false'' = Inr noRows \<and> fetched noRows = [] \<and>
   executeSQLStep stdlib lookupStep ''SELECT * FROM users WHERE false'' Map.empty
     = (Some (ErrNoRowsToSave ''lookup''), Map.empty) \<and>
   connected stdlib deleteStep Map.empty usersDB \<and> Save deleteStep = [] \<and>
   ExecContext usersDB ''DELETE FROM users WHERE false'' = Inr (Inr 0) \<and>
   ExpectAffectedRows deleteStep = 0 \<and>
   executeSQLStep stdlib deleteStep ''DELETE FROM users WHERE false'' Map.empty = (None, Map.empty) \<and>
   error_message stdlib (ErrNoRowsToSave ''lookup'')
     = ''execute sql for step \"lookup\": no rows returned to save''"
proof -
  from users_connected have c1: "connected stdlib lookupStep Map.empty usersDB"
    and c2: "connected stdlib deleteStep Map.empty usersDB" by simp_all
  have s: "Save lookupStep \<noteq> []" by (simp add: step_fields)
  note a = no_rows_to_save_is_hard_error [OF c1, where stmt = "''SELECT * FROM users WHERE false''"
      and rows = noRows and cols = "[''ID'', ''Name'', ''note'']"]
  from a [THEN conjunct1, THEN mp] s empty_query
  have e1: "executeSQLStep stdlib lookupStep ''SELECT * FROM users WHERE false'' Map.empty
      = (Some (ErrNoRowsToSave ''lookup''), Map.empty)"
    by (simp add: step_fields)
  from a [THEN conjunct2, THEN conjunct2, THEN conjunct2]
  have m: "error_message stdlib (ErrNoRowsToSave ''lookup'')
      = ''execute sql for step \"lookup\": no rows returned to save''"
    by (simp add: step_fields stdlib_def plainQuote_def)
  note b = no_rows_to_save_is_hard_error [OF c2, where stmt = "''DELETE FROM users WHERE false''",
      THEN conjunct2, THEN conjunct2, THEN conjunct1, THEN mp]
  from b delete_run
  have e2: "executeSQLStep stdlib deleteStep ''DELETE FROM users WHERE false'' Map.empty = (None, Map.empty)"
    by (simp add: step_fields)
  from c1 c2 s e1 e2 m empty_query delete_run show ?thesis by (simp add: step_fields)
qed

text \<open>
  C8. For a SQL step with \<^verbatim>\<open>save\<close> declared whose query returns at least one row and
  whose save targets all name a column: the query path is taken; the step's affected-row
  count is the number of returned rows; every saved variable is read from a column of the
  first row whose lower-cased name equals the lower-cased target, where the target is the
  variable name itself when the save value is empty; a NULL leaves the variable as it
  was, and no other variable changes.
\<close>

theorem sql_save_reads_first_row:
  assumes "QueryContext db stmt = Inr rows" "Columns rows = Inr cols"
    "fetched rows = map Inr (row # rest)" "\<forall>v \<in> set (row # rest). length v = length cols"
    "Err rows = None" "Save step \<noteq> []" "distinct (map fst (Save step))"
    "\<forall>(k, c) \<in> set (Save step). ToLower L (targetColumn L k c) \<in> ToLower L ` set cols"
  shows "\<exists>vars'. executeSQLAndMaybeSave L db step stmt vars = (Inr (int (length (row # rest))), vars') \<and>
     (\<forall>(k, c) \<in> set (Save step). \<exists>i < length cols.
         ToLower L (cols ! i) = ToLower L (targetColumn L k c) \<and>
         (TrimSpace L [] = [] \<and> c = [] \<longrightarrow> targetColumn L k c = k) \<and>
         vars' k = (case row ! i of None \<Rightarrow> vars k | Some v \<Rightarrow> Some (anyToString L v))) \<and>
     (\<forall>k. k \<notin> fst ` set (Save step) \<longrightarrow> vars' k = vars k)"
proof -
  from runSQLAndSave_matched [OF assms(1-5) assms(7,8), of vars]
  obtain vars' where v: "runSQLAndSave L db step stmt vars = (Inr (int (length (row # rest))), vars')"
    "\<forall>(k, c) \<in> set (Save step). \<exists>i < length cols.
         ToLower L (cols ! i) = ToLower L (targetColumn L k c) \<and>
         vars' k = (case row ! i of None \<Rightarrow> vars k | Some v \<Rightarrow> Some (anyToString L v))"
    "\<forall>k. k \<notin> fst ` set (Save step) \<longrightarrow> vars' k = vars k"
    by blast
  have t: "TrimSpace L [] = [] \<and> c = [] \<longrightarrow> targetColumn L k c = k" for k c
    by (simp add: targetColumn_def)
  have e: "executeSQLAndMaybeSave L db step stmt vars = (Inr (int (length (row # rest))), vars')"
    using assms(6) v(1) by (simp add: executeSQLAndMaybeSave_def)
  have "\<exists>i < length cols. ToLower L (cols ! i) = ToLower L (targetColumn L k c) \<and>
         (TrimSpace L [] = [] \<and> c = [] \<longrightarrow> targetColumn L k c = k) \<and>
         vars' k = (case row ! i of None \<Rightarrow> vars k | Some v \<Rightarrow> Some (anyToString L v))"
    if kc: "(k, c) \<in> set (Save step)" for k c
  proof -
    from v(2) kc obtain i where "i < length cols"
      "ToLower L (cols ! i) = ToLower L (targetColumn L k c)"
      "vars' k = (case row ! i of None \<Rightarrow> vars k | Some v \<Rightarrow> Some (anyToString L v))"
      by blast
    with t [of c k] show ?thesis by blast
  qed
  then have k: "\<forall>(k, c) \<in> set (Save step). \<exists>i < length cols.
         ToLower L (cols ! i) = ToLower L (targetColumn L k c) \<and>
         (TrimSpace L [] = [] \<and> c = [] \<longrightarrow> targetColumn L k c = k) \<and>
         vars' k = (case row ! i of None \<Rightarrow> vars k | Some v \<Rightarrow> Some (anyToString L v))"
    by auto
  from e k v(3) show ?thesis by blast
qed

theorem sql_save_reads_first_row_witness:
  "QueryContext usersDB ''SELECT * FROM users'' = Inr usersRows \<and>
   Columns usersRows = Inr [''ID'', ''Name'', ''note''] \<and>
   fetched usersRows = map Inr [[Some (OtherVal 7), Some (ByteSlice ''ann''), None],
                                [Some (OtherVal 8), Some (ByteSlice ''bob''), Some (ByteSlice ''x'')]] \<and>
   Save lookupStep = [(''user_id'', ''id''), (''Name'', []), (''remark'', ''NOTE'')] \<and>
   fst (executeSQLAndMaybeSave stdlib usersDB lookupStep ''SELECT * FROM users'' [''remark'' \<mapsto> ''old''])
     = Inr 2 \<and>
   snd (executeSQLAndMaybeSave stdlib usersDB lookupStep ''SELECT * FROM users'' [''remark'' \<mapsto> ''old''])
     ''user_id'' = Some ''7'' \<and>
   snd (executeSQLAndMaybeSave stdlib usersDB lookupStep ''SELECT * FROM users'' [''remark'' \<mapsto> ''old''])
     ''Name'' = Some ''ann'' \<and>
   snd (executeSQLAndMaybeSave stdlib usersDB lookupStep ''SELECT * FROM users'' [''remark'' \<mapsto> ''old''])
     ''remark'' = Some ''old'' \<and>
   snd (executeSQLAndMaybeSave stdlib usersDB lookupStep ''SELECT * FROM users'' [''remark'' \<mapsto> ''old''])
     ''other'' = None"
proof -
  have d: "distinct (map fst (Save lookupStep))" and s: "Save lookupStep \<noteq> []"
    by (simp_all add: step_fields)
  have len: "\<forall>v \<in> set ([Some (OtherVal (7::int)), Some (ByteSlice ''ann''), None] #
      [[Some (OtherVal 8), Some (ByteSlice ''bob''), Some (ByteSlice ''x'')]]).
      length v = length [''ID'', ''Name'', ''note'']"
    by simp
  from users_query have q: "QueryContext usersDB ''SELECT * FROM users'' = Inr usersRows"
    "Columns usersRows = Inr [''ID'', ''Name'', ''note'']"
    "fetched usersRows = map Inr ([Some (OtherVal 7), Some (ByteSlice ''ann''), None] #
       [[Some (OtherVal 8), Some (ByteSlice ''bob''), Some (ByteSlice ''x'')]])"
    "Err usersRows = None"
    by simp_all
  from sql_save_reads_first_row [where L = stdlib and db = usersDB and step = lookupStep
      and stmt = "''SELECT * FROM users''" and rows = usersRows and cols = "[''ID'', ''Name'', ''note'']"
      and row = "[Some (OtherVal 7), Some (ByteSlice ''ann''), None]"
      and rest = "[[Some (OtherVal 8), Some (ByteSlice ''bob''), Some (ByteSlice ''x'')]]"
      and vars = "[''remark'' \<mapsto> ''old'']", OF q(1,2,3) len q(4) s d lookup_targets]
  obtain vars' where r: "executeSQLAndMaybeSave stdlib usersDB lookupStep ''SELECT * FROM users''
        [''remark'' \<mapsto> ''old''] = (Inr 2, vars')"
    and o: "\<forall>k. k \<notin> fst ` set (Save lookupStep) \<longrightarrow> vars' k = [''remark'' \<mapsto> ''old''] k"
    by auto
  from o have "vars' ''other'' = None" by (simp add: step_fields)
  with r have c: "fst (executeSQLAndMaybeSave stdlib usersDB lookupStep ''SELECT * FROM users''
      [''remark'' \<mapsto> ''old'']) = Inr 2 \<and>
    snd (executeSQLAndMaybeSave stdlib usersDB lookupStep ''SELECT * FROM users''
      [''remark'' \<mapsto> ''old'']) ''other'' = None"
    by simp
  have e: "executeSQLAndMaybeSave stdlib usersDB lookupStep ''SELECT * FROM users'' [''remark'' \<mapsto> ''old'']
     = (Inr 2, [''remark'' \<mapsto> ''old'', ''user_id'' \<mapsto> ''7'', ''Name'' \<mapsto> ''ann''])"
    by (simp add: executeSQLAndMaybeSave_def step_fields lookup_run)
  from c users_query show ?thesis by (simp add: e step_fields)
qed

text \<open>
  C6. With a non-zero \<^verbatim>\<open>expect_affected_rows\<close> the check fails exactly when the
  computed affected-row count differs from the expectation, and the error reports the step
  and the actual count; with \<^verbatim>\<open>expect_affected_rows\<close> equal to zero the check
  passes for every actual count. A SQL step whose statement ran and gave the count
  \<open>actual\<close> fails exactly when the check does.
\<close>

theorem ensureExpectedAffectedRows_iff:
  "(ExpectAffectedRows step \<noteq> 0 \<longrightarrow>
      (ensureExpectedAffectedRows step actual \<noteq> None \<longleftrightarrow> actual \<noteq> ExpectAffectedRows step) \<and>
      (actual \<noteq> ExpectAffectedRows step \<longrightarrow>
         ensureExpectedAffectedRows step actual =
           Some (ErrUnexpectedAffectedRows (Name step) actual))) \<and>
   (ExpectAffectedRows step = 0 \<longrightarrow> ensureExpectedAffectedRows step actual = None) \<and>
   (connected L step vars db \<and>
    executeSQLAndMaybeSave L db step stmt vars = (Inr actual, vars') \<longrightarrow>
      (fst (executeSQLStep L step stmt vars) \<noteq> None \<longleftrightarrow>
         ExpectAffectedRows step \<noteq> 0 \<and> actual \<noteq> ExpectAffectedRows step))"
proof (intro conjI impI)
  assume a: "connected L step vars db \<and>
    executeSQLAndMaybeSave L db step stmt vars = (Inr actual, vars')"
  then have "executeSQLStep L step stmt vars = (ensureExpectedAffectedRows step actual, vars')"
    using executeSQLStep_connected [of L step vars db stmt] by simp
  then show "fst (executeSQLStep L step stmt vars) \<noteq> None \<longleftrightarrow>
      ExpectAffectedRows step \<noteq> 0 \<and> actual \<noteq> ExpectAffectedRows step"
    by (simp add: ensureExpectedAffectedRows_def)
qed (simp_all add: ensureExpectedAffectedRows_def)

theorem ensureExpectedAffectedRows_iff_witness:
  "ensureExpectedAffectedRows (emptyStep\<lparr>Name := ''users'', ExpectAffectedRows := 2\<rparr>) 2 = None \<and>
   ensureExpectedAffectedRows (emptyStep\<lparr>Name := ''users'', ExpectAffectedRows := 2\<rparr>) 1 =
     Some (ErrUnexpectedAffectedRows ''users'' 1) \<and>
   ensureExpectedAffectedRows (emptyStep\<lparr>Name := ''users''\<rparr>) 5 = None \<and>
   connected stdlib expectStep Map.empty usersDB \<and>
   executeSQLAndMaybeSave stdlib usersDB expectStep ''DELETE FROM users WHERE false'' Map.empty
     = (Inr 0, Map.empty) \<and>
   ExpectAffectedRows expectStep = 2 \<and>
   fst (executeSQLStep stdlib expectStep ''DELETE FROM users WHERE false'' Map.empty) \<noteq> None"
proof -
  have f: "ExpectAffectedRows expectStep = 2" "Save expectStep = []"
    by (simp_all add: expectStep_def emptyStep_def)
  have c: "connected stdlib expectStep Map.empty usersDB"
    by (simp add: example_defs expectStep_def connected_def databaseURL_def render_def)
  have e: "executeSQLAndMaybeSave stdlib usersDB expectStep ''DELETE FROM users WHERE false'' Map.empty
     = (Inr 0, Map.empty)"
    by (simp add: executeSQLAndMaybeSave_def runSQLWithoutSave_def f delete_run)
  from ensureExpectedAffectedRows_iff [of expectStep 0 stdlib Map.empty usersDB
      "''DELETE FROM users WHERE false''" Map.empty] c e f
  have s: "fst (executeSQLStep stdlib expectStep ''DELETE FROM users WHERE false'' Map.empty) \<noteq> None"
    by simp
  from ensureExpectedAffectedRows_iff
      [where step = "emptyStep\<lparr>Name := ''users'', ExpectAffectedRows := 2\<rparr>" and actual = 1,
       THEN conjunct1]
  have n1: "ensureExpectedAffectedRows (emptyStep\<lparr>Name := ''users'', ExpectAffectedRows := 2\<rparr>) 1 =
     Some (ErrUnexpectedAffectedRows ''users'' 1)"
    by (simp add: emptyStep_def)
  from ensureExpectedAffectedRows_iff
      [where step = "emptyStep\<lparr>Name := ''users'', ExpectAffectedRows := 2\<rparr>" and actual = 2,
       THEN conjunct1]
  have n2: "ensureExpectedAffectedRows (emptyStep\<lparr>Name := ''users'', ExpectAffectedRows := 2\<rparr>) 2 = None"
    by (simp add: emptyStep_def)
  from ensureExpectedAffectedRows_iff
      [where step = "emptyStep\<lparr>Name := ''users''\<rparr>" and actual = 5,
       THEN conjunct2, THEN conjunct1]
  have n5: "ensureExpectedAffectedRows (emptyStep\<lparr>Name := ''users''\<rparr>) 5 = None"
    by (simp add: emptyStep_def)
  from n1 n2 n5 c e f s show ?thesis by simp
qed

subsection \<open>Document-store lookups and expectations\<close>

text \<open>
  C9 (as amended). For a document-store findOne step that reaches the database and whose
  filter matches no document, the lookup is not an error: the result payload is the JSON
  \<^verbatim>\<open>null\<close> and the affected-row count is 0; the step then fails exactly when a
  non-zero \<^verbatim>\<open>expect_affected_rows\<close> is declared. When a document is found and encoded,
  the affected-row count is 1.
\<close>

theorem findOne_no_match_is_null:
  assumes "mongoConnected M L step cfg vars"
    "normalizeMongoOperation L (Operation cfg) = mongoOpFindOne"
    "parseBSONDocument M L (render L (Filter cfg) vars) = Inr filterDoc"
  shows "(FindOne M (mongoDatabase L cfg vars) (mongoCollection L cfg vars) filterDoc = ErrNoDocuments \<longrightarrow>
            mongoSwitch M L step cfg vars (mongoDatabase L cfg vars) (mongoCollection L cfg vars)
              mongoOpFindOne = Inr (''null'', 0) \<and>
            fst (executeMongoStep M L r step vars) = ensureExpectedAffectedRows step 0 \<and>
            (fst (executeMongoStep M L r step vars) = None \<longleftrightarrow> ExpectAffectedRows step = 0)) \<and>
         (FindOne M (mongoDatabase L cfg vars) (mongoCollection L cfg vars) filterDoc = FindOneDoc doc \<and>
          bsonToJSON M (FoundDoc doc) = Inr payload \<longrightarrow>
            mongoSwitch M L step cfg vars (mongoDatabase L cfg vars) (mongoCollection L cfg vars)
              mongoOpFindOne = Inr (payload, 1) \<and>
            fst (executeMongoStep M L r step vars) = ensureExpectedAffectedRows step 1)"
proof (intro conjI impI)
  assume n: "FindOne M (mongoDatabase L cfg vars) (mongoCollection L cfg vars) filterDoc = ErrNoDocuments"
  show s: "mongoSwitch M L step cfg vars (mongoDatabase L cfg vars) (mongoCollection L cfg vars)
      mongoOpFindOne = Inr (''null'', 0)"
    using n assms(3) by (simp add: mongoSwitch_def)
  show e: "fst (executeMongoStep M L r step vars) = ensureExpectedAffectedRows step 0"
    using s assms(2) by (simp add: executeMongoStep_connected [OF assms(1)] mongoFinish_fst)
  show "fst (executeMongoStep M L r step vars) = None \<longleftrightarrow> ExpectAffectedRows step = 0"
    using e by (simp add: ensureExpectedAffectedRows_def)
next
  assume f: "FindOne M (mongoDatabase L cfg vars) (mongoCollection L cfg vars) filterDoc = FindOneDoc doc \<and>
      bsonToJSON M (FoundDoc doc) = Inr payload"
  show s: "mongoSwitch M L step cfg vars (mongoDatabase L cfg vars) (mongoCollection L cfg vars)
      mongoOpFindOne = Inr (payload, 1)"
    using f assms(3) by (simp add: mongoSwitch_def)
  show "fst (executeMongoStep M L r step vars) = ensureExpectedAffectedRows step 1"
    using s assms(2) by (simp add: executeMongoStep_connected [OF assms(1)] mongoFinish_fst)
qed

theorem findOne_no_match_is_null_witness:
  "mongoConnected stdmongo stdlib findZed usersFind Map.empty \<and>
   normalizeMongoOperation stdlib (Operation usersFind) = mongoOpFindOne \<and>
   FindOne stdmongo ''app'' ''users'' ''{\"name\":\"zed\"}'' = ErrNoDocuments \<and>
   mongoSwitch stdmongo stdlib findZed usersFind Map.empty ''app'' ''users'' mongoOpFindOne
     = Inr (''null'', 0) \<and>
   ExpectAffectedRows findZed = 0 \<and>
   fst (executeMongoStep stdmongo stdlib \<lparr>exporter = None\<rparr> findZed Map.empty) = None \<and>
   FindOne stdmongo ''app'' ''users'' ''{\"name\":\"ann\"}'' = FindOneDoc ''{\"name\":\"ann\",\"age\":7}'' \<and>
   mongoSwitch stdmongo stdlib findAnn (usersFind\<lparr>Filter := ''{\"name\":\"ann\"}''\<rparr>) Map.empty
     ''app'' ''users'' mongoOpFindOne = Inr (''{\"name\":\"ann\",\"age\":7}'', 1) \<and>
   ExpectAffectedRows findAnn = 1 \<and>
   fst (executeMongoStep stdmongo stdlib \<lparr>exporter = None\<rparr> findAnn Map.empty) = None"
proof -
  have u: "usersFind\<lparr>Filter := ''{\"name\":\"zed\"}''\<rparr> = usersFind" by (simp add: usersFind_def)
  have c: "mongoConnected stdmongo stdlib findZed usersFind Map.empty"
    using users_mongo_connected [of findZed "''{\"name\":\"zed\"}''" Map.empty]
    by (simp add: u findZed_def emptyStep_def)
  have o: "normalizeMongoOperation stdlib (Operation usersFind) = mongoOpFindOne"
    using users_mongo_resolved(4) [of "''{\"name\":\"zed\"}''"] by (simp add: u)
  have r: "mongoDatabase stdlib usersFind Map.empty = ''app''"
    "mongoCollection stdlib usersFind Map.empty = ''users''"
    using users_mongo_resolved(2,3) [of "''{\"name\":\"zed\"}''" Map.empty] by (simp_all add: u)
  have x: "ExpectAffectedRows findZed = 0" "ExpectAffectedRows findAnn = 1"
    by (simp_all add: findZed_def findAnn_def emptyStep_def)
  from findOne_no_match_is_null [where r = "\<lparr>exporter = None\<rparr>", OF c o zed_filter(1),
      THEN conjunct1, THEN mp] zed_filter(2) r x
  have z: "mongoSwitch stdmongo stdlib findZed usersFind Map.empty ''app'' ''users'' mongoOpFindOne
     = Inr (''null'', 0) \<and>
     fst (executeMongoStep stdmongo stdlib \<lparr>exporter = None\<rparr> findZed Map.empty) = None"
    by (simp add: ensureExpectedAffectedRows_def)
  have c': "mongoConnected stdmongo stdlib findAnn (usersFind\<lparr>Filter := ''{\"name\":\"ann\"}''\<rparr>) Map.empty"
    by (rule users_mongo_connected) (simp add: findAnn_def emptyStep_def)
  from findOne_no_match_is_null [where r = "\<lparr>exporter = None\<rparr>"
      and doc = "''{\"name\":\"ann\",\"age\":7}''" and payload = "''{\"name\":\"ann\",\"age\":7}''",
      OF c' users_mongo_resolved(4) ann_filter(1), THEN conjunct2, THEN mp]
    ann_filter(2,3) x
  have a: "mongoSwitch stdmongo stdlib findAnn (usersFind\<lparr>Filter := ''{\"name\":\"ann\"}''\<rparr>) Map.empty
     ''app'' ''users'' mongoOpFindOne = Inr (''{\"name\":\"ann\",\"age\":7}'', 1) \<and>
     fst (executeMongoStep stdmongo stdlib \<lparr>exporter = None\<rparr> findAnn Map.empty) = None"
    by (simp add: users_mongo_resolved ensureExpectedAffectedRows_def)
  from c o z a x zed_filter(2) ann_filter(2) show ?thesis by simp
qed

text \<open>
  C9 as stated fails: the filter matches no document, the step declares
  \<^verbatim>\<open>expect_affected_rows: 1\<close>, and the step fails.
\<close>

theorem findOne_no_match_fails_expectation:
  "Mongo findZedExpected = Some usersFind \<and>
   normalizeMongoOperation stdlib (Operation usersFind) = mongoOpFindOne \<and>
   FindOne stdmongo ''app'' ''users'' ''{\"name\":\"zed\"}'' = ErrNoDocuments \<and>
   fst (executeMongoStep stdmongo stdlib \<lparr>exporter = None\<rparr> findZedExpected Map.empty)
     = Some (ErrUnexpectedAffectedRows ''find-zed'' 0)"
proof -
  have u: "usersFind\<lparr>Filter := ''{\"name\":\"zed\"}''\<rparr> = usersFind" by (simp add: usersFind_def)
  have m: "Mongo findZedExpected = Some usersFind" by (simp add: findZedExpected_def emptyStep_def)
  have c: "mongoConnected stdmongo stdlib findZedExpected usersFind Map.empty"
    using users_mongo_connected [of findZedExpected "''{\"name\":\"zed\"}''" Map.empty] m
    by (simp add: u)
  have o: "normalizeMongoOperation stdlib (Operation usersFind) = mongoOpFindOne"
    using users_mongo_resolved(4) [of "''{\"name\":\"zed\"}''"] by (simp add: u)
  have r: "mongoDatabase stdlib usersFind Map.empty = ''app''"
    "mongoCollection stdlib usersFind Map.empty = ''users''"
    using users_mongo_resolved(2,3) [of "''{\"name\":\"zed\"}''" Map.empty] by (simp_all add: u)
  have n: "Name findZedExpected = ''find-zed''" "ExpectAffectedRows findZedExpected = 1"
    by (simp_all add: findZedExpected_def emptyStep_def)
  have s: "mongoSwitch stdmongo stdlib findZedExpected usersFind Map.empty ''app'' ''users''
      mongoOpFindOne = Inr (''null'', 0)"
    using zed_filter by (simp add: mongoSwitch_def)
  have "fst (executeMongoStep stdmongo stdlib \<lparr>exporter = None\<rparr> findZedExpected Map.empty)
     = Some (ErrUnexpectedAffectedRows ''find-zed'' 0)"
    using n by (simp add: executeMongoStep_connected [OF c] o r s mongoFinish_fst
          ensureExpectedAffectedRows_def)
  with m o zed_filter(2) show ?thesis by simp
qed


text \<open>
  C10. The affected-row check applies to every document-store step, with the semantics it
  has for a SQL step. A step that reaches the database ends with the error of its operation
  or, when the operation yields a payload and a count, fails exactly when
  \<^verbatim>\<open>expect_affected_rows\<close> is non-zero and differs from that count; a zero expectation
  skips the check. The count follows from the step's own rendered filter, document, update,
  pipeline or command and from what the driver answers to it: 0 for a findOne without a
  match and 1 for one with a match, the number of documents for find and aggregate, 1 for
  insertOne and command, the modified count or, when that is 0 and something was upserted,
  the upserted count for updateOne, and the deleted count for deleteOne; in each case the
  step's outcome is that of \<^verbatim>\<open>ensureExpectedAffectedRows\<close> on that count.
\<close>

theorem mongo_expectation_applies:
  assumes "mongoConnected M L step cfg vars"
    "op = normalizeMongoOperation L (Operation cfg)"
    "dbName = mongoDatabase L cfg vars" "collName = mongoCollection L cfg vars"
  shows
   "(fst (executeMongoStep M L r step vars) =
        (case mongoSwitch M L step cfg vars dbName collName op of
           Inl e \<Rightarrow> Some e
         | Inr (p, n) \<Rightarrow>
             if ExpectAffectedRows step \<noteq> 0 \<and> n \<noteq> ExpectAffectedRows step
             then Some (ErrUnexpectedAffectedRows (Name step) n) else None)) \<and>
    (op = mongoOpFindOne \<and>
      parseBSONDocument M L (render L (Filter cfg) vars) = Inr filterDoc \<and>
      FindOne M dbName collName filterDoc = ErrNoDocuments \<longrightarrow>
        mongoSwitch M L step cfg vars dbName collName op = Inr (''null'', 0) \<and>
        fst (executeMongoStep M L r step vars) = ensureExpectedAffectedRows step 0) \<and>
    (op = mongoOpFindOne \<and>
      parseBSONDocument M L (render L (Filter cfg) vars) = Inr filterDoc \<and>
      FindOne M dbName collName filterDoc = FindOneDoc doc \<and>
      bsonToJSON M (FoundDoc doc) = Inr payload \<longrightarrow>
        mongoSwitch M L step cfg vars dbName collName op = Inr (payload, 1) \<and>
        fst (executeMongoStep M L r step vars) = ensureExpectedAffectedRows step 1) \<and>
    (op = mongoOpFind \<and>
      parseBSONDocument M L (render L (Filter cfg) vars) = Inr filterDoc \<and>
      Find M dbName collName filterDoc (if Limit cfg > 0 then Some (Limit cfg) else None)
        = Inr (Inr docs) \<and>
      bsonToJSON M (FoundDocs docs) = Inr payload \<longrightarrow>
        mongoSwitch M L step cfg vars dbName collName op = Inr (payload, int (length docs)) \<and>
        fst (executeMongoStep M L r step vars) = ensureExpectedAffectedRows step (int (length docs))) \<and>
    (op = mongoOpAggregate \<and>
      parseBSONArray M L (render L (Pipeline cfg) vars) = Inr pipeline \<and>
      Aggregate M dbName collName pipeline = Inr (Inr docs) \<and>
      bsonToJSON M (FoundDocs docs) = Inr payload \<longrightarrow>
        mongoSwitch M L step cfg vars dbName collName op = Inr (payload, int (length docs)) \<and>
        fst (executeMongoStep M L r step vars) = ensureExpectedAffectedRows step (int (length docs))) \<and>
    (op = mongoOpInsertOne \<and>
      parseBSONDocument M L (render L (Document cfg) vars) = Inr document \<and>
      lenM M document \<noteq> 0 \<and>
      InsertOne M dbName collName document = Inr insertedID \<and>
      bsonToJSON M (InsertedID insertedID) = Inr payload \<longrightarrow>
        mongoSwitch M L step cfg vars dbName collName op = Inr (payload, 1) \<and>
        fst (executeMongoStep M L r step vars) = ensureExpectedAffectedRows step 1) \<and>
    (op = mongoOpUpdateOne \<and>
      parseBSONDocument M L (render L (Filter cfg) vars) = Inr filterDoc \<and>
      parseBSONDocument M L (render L (Update cfg) vars) = Inr updateDoc \<and>
      lenM M updateDoc \<noteq> 0 \<and>
      UpdateOne M dbName collName filterDoc updateDoc = Inr res \<and>
      bsonToJSON M (UpdateCounts res) = Inr payload \<longrightarrow>
        mongoSwitch M L step cfg vars dbName collName op =
          Inr (payload, if ModifiedCount res = 0 \<and> UpsertedCount res > 0 then UpsertedCount res
                        else ModifiedCount res) \<and>
        fst (executeMongoStep M L r step vars) =
          ensureExpectedAffectedRows step
            (if ModifiedCount res = 0 \<and> UpsertedCount res > 0 then UpsertedCount res
             else ModifiedCount res)) \<and>
    (op = mongoOpDeleteOne \<and>
      parseBSONDocument M L (render L (Filter cfg) vars) = Inr filterDoc \<and>
      DeleteOne M dbName collName filterDoc = Inr deletedCount \<and>
      bsonToJSON M (DeletedCount deletedCount) = Inr payload \<longrightarrow>
        mongoSwitch M L step cfg vars dbName collName op = Inr (payload, deletedCount) \<and>
        fst (executeMongoStep M L r step vars) = ensureExpectedAffectedRows step deletedCount) \<and>
    (op = mongoOpCommand \<and>
      TrimSpace L (render L (Command cfg) vars) \<noteq> [] \<and>
      parseBSONDocument M L (TrimSpace L (render L (Command cfg) vars)) = Inr commandDoc \<and>
      RunCommand M dbName commandDoc = Inr result \<and>
      bsonToJSON M (CommandResult result) = Inr payload \<longrightarrow>
        mongoSwitch M L step cfg vars dbName collName op = Inr (payload, 1) \<and>
        fst (executeMongoStep M L r step vars) = ensureExpectedAffectedRows step 1)"
proof -
  note o = executeMongoStep_outcome [OF assms(1), of r, folded assms(2-4)]
  show ?thesis
    apply (intro conjI)
    subgoal by (simp add: o ensureExpectedAffectedRows_def split: sum.splits)
    subgoal by (simp add: o run_findOne_none)
    subgoal by (simp add: o run_findOne_doc)
    subgoal using run_find [of M L cfg vars filterDoc dbName collName docs payload step]
      by (auto simp: o)
    subgoal using run_aggregate [of M L cfg vars pipeline dbName collName docs payload step]
      by (auto simp: o)
    subgoal using run_insertOne [of M L cfg vars document dbName collName insertedID payload step]
      by (auto simp: o)
    subgoal using run_updateOne [of M L cfg vars filterDoc updateDoc dbName collName res payload step]
      by (auto simp: o)
    subgoal using run_deleteOne [of M L cfg vars filterDoc dbName collName deletedCount payload step]
      by (auto simp: o)
    subgoal using run_command [of L cfg vars M commandDoc dbName result payload step collName]
      by (auto simp: o)
    done
qed

lemma mongoExample_fields:
  "Mongo (mongoExample name expect cfg) = Some cfg"
  "ExpectAffectedRows (mongoExample name expect cfg) = expect"
  "Name (mongoExample name expect cfg) = name"
  by (simp_all add: mongoExample_def emptyStep_def)

lemma stdlib_ops_more:
  "normalizeMongoOperation stdlib ''aggregate'' = mongoOpAggregate"
  "normalizeMongoOperation stdlib ''insertOne'' = mongoOpInsertOne"
  "normalizeMongoOperation stdlib ''updateOne'' = mongoOpUpdateOne"
  "normalizeMongoOperation stdlib ''deleteOne'' = mongoOpDeleteOne"
  "normalizeMongoOperation stdlib ''command'' = mongoOpCommand"
  by (simp_all add: normalizeMongoOperation_def stdlib_def asciiTrimSpace_def isSpace_def
        asciiToLower_def mongoOp_defs)

lemma stdlib_plain_more:
  "TrimSpace stdlib (render stdlib [] vars) = []"
  "TrimSpace stdlib (render stdlib ''{\"name\":\"cy\"}'' vars) = ''{\"name\":\"cy\"}''"
  "TrimSpace stdlib (render stdlib ''{\"$set\":{\"age\":9}}'' vars) = ''{\"$set\":{\"age\":9}}''"
  "TrimSpace stdlib (render stdlib ''[{\"$match\":{\"age\":9}}]'' vars) = ''[{\"$match\":{\"age\":9}}]''"
  "TrimSpace stdlib (render stdlib ''{\"ping\":1}'' vars) = ''{\"ping\":1}''"
  "TrimSpace stdlib (render stdlib ''{\"name\":\"zed\"}'' vars) = ''{\"name\":\"zed\"}''"
  "TrimSpace stdlib ''{\"ping\":1}'' = ''{\"ping\":1}''"
  by (simp_all add: render_def stdlib_def miniExecute_def asciiTrimSpace_def isSpace_def)

lemma app_users_resolved:
  assumes "Mongo step = Some cfg" "URI cfg = ''mongodb://localhost:27017''" "Database cfg = ''app''"
    "Collection cfg = ''users''" "normalizeMongoOperation stdlib (Operation cfg) \<noteq> mongoOpCommand"
  shows "mongoConnected stdmongo stdlib step cfg vars"
    "mongoDatabase stdlib cfg vars = ''app''" "mongoCollection stdlib cfg vars = ''users''"
proof -
  show d: "mongoDatabase stdlib cfg vars = ''app''"
    by (simp add: mongoDatabase_def assms(3) stdlib_render_plain stdlib_trim)
  show c: "mongoCollection stdlib cfg vars = ''users''"
    by (simp add: mongoCollection_def assms(4,5) stdlib_render_plain stdlib_trim)
  have u: "mongoURI stdlib cfg vars = ''mongodb://localhost:27017''"
    by (simp add: mongoURI_def assms(2) stdlib_render_plain stdlib_trim)
  show "mongoConnected stdmongo stdlib step cfg vars"
    by (simp add: mongoConnected_def d c u assms(1)) (simp add: stdmongo_def)
qed

lemma ping_resolved:
  "mongoConnected stdmongo stdlib (mongoExample name expect pingCommand) pingCommand vars"
  "mongoDatabase stdlib pingCommand vars = ''app''" "mongoCollection stdlib pingCommand vars = []"
  "normalizeMongoOperation stdlib (Operation pingCommand) = mongoOpCommand"
proof -
  show o: "normalizeMongoOperation stdlib (Operation pingCommand) = mongoOpCommand"
    by (simp add: pingCommand_def usersFind_def stdlib_ops_more)
  show d: "mongoDatabase stdlib pingCommand vars = ''app''"
    by (simp add: mongoDatabase_def pingCommand_def usersFind_def stdlib_render_plain stdlib_trim)
  show c: "mongoCollection stdlib pingCommand vars = []"
    by (simp add: mongoCollection_def o)
  have u: "mongoURI stdlib pingCommand vars = ''mongodb://localhost:27017''"
    by (simp add: mongoURI_def pingCommand_def usersFind_def stdlib_render_plain stdlib_trim)
  show "mongoConnected stdmongo stdlib (mongoExample name expect pingCommand) pingCommand vars"
    by (simp add: mongoConnected_def d o u mongoExample_fields) (simp add: stdmongo_def)
qed

lemma example_ops:
  "normalizeMongoOperation stdlib (Operation usersFind) = mongoOpFindOne"
  "normalizeMongoOperation stdlib (Operation (usersFind\<lparr>Filter := f\<rparr>)) = mongoOpFindOne"
  "normalizeMongoOperation stdlib (Operation usersFindAll) = mongoOpFind"
  "normalizeMongoOperation stdlib (Operation usersAggregate) = mongoOpAggregate"
  "normalizeMongoOperation stdlib (Operation usersInsert) = mongoOpInsertOne"
  "normalizeMongoOperation stdlib (Operation usersUpdate) = mongoOpUpdateOne"
  "normalizeMongoOperation stdlib (Operation usersDelete) = mongoOpDeleteOne"
  by (simp_all add: usersFind_def usersFindAll_def usersAggregate_def usersInsert_def usersUpdate_def
        usersDelete_def stdlib_ops stdlib_ops_more)

lemma example_parsed:
  "parseBSONDocument stdmongo stdlib (render stdlib (Filter usersFindAll) vars) = Inr ''{}''"
  "parseBSONArray stdmongo stdlib (render stdlib (Pipeline usersAggregate) vars)
     = Inr ''[{\"$match\":{\"age\":9}}]''"
  "parseBSONDocument stdmongo stdlib (render stdlib (Document usersInsert) vars) = Inr ''{\"name\":\"cy\"}''"
  "parseBSONDocument stdmongo stdlib (render stdlib (Filter usersUpdate) vars) = Inr ''{\"name\":\"zed\"}''"
  "parseBSONDocument stdmongo stdlib (render stdlib (Update usersUpdate) vars) = Inr ''{\"$set\":{\"age\":9}}''"
  "parseBSONDocument stdmongo stdlib (render stdlib (Filter usersDelete) vars) = Inr ''{\"name\":\"zed\"}''"
  "TrimSpace stdlib (render stdlib (Command pingCommand) vars) = ''{\"ping\":1}''"
  "parseBSONDocument stdmongo stdlib ''{\"ping\":1}'' = Inr ''{\"ping\":1}''"
  by (simp_all add: parseBSONDocument_def parseBSONArray_def usersFind_def usersFindAll_def
        usersAggregate_def usersInsert_def usersUpdate_def usersDelete_def pingCommand_def
        stdlib_plain_more)
    (simp_all add: stdmongo_def)

lemma example_driver:
  "Find stdmongo ''app'' ''users'' ''{}'' (if Limit usersFindAll > 0 then Some (Limit usersFindAll) else None)
     = Inr (Inr [''{\"name\":\"ann\",\"age\":7}'', ''{\"name\":\"bob\",\"age\":8}''])"
  "bsonToJSON stdmongo (FoundDocs [''{\"name\":\"ann\",\"age\":7}'', ''{\"name\":\"bob\",\"age\":8}''])
     = Inr ''[{\"name\":\"ann\",\"age\":7},{\"name\":\"bob\",\"age\":8}]''"
  "Aggregate stdmongo ''app'' ''users'' ''[{\"$match\":{\"age\":9}}]'' = Inr (Inr [])"
  "bsonToJSON stdmongo (FoundDocs []) = Inr ''[]''"
  "lenM stdmongo ''{\"name\":\"cy\"}'' = 1"
  "InsertOne stdmongo ''app'' ''users'' ''{\"name\":\"cy\"}'' = Inr ''{\"$oid\":\"65f0\"}''"
  "bsonToJSON stdmongo (InsertedID ''{\"$oid\":\"65f0\"}'') = Inr ''{\"inserted_id\":{\"$oid\":\"65f0\"}}''"
  "lenM stdmongo ''{\"$set\":{\"age\":9}}'' = 1"
  "UpdateOne stdmongo ''app'' ''users'' ''{\"name\":\"zed\"}'' ''{\"$set\":{\"age\":9}}''
     = Inr \<lparr>MatchedCount = 0, ModifiedCount = 0, UpsertedCount = 1, UpsertedID = Some ''{\"$oid\":\"65f1\"}''\<rparr>"
  "bsonToJSON stdmongo (UpdateCounts \<lparr>MatchedCount = 0, ModifiedCount = 0, UpsertedCount = 1,
       UpsertedID = Some ''{\"$oid\":\"65f1\"}''\<rparr>)
     = Inr ''{\"matched_count\":0,\"modified_count\":0,\"upserted_count\":1}''"
  "DeleteOne stdmongo ''app'' ''users'' ''{\"name\":\"zed\"}'' = Inr 1"
  "bsonToJSON stdmongo (DeletedCount 1) = Inr ''{\"deleted_count\":1}''"
  "RunCommand stdmongo ''app'' ''{\"ping\":1}'' = Inr ''{\"ok\":1}''"
  "bsonToJSON stdmongo (CommandResult ''{\"ok\":1}'') = Inr ''{\"ok\":1}''"
  by (simp_all add: bsonToJSON_def stdmongo_def usersFindAll_def usersFind_def)

lemma example_cfg_fields:
  "URI usersFind = ''mongodb://localhost:27017''" "Database usersFind = ''app''" "Collection usersFind = ''users''"
  "URI (usersFind\<lparr>Filter := f\<rparr>) = ''mongodb://localhost:27017''"
  "Database (usersFind\<lparr>Filter := f\<rparr>) = ''app''" "Collection (usersFind\<lparr>Filter := f\<rparr>) = ''users''"
  "URI usersFindAll = ''mongodb://localhost:27017''" "Database usersFindAll = ''app''" "Collection usersFindAll = ''users''"
  "URI usersAggregate = ''mongodb://localhost:27017''" "Database usersAggregate = ''app''" "Collection usersAggregate = ''users''"
  "URI usersInsert = ''mongodb://localhost:27017''" "Database usersInsert = ''app''" "Collection usersInsert = ''users''"
  "URI usersUpdate = ''mongodb://localhost:27017''" "Database usersUpdate = ''app''" "Collection usersUpdate = ''users''"
  "URI usersDelete = ''mongodb://localhost:27017''" "Database usersDelete = ''app''" "Collection usersDelete = ''users''"
  by (simp_all add: usersFind_def usersFindAll_def usersAggregate_def usersInsert_def usersUpdate_def
        usersDelete_def)

lemma example_steps:
  "Mongo findZedExpected = Some usersFind" "ExpectAffectedRows findZedExpected = 1"
  "Name findZedExpected = ''find-zed''"
  "Mongo findAnn = Some (usersFind\<lparr>Filter := ''{\"name\":\"ann\"}''\<rparr>)" "ExpectAffectedRows findAnn = 1"
  "Mongo findAll = Some usersFindAll" "ExpectAffectedRows findAll = 3" "Name findAll = ''find-all''"
  by (simp_all add: findZedExpected_def findAnn_def findAll_def emptyStep_def)

theorem mongo_expectation_applies_witness:
  "fst (executeMongoStep stdmongo stdlib \<lparr>exporter = None\<rparr> findZedExpected Map.empty)
     = Some (ErrUnexpectedAffectedRows ''find-zed'' 0) \<and>
   fst (executeMongoStep stdmongo stdlib \<lparr>exporter = None\<rparr> findAnn Map.empty) = None \<and>
   mongoSwitch stdmongo stdlib findAll usersFindAll Map.empty ''app'' ''users'' mongoOpFind
     = Inr (''[{\"name\":\"ann\",\"age\":7},{\"name\":\"bob\",\"age\":8}]'', 2) \<and>
   fst (executeMongoStep stdmongo stdlib \<lparr>exporter = None\<rparr> findAll Map.empty)
     = Some (ErrUnexpectedAffectedRows ''find-all'' 2) \<and>
   mongoSwitch stdmongo stdlib (mongoExample ''old-users'' 1 usersAggregate) usersAggregate Map.empty
     ''app'' ''users'' mongoOpAggregate = Inr (''[]'', 0) \<and>
   fst (executeMongoStep stdmongo stdlib \<lparr>exporter = None\<rparr>
          (mongoExample ''old-users'' 1 usersAggregate) Map.empty)
     = Some (ErrUnexpectedAffectedRows ''old-users'' 0) \<and>
   mongoSwitch stdmongo stdlib (mongoExample ''add-cy'' 0 usersInsert) usersInsert Map.empty
     ''app'' ''users'' mongoOpInsertOne = Inr (''{\"inserted_id\":{\"$oid\":\"65f0\"}}'', 1) \<and>
   fst (executeMongoStep stdmongo stdlib \<lparr>exporter = None\<rparr>
          (mongoExample ''add-cy'' 0 usersInsert) Map.empty) = None \<and>
   mongoSwitch stdmongo stdlib (mongoExample ''set-age'' 1 usersUpdate) usersUpdate Map.empty
     ''app'' ''users'' mongoOpUpdateOne
     = Inr (''{\"matched_count\":0,\"modified_count\":0,\"upserted_count\":1}'', 1) \<and>
   fst (executeMongoStep stdmongo stdlib \<lparr>exporter = None\<rparr>
          (mongoExample ''set-age'' 1 usersUpdate) Map.empty) = None \<and>
   mongoSwitch stdmongo stdlib (mongoExample ''drop-zed'' 2 usersDelete) usersDelete Map.empty
     ''app'' ''users'' mongoOpDeleteOne = Inr (''{\"deleted_count\":1}'', 1) \<and>
   fst (executeMongoStep stdmongo stdlib \<lparr>exporter = None\<rparr>
          (mongoExample ''drop-zed'' 2 usersDelete) Map.empty)
     = Some (ErrUnexpectedAffectedRows ''drop-zed'' 1) \<and>
   mongoSwitch stdmongo stdlib (mongoExample ''ping'' 1 pingCommand) pingCommand Map.empty
     ''app'' [] mongoOpCommand = Inr (''{\"ok\":1}'', 1) \<and>
   fst (executeMongoStep stdmongo stdlib \<lparr>exporter = None\<rparr>
          (mongoExample ''ping'' 1 pingCommand) Map.empty) = None"
proof -
  note T = mongo_expectation_applies [where r = "\<lparr>exporter = None\<rparr>" and L = stdlib and M = stdmongo
      and vars = Map.empty]
  note R = app_users_resolved [where vars = Map.empty]
  have c1: "mongoConnected stdmongo stdlib findZedExpected usersFind Map.empty"
    by (rule R(1)) (simp_all add: example_steps mongoExample_fields example_cfg_fields example_ops mongoOp_defs)
  have r1: "mongoDatabase stdlib usersFind Map.empty = ''app''"
    "mongoCollection stdlib usersFind Map.empty = ''users''"
    using R(2,3) [of findZedExpected usersFind]
    by (simp_all add: example_steps mongoExample_fields example_cfg_fields example_ops mongoOp_defs)
  have e1: "fst (executeMongoStep stdmongo stdlib \<lparr>exporter = None\<rparr> findZedExpected Map.empty)
     = Some (ErrUnexpectedAffectedRows ''find-zed'' 0)"
    using T [where filterDoc = "''{\"name\":\"zed\"}''",
        OF c1 example_ops(1) [symmetric] r1(1) [symmetric] r1(2) [symmetric],
        THEN conjunct2, THEN conjunct1, THEN mp]
      zed_filter
    by (simp add: ensureExpectedAffectedRows_def example_steps mongoExample_fields)
  have c2: "mongoConnected stdmongo stdlib findAnn (usersFind\<lparr>Filter := ''{\"name\":\"ann\"}''\<rparr>) Map.empty"
    by (rule R(1)) (simp_all add: example_steps mongoExample_fields example_cfg_fields example_ops mongoOp_defs)
  have r2: "mongoDatabase stdlib (usersFind\<lparr>Filter := ''{\"name\":\"ann\"}''\<rparr>) Map.empty = ''app''"
    "mongoCollection stdlib (usersFind\<lparr>Filter := ''{\"name\":\"ann\"}''\<rparr>) Map.empty = ''users''"
    using R(2,3) [of findAnn "usersFind\<lparr>Filter := ''{\"name\":\"ann\"}''\<rparr>"]
    by (simp_all add: example_steps mongoExample_fields example_cfg_fields example_ops mongoOp_defs)
  have e2: "fst (executeMongoStep stdmongo stdlib \<lparr>exporter = None\<rparr> findAnn Map.empty) = None"
    using T [where filterDoc = "''{\"name\":\"ann\"}''" and doc = "''{\"name\":\"ann\",\"age\":7}''"
        and payload = "''{\"name\":\"ann\",\"age\":7}''",
        OF c2 example_ops(2) [symmetric] r2(1) [symmetric] r2(2) [symmetric],
        THEN conjunct2, THEN conjunct2, THEN conjunct1, THEN mp]
      ann_filter
    by (simp add: ensureExpectedAffectedRows_def example_steps mongoExample_fields)
  have c3: "mongoConnected stdmongo stdlib findAll usersFindAll Map.empty"
    by (rule R(1)) (simp_all add: example_steps mongoExample_fields example_cfg_fields example_ops mongoOp_defs)
  have r3: "mongoDatabase stdlib usersFindAll Map.empty = ''app''"
    "mongoCollection stdlib usersFindAll Map.empty = ''users''"
    using R(2,3) [of findAll usersFindAll]
    by (simp_all add: example_steps mongoExample_fields example_cfg_fields example_ops mongoOp_defs)
  have e3: "mongoSwitch stdmongo stdlib findAll usersFindAll Map.empty ''app'' ''users'' mongoOpFind
     = Inr (''[{\"name\":\"ann\",\"age\":7},{\"name\":\"bob\",\"age\":8}]'', 2) \<and>
   fst (executeMongoStep stdmongo stdlib \<lparr>exporter = None\<rparr> findAll Map.empty)
     = Some (ErrUnexpectedAffectedRows ''find-all'' 2)"
    using T [where filterDoc = "''{}''" and docs = "[''{\"name\":\"ann\",\"age\":7}'', ''{\"name\":\"bob\",\"age\":8}'']"
        and payload = "''[{\"name\":\"ann\",\"age\":7},{\"name\":\"bob\",\"age\":8}]''",
        OF c3 example_ops(3) [symmetric] r3(1) [symmetric] r3(2) [symmetric],
        THEN conjunct2, THEN conjunct2, THEN conjunct2, THEN conjunct1, THEN mp]
      example_parsed(1) example_driver(1,2)
    by (simp add: ensureExpectedAffectedRows_def example_steps mongoExample_fields)
  have c4: "mongoConnected stdmongo stdlib (mongoExample ''old-users'' 1 usersAggregate) usersAggregate Map.empty"
    by (rule R(1)) (simp_all add: example_steps mongoExample_fields example_cfg_fields example_ops mongoOp_defs)
  have r4: "mongoDatabase stdlib usersAggregate Map.empty = ''app''"
    "mongoCollection stdlib usersAggregate Map.empty = ''users''"
    using R(2,3) [of "mongoExample ''old-users'' 1 usersAggregate" usersAggregate]
    by (simp_all add: example_steps mongoExample_fields example_cfg_fields example_ops mongoOp_defs)
  have e4: "mongoSwitch stdmongo stdlib (mongoExample ''old-users'' 1 usersAggregate) usersAggregate Map.empty
     ''app'' ''users'' mongoOpAggregate = Inr (''[]'', 0) \<and>
   fst (executeMongoStep stdmongo stdlib \<lparr>exporter = None\<rparr>
          (mongoExample ''old-users'' 1 usersAggregate) Map.empty) = Some (ErrUnexpectedAffectedRows ''old-users'' 0)"
    using T [where pipeline = "''[{\"$match\":{\"age\":9}}]''" and docs = "[]" and payload = "''[]''",
        OF c4 example_ops(4) [symmetric] r4(1) [symmetric] r4(2) [symmetric],
        THEN conjunct2, THEN conjunct2, THEN conjunct2, THEN conjunct2, THEN conjunct1, THEN mp]
      example_parsed(2) example_driver(3,4)
    by (simp add: ensureExpectedAffectedRows_def example_steps mongoExample_fields)
  have c5: "mongoConnected stdmongo stdlib (mongoExample ''add-cy'' 0 usersInsert) usersInsert Map.empty"
    by (rule R(1)) (simp_all add: example_steps mongoExample_fields example_cfg_fields example_ops mongoOp_defs)
  have r5: "mongoDatabase stdlib usersInsert Map.empty = ''app''"
    "mongoCollection stdlib usersInsert Map.empty = ''users''"
    using R(2,3) [of "mongoExample ''add-cy'' 0 usersInsert" usersInsert]
    by (simp_all add: example_steps mongoExample_fields example_cfg_fields example_ops mongoOp_defs)
  have e5: "mongoSwitch stdmongo stdlib (mongoExample ''add-cy'' 0 usersInsert) usersInsert Map.empty
     ''app'' ''users'' mongoOpInsertOne = Inr (''{\"inserted_id\":{\"$oid\":\"65f0\"}}'', 1) \<and>
   fst (executeMongoStep stdmongo stdlib \<lparr>exporter = None\<rparr>
          (mongoExample ''add-cy'' 0 usersInsert) Map.empty) = None"
    using T [where document = "''{\"name\":\"cy\"}''" and insertedID = "''{\"$oid\":\"65f0\"}''"
        and payload = "''{\"inserted_id\":{\"$oid\":\"65f0\"}}''",
        OF c5 example_ops(5) [symmetric] r5(1) [symmetric] r5(2) [symmetric],
        THEN conjunct2, THEN conjunct2, THEN conjunct2, THEN conjunct2, THEN conjunct2, THEN conjunct1, THEN mp]
      example_parsed(3) example_driver(5,6,7)
    by (simp add: ensureExpectedAffectedRows_def example_steps mongoExample_fields)
  have c6: "mongoConnected stdmongo stdlib (mongoExample ''set-age'' 1 usersUpdate) usersUpdate Map.empty"
    by (rule R(1)) (simp_all add: example_steps mongoExample_fields example_cfg_fields example_ops mongoOp_defs)
  have r6: "mongoDatabase stdlib usersUpdate Map.empty = ''app''"
    "mongoCollection stdlib usersUpdate Map.empty = ''users''"
    using R(2,3) [of "mongoExample ''set-age'' 1 usersUpdate" usersUpdate]
    by (simp_all add: example_steps mongoExample_fields example_cfg_fields example_ops mongoOp_defs)
  have e6: "mongoSwitch stdmongo stdlib (mongoExample ''set-age'' 1 usersUpdate) usersUpdate Map.empty
     ''app'' ''users'' mongoOpUpdateOne = Inr (''{\"matched_count\":0,\"modified_count\":0,\"upserted_count\":1}'', 1) \<and>
   fst (executeMongoStep stdmongo stdlib \<lparr>exporter = None\<rparr>
          (mongoExample ''set-age'' 1 usersUpdate) Map.empty) = None"
    using T [where filterDoc = "''{\"name\":\"zed\"}''" and updateDoc = "''{\"$set\":{\"age\":9}}''"
        and res = "\<lparr>MatchedCount = 0, ModifiedCount = 0, UpsertedCount = 1, UpsertedID = Some ''{\"$oid\":\"65f1\"}''\<rparr>"
        and payload = "''{\"matched_count\":0,\"modified_count\":0,\"upserted_count\":1}''",
        OF c6 example_ops(6) [symmetric] r6(1) [symmetric] r6(2) [symmetric],
        THEN conjunct2, THEN conjunct2, THEN conjunct2, THEN conjunct2, THEN conjunct2, THEN conjunct2, THEN conjunct1, THEN mp]
      example_parsed(4,5) example_driver(8,9,10)
    by (simp add: ensureExpectedAffectedRows_def example_steps mongoExample_fields)
  have c7: "mongoConnected stdmongo stdlib (mongoExample ''drop-zed'' 2 usersDelete) usersDelete Map.empty"
    by (rule R(1)) (simp_all add: example_steps mongoExample_fields example_cfg_fields example_ops mongoOp_defs)
  have r7: "mongoDatabase stdlib usersDelete Map.empty = ''app''"
    "mongoCollection stdlib usersDelete Map.empty = ''users''"
    using R(2,3) [of "mongoExample ''drop-zed'' 2 usersDelete" usersDelete]
    by (simp_all add: example_steps mongoExample_fields example_cfg_fields example_ops mongoOp_defs)
  have e7: "mongoSwitch stdmongo stdlib (mongoExample ''drop-zed'' 2 usersDelete) usersDelete Map.empty
     ''app'' ''users'' mongoOpDeleteOne = Inr (''{\"deleted_count\":1}'', 1) \<and>
   fst (executeMongoStep stdmongo stdlib \<lparr>exporter = None\<rparr>
          (mongoExample ''drop-zed'' 2 usersDelete) Map.empty) = Some (ErrUnexpectedAffectedRows ''drop-zed'' 1)"
    using T [where filterDoc = "''{\"name\":\"zed\"}''" and deletedCount = 1 and payload = "''{\"deleted_count\":1}''",
        OF c7 example_ops(7) [symmetric] r7(1) [symmetric] r7(2) [symmetric],
        THEN conjunct2, THEN conjunct2, THEN conjunct2, THEN conjunct2, THEN conjunct2, THEN conjunct2, THEN conjunct2, THEN conjunct1, THEN mp]
      example_parsed(6) example_driver(11,12)
    by (simp add: ensureExpectedAffectedRows_def example_steps mongoExample_fields)
  have c8: "mongoConnected stdmongo stdlib (mongoExample ''ping'' 1 pingCommand) pingCommand Map.empty"
    by (rule ping_resolved(1))
  have r8: "mongoDatabase stdlib pingCommand Map.empty = ''app''"
    "mongoCollection stdlib pingCommand Map.empty = []"
    by (rule ping_resolved(2), rule ping_resolved(3))
  have e8: "mongoSwitch stdmongo stdlib (mongoExample ''ping'' 1 pingCommand) pingCommand Map.empty
     ''app'' [] mongoOpCommand = Inr (''{\"ok\":1}'', 1) \<and>
   fst (executeMongoStep stdmongo stdlib \<lparr>exporter = None\<rparr>
          (mongoExample ''ping'' 1 pingCommand) Map.empty) = None"
    using T [where commandDoc = "''{\"ping\":1}''" and result = "''{\"ok\":1}''" and payload = "''{\"ok\":1}''",
        OF c8 ping_resolved(4) [symmetric] r8(1) [symmetric] r8(2) [symmetric],
        THEN conjunct2, THEN conjunct2, THEN conjunct2, THEN conjunct2, THEN conjunct2, THEN conjunct2, THEN conjunct2, THEN conjunct2, THEN mp]
      example_parsed(7,8) example_driver(13,14)
    by (simp add: ensureExpectedAffectedRows_def example_steps mongoExample_fields)
  from e1 e2 e3 e4 e5 e6 e7 e8 show ?thesis by (intro conjI) simp_all
qed

subsection \<open>Composite descriptor source\<close>

lemma appendMissing_filter:
  "appendMissing g tags exts fileExts = exts @ filter (\<lambda>e. g e \<notin> tags) fileExts"
  by (induction fileExts arbitrary: exts) simp_all

lemma distinct_merge:
  assumes "distinct (map g exts)" "distinct (map g fexts)"
  shows "distinct (map g (exts @ filter (\<lambda>e. g e \<notin> g ` set exts) fexts))"
proof -
  have "distinct (map g (filter (\<lambda>e. g e \<notin> g ` set exts) fexts))"
    using assms(2) by (simp add: distinct_map_filter)
  moreover have "g ` set exts \<inter> g ` set (filter (\<lambda>e. g e \<notin> g ` set exts) fexts) = {}"
    by (auto simp: image_iff)
  ultimately show ?thesis using assms(1) by simp
qed

text \<open>
  C7. \<^verbatim>\<open>FindSymbol\<close> of the composite source returns the reflection source's
  descriptor, calling no other source, when reflection resolves the symbol, and calls the
  static source, returning what it returns, exactly when reflection fails.
  \<^verbatim>\<open>AllExtensionsForType\<close>, when both sources answer, returns the reflection entries
  followed by the static entries whose field number no reflection entry has: its field
  numbers are those of both lists, an entry whose number a reflection entry has is a
  reflection entry, and no number occurs twice when none does within either list. When one
  source fails the other's answer is returned.
\<close>

theorem composite_source_prefers_reflection:
  "(FindSymbol (reflection cs) name = Inr d \<longrightarrow>
      composite_FindSymbol cs name = (Inr d, [Reflection])) \<and>
   (FindSymbol (reflection cs) name = Inl e \<longrightarrow>
      composite_FindSymbol cs name =
        (FindSymbol (compositeDescriptorSource.file cs) name, [Reflection, File])) \<and>
   (File \<in> set (snd (composite_FindSymbol cs name)) \<longleftrightarrow>
      (\<exists>e. FindSymbol (reflection cs) name = Inl e)) \<and>
   (AllExtensionsForType (reflection cs) t = Inr exts \<and>
    AllExtensionsForType (compositeDescriptorSource.file cs) t = Inr fexts \<longrightarrow>
      (\<exists>res. composite_AllExtensionsForType g cs t = Inr res \<and>
         res = exts @ filter (\<lambda>x. g x \<notin> g ` set exts) fexts \<and>
         g ` set res = g ` set exts \<union> g ` set fexts \<and>
         (\<forall>x \<in> set res. g x \<in> g ` set exts \<longrightarrow> x \<in> set exts) \<and>
         (distinct (map g exts) \<and> distinct (map g fexts) \<longrightarrow> distinct (map g res)))) \<and>
   (AllExtensionsForType (reflection cs) t = Inl e \<longrightarrow>
      composite_AllExtensionsForType g cs t =
        AllExtensionsForType (compositeDescriptorSource.file cs) t) \<and>
   (AllExtensionsForType (reflection cs) t = Inr exts \<and>
    AllExtensionsForType (compositeDescriptorSource.file cs) t = Inl e \<longrightarrow>
      composite_AllExtensionsForType g cs t = Inr exts)"
proof (intro conjI impI)
  show "File \<in> set (snd (composite_FindSymbol cs name)) \<longleftrightarrow>
      (\<exists>e. FindSymbol (reflection cs) name = Inl e)"
    by (cases "FindSymbol (reflection cs) name") (simp_all add: composite_FindSymbol_def)
next
  assume a: "AllExtensionsForType (reflection cs) t = Inr exts \<and>
    AllExtensionsForType (compositeDescriptorSource.file cs) t = Inr fexts"
  let ?res = "exts @ filter (\<lambda>x. g x \<notin> g ` set exts) fexts"
  have r: "composite_AllExtensionsForType g cs t = Inr ?res"
    using a by (simp add: composite_AllExtensionsForType_def appendMissing_filter)
  have n: "g ` set ?res = g ` set exts \<union> g ` set fexts" by auto
  have p: "\<forall>x \<in> set ?res. g x \<in> g ` set exts \<longrightarrow> x \<in> set exts" by auto
  have d: "distinct (map g exts) \<and> distinct (map g fexts) \<longrightarrow> distinct (map g ?res)"
    using distinct_merge [of g exts fexts] by blast
  from r n p d
  show "\<exists>res. composite_AllExtensionsForType g cs t = Inr res \<and>
         res = exts @ filter (\<lambda>x. g x \<notin> g ` set exts) fexts \<and>
         g ` set res = g ` set exts \<union> g ` set fexts \<and>
         (\<forall>x \<in> set res. g x \<in> g ` set exts \<longrightarrow> x \<in> set exts) \<and>
         (distinct (map g exts) \<and> distinct (map g fexts) \<longrightarrow> distinct (map g res))"
    by blast
qed (simp_all add: composite_FindSymbol_def composite_AllExtensionsForType_def)

theorem composite_source_prefers_reflection_witness:
  "FindSymbol (reflection bothSources) ''pkg.Greeter'' = Inr ''pkg.Greeter from reflection'' \<and>
   composite_FindSymbol bothSources ''pkg.Greeter'' = (Inr ''pkg.Greeter from reflection'', [Reflection]) \<and>
   FindSymbol (reflection bothSources) ''pkg.Local'' = Inl ''Symbol not found: pkg.Local'' \<and>
   composite_FindSymbol bothSources ''pkg.Local'' = (Inr ''pkg.Local from file'', [Reflection, File]) \<and>
   AllExtensionsForType (reflection bothSources) ''pkg.Msg'' = Inr [(''refl.a'', 100), (''refl.b'', 101)] \<and>
   AllExtensionsForType (compositeDescriptorSource.file bothSources) ''pkg.Msg''
     = Inr [(''file.b'', 101), (''file.c'', 102)] \<and>
   distinct (map snd [(''refl.a'', 100 :: 32 word), (''refl.b'', 101)]) \<and>
   distinct (map snd [(''file.b'', 101 :: 32 word), (''file.c'', 102)]) \<and>
   composite_AllExtensionsForType snd bothSources ''pkg.Msg''
     = Inr [(''refl.a'', 100), (''refl.b'', 101), (''file.c'', 102)]"
proof -
  have f1: "FindSymbol (reflection bothSources) ''pkg.Greeter'' = Inr ''pkg.Greeter from reflection''"
    and f2: "FindSymbol (reflection bothSources) ''pkg.Local'' = Inl ''Symbol not found: pkg.Local''"
    and f3: "FindSymbol (compositeDescriptorSource.file bothSources) ''pkg.Local'' = Inr ''pkg.Local from file''"
    and a1: "AllExtensionsForType (reflection bothSources) ''pkg.Msg''
       = Inr [(''refl.a'', 100), (''refl.b'', 101)]"
    and a2: "AllExtensionsForType (compositeDescriptorSource.file bothSources) ''pkg.Msg''
       = Inr [(''file.b'', 101), (''file.c'', 102)]"
    by (simp_all add: bothSources_def reflSource_def fileSource_def)
  note t = composite_source_prefers_reflection [where cs = bothSources and g = snd]
  from t [where name = "''pkg.Greeter''", THEN conjunct1, THEN mp, OF f1]
  have c1: "composite_FindSymbol bothSources ''pkg.Greeter''
      = (Inr ''pkg.Greeter from reflection'', [Reflection])" .
  from t [where name = "''pkg.Local''", THEN conjunct2, THEN conjunct1, THEN mp, OF f2] f3
  have c2: "composite_FindSymbol bothSources ''pkg.Local'' = (Inr ''pkg.Local from file'', [Reflection, File])"
    by simp
  from t [where t = "''pkg.Msg''", THEN conjunct2, THEN conjunct2, THEN conjunct2, THEN conjunct1,
      THEN mp, OF conjI [OF a1 a2]]
  have c3: "composite_AllExtensionsForType snd bothSources ''pkg.Msg''
     = Inr [(''refl.a'', 100), (''refl.b'', 101), (''file.c'', 102)]"
    by auto
  have d: "distinct (map snd [(''refl.a'', 100 :: 32 word), (''refl.b'', 101)])"
    "distinct (map snd [(''file.b'', 101 :: 32 word), (''file.c'', 102)])"
    by simp_all
  from f1 f2 a1 a2 c1 c2 c3 d show ?thesis by simp
qed


subsection \<open>Template rendering\<close>

text \<open>
  C4. \<^verbatim>\<open>render\<close> returns the template text itself when the template fails to parse
  or to execute, and otherwise the executed output with its surrounding white space
  trimmed. Hence, for a template that the engine executes to the value the context holds
  for a variable (the empty string when the context does not hold it, as
  \<^verbatim>\<open>missingkey=zero\<close> gives on a map of strings), \<^verbatim>\<open>render\<close> returns that value
  when the variable is present (a value that trimming leaves as it is, such as \<^verbatim>\<open>5\<close>)
  and the empty string, without error, when it is missing.
\<close>

theorem render_fail_soft_and_trimmed:
  "(Parse L tmpl = None \<longrightarrow> render L tmpl vars = tmpl) \<and>
   (Parse L tmpl = Some t \<and> Execute L t vars = None \<longrightarrow> render L tmpl vars = tmpl) \<and>
   (tmpl \<noteq> [] \<and> Parse L tmpl = Some t \<and> Execute L t vars = Some out \<longrightarrow>
      render L tmpl vars = TrimSpace L out) \<and>
   (tmpl = [] \<longrightarrow> render L tmpl vars = []) \<and>
   (tmpl \<noteq> [] \<and> Parse L tmpl = Some t \<and> Execute L t vars = Some (index vars x) \<and>
    vars x = Some v \<and> TrimSpace L v = v \<longrightarrow> render L tmpl vars = v) \<and>
   (tmpl \<noteq> [] \<and> Parse L tmpl = Some t \<and> Execute L t vars = Some (index vars x) \<and>
    vars x = None \<and> TrimSpace L [] = [] \<longrightarrow> render L tmpl vars = [])"
  by (auto simp: render_def index_def)

lemma stdlib_templates:
  "Parse stdlib ''{{.x}}'' = Some [Text [], Field ''x'', Text []]"
  "Parse stdlib ''{{.missing}}'' = Some [Text [], Field ''missing'', Text []]"
  "Parse stdlib ''{{.x'' = None"
  "Parse stdlib '' Hello {{.name}} '' = Some [Text '' Hello '', Field ''name'', Text '' '']"
  by (simp_all add: stdlib_def isField_def asciiTrimSpace_def isSpace_def)

lemma stdlib_execute:
  "Execute stdlib [Text [], Field x, Text []] vars = Some (index vars x)"
  "Execute stdlib [Text '' Hello '', Field ''name'', Text '' ''] [''name'' \<mapsto> ''codex'']
     = Some '' Hello codex ''"
  by (simp_all add: stdlib_def miniExecute_def index_def)

theorem render_fail_soft_and_trimmed_witness:
  "Parse stdlib ''{{.x}}'' = Some [Text [], Field ''x'', Text []] \<and>
   Execute stdlib [Text [], Field ''x'', Text []] [''x'' \<mapsto> ''5''] = Some (index [''x'' \<mapsto> ''5''] ''x'') \<and>
   render stdlib ''{{.x}}'' [''x'' \<mapsto> ''5''] = ''5'' \<and>
   Parse stdlib ''{{.missing}}'' = Some [Text [], Field ''missing'', Text []] \<and>
   render stdlib ''{{.missing}}'' Map.empty = [] \<and>
   Parse stdlib ''{{.x'' = None \<and>
   render stdlib ''{{.x'' [''x'' \<mapsto> ''5''] = ''{{.x'' \<and>
   Execute stdlib [Text '' Hello '', Field ''name'', Text '' ''] [''name'' \<mapsto> ''codex'']
     = Some '' Hello codex '' \<and>
   render stdlib '' Hello {{.name}} '' [''name'' \<mapsto> ''codex''] = ''Hello codex''"
proof -
  note t = render_fail_soft_and_trimmed [where L = stdlib]
  have trim: "TrimSpace stdlib ''5'' = ''5''" "TrimSpace stdlib [] = []"
    "TrimSpace stdlib '' Hello codex '' = ''Hello codex''"
    by (simp_all add: stdlib_def asciiTrimSpace_def isSpace_def)
  from t [where tmpl = "''{{.x}}''" and vars = "[''x'' \<mapsto> ''5'']" and x = "''x''" and v = "''5''"
      and t = "[Text [], Field ''x'', Text []]",
      THEN conjunct2, THEN conjunct2, THEN conjunct2, THEN conjunct2, THEN conjunct1, THEN mp]
    stdlib_templates(1) stdlib_execute(1) trim(1)
  have r1: "render stdlib ''{{.x}}'' [''x'' \<mapsto> ''5''] = ''5''" by simp
  from t [where tmpl = "''{{.missing}}''" and vars = Map.empty and x = "''missing''"
      and t = "[Text [], Field ''missing'', Text []]",
      THEN conjunct2, THEN conjunct2, THEN conjunct2, THEN conjunct2, THEN conjunct2, THEN mp]
    stdlib_templates(2) stdlib_execute(1) trim(2)
  have r2: "render stdlib ''{{.missing}}'' Map.empty = []" by simp
  from t [where tmpl = "''{{.x''" and vars = "[''x'' \<mapsto> ''5'']", THEN conjunct1, THEN mp]
    stdlib_templates(3)
  have r3: "render stdlib ''{{.x'' [''x'' \<mapsto> ''5''] = ''{{.x''" by simp
  from t [where tmpl = "'' Hello {{.name}} ''" and vars = "[''name'' \<mapsto> ''codex'']"
      and t = "[Text '' Hello '', Field ''name'', Text '' '']" and out = "'' Hello codex ''",
      THEN conjunct2, THEN conjunct2, THEN conjunct1, THEN mp]
    stdlib_templates(4) stdlib_execute(2) trim(3)
  have r4: "render stdlib '' Hello {{.name}} '' [''name'' \<mapsto> ''codex''] = ''Hello codex''" by simp
  from r1 r2 r3 r4 stdlib_templates stdlib_execute show ?thesis by simp
qed

subsection \<open>Step dispatch\<close>

lemma classifyStep_order:
  "classifyStep L step =
     (if TrimSpace L (SQL step) \<noteq> [] then ''sql''
      else if Mongo step \<noteq> None then ''mongo''
      else if GRPC step \<noteq> None then ''grpc''
      else if Method step \<noteq> [] \<and> URL step \<noteq> [] then ''http'' else ''step'')"
  by (simp add: classifyStep_def)

text \<open>
  C3 (as amended). For a step that is not skipped and whose wait, if any, parses:
  non-empty trimmed rendered SQL text sends it to the SQL executor; otherwise a present
  Mongo block to the document-store executor; otherwise a present GRPC block to the RPC
  executor; otherwise non-empty method and url to HTTP; otherwise the step fails with the
  error whose text is \<^verbatim>\<open>step "<name>" requires sql, grpc, or method/url fields\<close>. The
  default timeout is applied before the executor runs.
\<close>

theorem executeStep_route_order:
  assumes "\<not> Skip step" "Wait step = [] \<or> ParseDuration L (render L (Wait step) vars) = None"
    "sqlStmt = TrimSpace L (render L (SQL step) vars)"
  shows "(sqlStmt \<noteq> [] \<longrightarrow>
            executeStep_route L step vars = Inr (RunSQL (applyDefaults step) sqlStmt)) \<and>
         (sqlStmt = [] \<and> Mongo step \<noteq> None \<longrightarrow>
            executeStep_route L step vars = Inr (RunMongo (applyDefaults step))) \<and>
         (sqlStmt = [] \<and> Mongo step = None \<and> GRPC step \<noteq> None \<longrightarrow>
            executeStep_route L step vars = Inr (RunGRPC (applyDefaults step))) \<and>
         (sqlStmt = [] \<and> Mongo step = None \<and> GRPC step = None \<and> Method step \<noteq> [] \<and> URL step \<noteq> [] \<longrightarrow>
            executeStep_route L step vars =
              Inr (RunHTTP (applyDefaults step) (render L (URL step) vars) (render L (Body step) vars))) \<and>
         (sqlStmt = [] \<and> Mongo step = None \<and> GRPC step = None \<and> (Method step = [] \<or> URL step = []) \<longrightarrow>
            executeStep_route L step vars = Inl (ErrRequiresFields (Name step))) \<and>
         error_message L (ErrRequiresFields (Name step)) =
           ''step '' @ Quote L (Name step) @ '' requires sql, grpc, or method/url fields'' \<and>
         TimeoutSeconds (applyDefaults step) = (if TimeoutSeconds step = 0 then 10 else TimeoutSeconds step)"
  using assms by (auto simp: executeStep_route_def error_message_def applyDefaults_def Let_def)

theorem executeStep_route_order_witness:
  "\<not> Skip lookupStep \<and> Wait lookupStep = [] \<and>
   executeStep_route stdlib (lookupStep\<lparr>SQL := '' SELECT * FROM users '', Mongo := Some usersFind\<rparr>) Map.empty
     = Inr (RunSQL (lookupStep\<lparr>SQL := '' SELECT * FROM users '', Mongo := Some usersFind,
                               TimeoutSeconds := 10\<rparr>) ''SELECT * FROM users'') \<and>
   executeStep_route stdlib (findZed\<lparr>Method := ''GET'', URL := ''http://localhost/''\<rparr>) Map.empty
     = Inr (RunMongo (findZed\<lparr>Method := ''GET'', URL := ''http://localhost/'', TimeoutSeconds := 10\<rparr>)) \<and>
   executeStep_route stdlib (echoStep\<lparr>TimeoutSeconds := 3\<rparr>) Map.empty
     = Inr (RunHTTP (echoStep\<lparr>TimeoutSeconds := 3\<rparr>) ''http://localhost/echo'' []) \<and>
   executeStep_route stdlib (emptyStep\<lparr>Name := ''nothing'', Method := ''GET''\<rparr>) Map.empty
     = Inl (ErrRequiresFields ''nothing'') \<and>
   error_message stdlib (ErrRequiresFields ''nothing'')
     = ''step \"nothing\" requires sql, grpc, or method/url fields''"
proof -
  have trim: "TrimSpace stdlib [] = []" "TrimSpace stdlib ''SELECT * FROM users'' = ''SELECT * FROM users''"
    by (simp_all add: stdlib_def asciiTrimSpace_def isSpace_def)
  have rs: "render stdlib '' SELECT * FROM users '' Map.empty = ''SELECT * FROM users''"
    "render stdlib ''http://localhost/echo'' Map.empty = ''http://localhost/echo''"
    "render stdlib [] Map.empty = []"
    by (simp_all add: render_def stdlib_def miniExecute_def asciiTrimSpace_def isSpace_def)
  let ?s1 = "lookupStep\<lparr>SQL := '' SELECT * FROM users '', Mongo := Some usersFind\<rparr>"
  let ?s2 = "findZed\<lparr>Method := ''GET'', URL := ''http://localhost/''\<rparr>"
  let ?s3 = "echoStep\<lparr>TimeoutSeconds := 3\<rparr>"
  let ?s4 = "emptyStep\<lparr>Name := ''nothing'', Method := ''GET''\<rparr>"
  have h: "\<not> Skip ?s1" "Wait ?s1 = []" "\<not> Skip ?s2" "Wait ?s2 = []" "\<not> Skip ?s3" "Wait ?s3 = []"
    "\<not> Skip ?s4" "Wait ?s4 = []" "\<not> Skip lookupStep" "Wait lookupStep = []"
    by (simp_all add: lookupStep_def findZed_def echoStep_def emptyStep_def)
  have q: "TrimSpace stdlib (render stdlib (SQL ?s1) Map.empty) = ''SELECT * FROM users''"
    "TrimSpace stdlib (render stdlib (SQL ?s2) Map.empty) = []"
    "TrimSpace stdlib (render stdlib (SQL ?s3) Map.empty) = []"
    "TrimSpace stdlib (render stdlib (SQL ?s4) Map.empty) = []"
    by (simp_all add: rs trim lookupStep_def findZed_def echoStep_def emptyStep_def)
  from executeStep_route_order [where L = stdlib and vars = Map.empty, OF h(1) disjI1 [OF h(2)] q(1) [symmetric],
      THEN conjunct1]
  have r1: "executeStep_route stdlib ?s1 Map.empty
     = Inr (RunSQL (lookupStep\<lparr>SQL := '' SELECT * FROM users '', Mongo := Some usersFind,
                               TimeoutSeconds := 10\<rparr>) ''SELECT * FROM users'')"
    by (simp add: applyDefaults_def lookupStep_def emptyStep_def)
  from executeStep_route_order [where L = stdlib and vars = Map.empty, OF h(3) disjI1 [OF h(4)] q(2) [symmetric],
      THEN conjunct2, THEN conjunct1]
  have r2: "executeStep_route stdlib ?s2 Map.empty
     = Inr (RunMongo (findZed\<lparr>Method := ''GET'', URL := ''http://localhost/'', TimeoutSeconds := 10\<rparr>))"
    by (simp add: applyDefaults_def findZed_def emptyStep_def)
  from executeStep_route_order [where L = stdlib and vars = Map.empty, OF h(5) disjI1 [OF h(6)] q(3) [symmetric],
      THEN conjunct2, THEN conjunct2, THEN conjunct2, THEN conjunct1]
  have r3: "executeStep_route stdlib ?s3 Map.empty
     = Inr (RunHTTP (echoStep\<lparr>TimeoutSeconds := 3\<rparr>) ''http://localhost/echo'' [])"
    by (simp add: applyDefaults_def echoStep_def emptyStep_def rs)
  note t4 = executeStep_route_order [where L = stdlib and vars = Map.empty,
      OF h(7) disjI1 [OF h(8)] q(4) [symmetric]]
  from t4 [THEN conjunct2, THEN conjunct2, THEN conjunct2, THEN conjunct2, THEN conjunct1]
  have r4: "executeStep_route stdlib ?s4 Map.empty = Inl (ErrRequiresFields ''nothing'')"
    by (simp add: emptyStep_def)
  from t4 [THEN conjunct2, THEN conjunct2, THEN conjunct2, THEN conjunct2, THEN conjunct2, THEN conjunct1]
  have r5: "error_message stdlib (ErrRequiresFields ''nothing'')
     = ''step \"nothing\" requires sql, grpc, or method/url fields''"
    by (simp add: emptyStep_def stdlib_def plainQuote_def)
  from h(9,10) r1 r2 r3 r4 r5 show ?thesis by simp
qed

text \<open>
  C3 as stated fails on the text of the error: a step with none of the fields fails with
  another message than the one claimed.
\<close>

theorem requires_fields_message_differs:
  "executeStep_route stdlib emptyStep Map.empty = Inl (ErrRequiresFields []) \<and>
   error_message stdlib (ErrRequiresFields []) = ''step \"\" requires sql, grpc, or method/url fields'' \<and>
   error_message stdlib (ErrRequiresFields []) \<noteq> ''step requires one of sql/mongo/grpc/http fields''"
  by (simp add: executeStep_route_def error_message_def emptyStep_def render_def stdlib_def
        asciiTrimSpace_def isSpace_def plainQuote_def)

subsection \<open>Export sink\<close>

lemma Close_writes_array:
  "varExporter_Close L (Some \<lparr>varExporter.file = Some \<lparr>closed = False, written = w\<rparr>, records = rs\<rparr>) =
     (None, Some \<lparr>varExporter.file = Some \<lparr>closed = True, written = w @ encodeRecords L rs @ [CHR 0x0A]\<rparr>,
                  records = rs\<rparr>)"
  by (simp add: varExporter_Close_def Encode_def file_Write_def)

lemma Close_again_writes_nothing:
  "varExporter_Close L (Some \<lparr>varExporter.file = Some \<lparr>closed = True, written = w\<rparr>, records = rs\<rparr>) =
     (Some (ErrWriteExportedVars ''file already closed''),
      Some \<lparr>varExporter.file = Some \<lparr>closed = True, written = w\<rparr>, records = rs\<rparr>)"
  by (simp add: varExporter_Close_def Encode_def file_Write_def)

text \<open>
  C2 on the code: an exporter on a freshly created file, closed without any record, writes
  the empty JSON array and a newline to the export file.
\<close>

theorem Close_without_records_writes_empty_array:
  "newVarExporter stdlib ''exported_vars.json''
     = Inr \<lparr>varExporter.file = Some \<lparr>closed = False, written = []\<rparr>, records = []\<rparr> \<and>
   varExporter_Close stdlib (Some \<lparr>varExporter.file = Some \<lparr>closed = False, written = []\<rparr>, records = []\<rparr>)
     = (None, Some \<lparr>varExporter.file = Some \<lparr>closed = True, written = ''[]'' @ [CHR 0x0A]\<rparr>, records = []\<rparr>)"
  by (simp add: newVarExporter_def Close_writes_array encodeRecords_def) (simp add: stdlib_def)


end
